theory Spec2Isabelle
  imports Complex_Main
begin

section \<open>Sequence-regression networks of \<^verbatim>\<open>seq_net.py\<close>\<close>

text \<open>
  The module defines one building block, \<^verbatim>\<open>NnSeqBnMLP\<close>, and three dual-branch
  networks composed from layers of the tensor library. The scalars of a tensor are
  modelled as real numbers; a tensor is its shape together with its entries in row-major
  order, which is how a contiguous tensor is laid out, so that \<^verbatim>\<open>reshape\<close> keeps the
  entries and changes the shape only. Every exception the Python raises is a value of
  \<open>error\<close>. The comparison of the step-by-step run with the batched run is the one
  property here that rounding decides; for it the layers are also evaluated in 32-bit
  floating point.
\<close>

subsection \<open>Errors and tensors\<close>

datatype error = IndexError | ValueError | RuntimeError

record tensor =
  shape :: "nat list"
  data :: "real list"

definition numel :: "nat list \<Rightarrow> nat" where
  "numel sh = prod_list sh"

definition wf_tensor :: "tensor \<Rightarrow> bool" where
  "wf_tensor x \<longleftrightarrow> length (data x) = numel (shape x)"

type_synonym matrix = "real list list"

text \<open>The rows of a 2-D view with \<open>n\<close> rows of width \<open>w\<close> over row-major entries.\<close>

definition chunks :: "nat \<Rightarrow> nat \<Rightarrow> 'a list \<Rightarrow> 'a list list" where
  "chunks n w xs = map (\<lambda>i. take w (drop (i * w) xs)) [0..<n]"

subsection \<open>Layers built by \<^verbatim>\<open>NnSeqBnMLP.__init__\<close>\<close>

text \<open>
  A \<open>module\<close> is a layer as the constructor creates it: its kind and its dimensions.
  The parameter values are drawn by the library's initialisers and changed by training;
  they are kept apart, in \<open>params\<close>. The output activations that the networks supply
  are \<^verbatim>\<open>nn.GELU()\<close> and \<^verbatim>\<open>nn.Tanh()\<close>; both act entry by entry.
\<close>

datatype module =
    BatchNorm1d nat
  | Linear nat nat
  | GELU
  | LayerNorm nat
  | Tanh

text \<open>
  \<^verbatim>\<open>
  mlp_list = []
  if if_inp_norm:
      mlp_list.append(nn.BatchNorm1d(dims[0], momentum=0.9))
  mlp_list.append(nn.Linear(dims[0], dims[1]))
  for i in range(1, len(dims) - 1):
      mlp_list.append(nn.GELU())
      mlp_list.append(nn.LayerNorm(dims[i])) if if_layer_norm else None
      mlp_list.append(nn.Linear(dims[i], dims[i + 1]))
  if activation is not None:
      mlp_list.append(activation)
  \<close>
  Reading \<^verbatim>\<open>dims[0]\<close> or \<^verbatim>\<open>dims[1]\<close> of a shorter tuple raises \<^verbatim>\<open>IndexError\<close>.
\<close>

definition py_index :: "'a list \<Rightarrow> nat \<Rightarrow> error + 'a" where
  "py_index xs i = (if i < length xs then Inr (xs ! i) else Inl IndexError)"

text \<open>One pass of the loop body, at index \<open>i\<close>, appending to \<open>mlp_list\<close>.\<close>

definition init_loop_body :: "nat list \<Rightarrow> bool \<Rightarrow> module list \<Rightarrow> nat \<Rightarrow> module list" where
  "init_loop_body dims if_layer_norm mlp_list i =
     (let l1 = mlp_list @ [GELU];
          l2 = (if if_layer_norm then l1 @ [LayerNorm (dims ! i)] else l1)
      in l2 @ [Linear (dims ! i) (dims ! (i + 1))])"

definition NnSeqBnMLP_init ::
  "nat list \<Rightarrow> bool \<Rightarrow> bool \<Rightarrow> module option \<Rightarrow> error + module list" where
  "NnSeqBnMLP_init dims if_inp_norm if_layer_norm activation =
     (case py_index dims 0 of Inl e \<Rightarrow> Inl e | Inr dims0 \<Rightarrow>
      let l0 = (if if_inp_norm then [BatchNorm1d dims0] else []) in
      case py_index dims 1 of Inl e \<Rightarrow> Inl e | Inr dims1 \<Rightarrow>
      let l1 = l0 @ [Linear dims0 dims1];
          l2 = foldl (init_loop_body dims if_layer_norm) l1 [1..<length dims - 1]
      in Inr (case activation of None \<Rightarrow> l2 | Some act \<Rightarrow> l2 @ [act]))"

text \<open>
  The layer sequence in the words of the specification: an optional input normalisation,
  a linear layer, then for each \<open>i\<close> from 1 to \<open>len(dims) - 2\<close> a nonlinearity, an optional
  layer normalisation over \<open>dims[i]\<close> and a linear layer from \<open>dims[i]\<close> to \<open>dims[i+1]\<close>,
  then the optional output activation.
\<close>

definition spec_hidden_block :: "nat list \<Rightarrow> bool \<Rightarrow> nat \<Rightarrow> module list" where
  "spec_hidden_block dims if_layer_norm i =
     [GELU] @ (if if_layer_norm then [LayerNorm (dims ! i)] else [])
       @ [Linear (dims ! i) (dims ! (i + 1))]"

definition spec_layers :: "nat list \<Rightarrow> bool \<Rightarrow> bool \<Rightarrow> module option \<Rightarrow> module list" where
  "spec_layers dims if_inp_norm if_layer_norm activation =
     (if if_inp_norm then [BatchNorm1d (dims ! 0)] else [])
     @ [Linear (dims ! 0) (dims ! 1)]
     @ concat (map (spec_hidden_block dims if_layer_norm) [1..<length dims - 1])
     @ (case activation of None \<Rightarrow> [] | Some act \<Rightarrow> [act])"

subsection \<open>Layer semantics of the tensor library\<close>

text \<open>
  The layers are the library's; their semantics is the documented one, over the reals.
  A 2-D input of \<open>N\<close> rows is a list of rows. \<^verbatim>\<open>Linear\<close> computes \<open>x W\<^sup>T + b\<close>,
  \<^verbatim>\<open>LayerNorm\<close> normalises each row with its own mean and biased variance,
  \<^verbatim>\<open>BatchNorm1d\<close> normalises each column: with the statistics of the batch in training
  mode (where a single row is refused, before the number of features is looked at), with
  the running statistics in evaluation mode.
  In training mode the library also updates the running statistics; a forward pass is
  modelled by its output, for fixed parameters. \<^verbatim>\<open>GELU\<close> is \<open>x \<Phi>(x)\<close> with the Gaussian distribution function
  \<open>\<Phi>(x) = (1 + erf (x / \<surd>2)) / 2\<close>.
\<close>

datatype params =
    P_None
  | P_Linear (weight: matrix) (bias: "real list")
  | P_LayerNorm (ln_weight: "real list") (ln_bias: "real list")
  | P_BatchNorm1d (bn_weight: "real list") (bn_bias: "real list")
      (running_mean: "real list") (running_var: "real list")

definition eps :: real where
  "eps = 1 / 100000"

definition erf :: "real \<Rightarrow> real" where
  "erf x = 2 / sqrt pi * (\<Sum>n. (- 1) ^ n * x ^ (2 * n + 1) / (fact n * real (2 * n + 1)))"

definition gelu :: "real \<Rightarrow> real" where
  "gelu x = x * ((1 + erf (x / sqrt 2)) / 2)"

definition dot :: "real list \<Rightarrow> real list \<Rightarrow> real" where
  "dot w x = sum_list (map2 (*) w x)"

definition linear_row :: "matrix \<Rightarrow> real list \<Rightarrow> real list \<Rightarrow> real list" where
  "linear_row W b x = map2 (\<lambda>w bi. dot w x + bi) W b"

definition mean :: "real list \<Rightarrow> real" where
  "mean xs = sum_list xs / real (length xs)"

definition var :: "real list \<Rightarrow> real" where
  "var xs = mean (map (\<lambda>x. (x - mean xs)\<^sup>2) xs)"

definition normalize :: "real \<Rightarrow> real \<Rightarrow> real \<Rightarrow> real \<Rightarrow> real \<Rightarrow> real" where
  "normalize m v g b x = (x - m) / sqrt (v + eps) * g + b"

definition layer_norm_row :: "real list \<Rightarrow> real list \<Rightarrow> real list \<Rightarrow> real list" where
  "layer_norm_row g b x =
     map (\<lambda>(xi, gi, bi). normalize (mean x) (var x) gi bi xi) (zip x (zip g b))"

definition batch_norm_row ::
  "real list \<Rightarrow> real list \<Rightarrow> real list \<Rightarrow> real list \<Rightarrow> real list \<Rightarrow> real list" where
  "batch_norm_row ms vs g b x =
     map (\<lambda>(xi, mi, vi, gi, bi). normalize mi vi gi bi xi) (zip x (zip ms (zip vs (zip g b))))"

definition width :: "matrix \<Rightarrow> nat" where
  "width X = length (hd X)"

definition columns :: "matrix \<Rightarrow> matrix" where
  "columns X = map (\<lambda>c. map (\<lambda>r. r ! c) X) [0..<width X]"

text \<open>
  One layer on a single row: what the layer computes on a 1-row input in evaluation mode.
  A layer whose parameters are not of its kind cannot be called.
\<close>

fun module_row :: "module \<times> params \<Rightarrow> real list \<Rightarrow> error + real list" where
  "module_row (Linear i oup, P_Linear W b) x =
     (if length x \<noteq> i then Inl RuntimeError else Inr (linear_row W b x))"
| "module_row (LayerNorm d, P_LayerNorm g b) x =
     (if length x \<noteq> d then Inl RuntimeError else Inr (layer_norm_row g b x))"
| "module_row (BatchNorm1d c, P_BatchNorm1d g b rm rv) x =
     (if length x \<noteq> c then Inl RuntimeError else Inr (batch_norm_row rm rv g b x))"
| "module_row (GELU, P_None) x = Inr (map gelu x)"
| "module_row (Tanh, P_None) x = Inr (map tanh x)"
| "module_row _ x = Inl RuntimeError"

text \<open>One layer on a 2-D input of at least one row, in training or evaluation mode.\<close>

fun module_forward :: "bool \<Rightarrow> module \<times> params \<Rightarrow> matrix \<Rightarrow> error + matrix" where
  "module_forward tr (Linear i oup, P_Linear W b) X =
     (if width X \<noteq> i then Inl RuntimeError else Inr (map (linear_row W b) X))"
| "module_forward tr (LayerNorm d, P_LayerNorm g b) X =
     (if width X \<noteq> d then Inl RuntimeError else Inr (map (layer_norm_row g b) X))"
| "module_forward tr (BatchNorm1d c, P_BatchNorm1d g b rm rv) X =
     (if tr \<and> length X \<le> 1 then Inl ValueError
      else if width X \<noteq> c then Inl RuntimeError
      else if tr then
        Inr (map (batch_norm_row (map mean (columns X)) (map var (columns X)) g b) X)
      else Inr (map (batch_norm_row rm rv g b) X))"
| "module_forward tr (GELU, P_None) X = Inr (map (map gelu) X)"
| "module_forward tr (Tanh, P_None) X = Inr (map (map tanh) X)"
| "module_forward tr _ X = Inl RuntimeError"

text \<open>\<^verbatim>\<open>nn.Sequential\<close>: each layer is applied to the output of the one before.\<close>

fun Sequential_forward :: "bool \<Rightarrow> (module \<times> params) list \<Rightarrow> matrix \<Rightarrow> error + matrix" where
  "Sequential_forward tr [] X = Inr X"
| "Sequential_forward tr (l # ls) X =
     (case module_forward tr l X of Inl e \<Rightarrow> Inl e | Inr Y \<Rightarrow> Sequential_forward tr ls Y)"

fun Sequential_row :: "(module \<times> params) list \<Rightarrow> real list \<Rightarrow> error + real list" where
  "Sequential_row [] x = Inr x"
| "Sequential_row (l # ls) x =
     (case module_row l x of Inl e \<Rightarrow> Inl e | Inr y \<Rightarrow> Sequential_row ls y)"

subsection \<open>\<^verbatim>\<open>NnSeqBnMLP.forward\<close>\<close>

text \<open>
  \<^verbatim>\<open>
  def forward(self, seq):
      d0, d1, d2 = seq.shape
      inp = seq.reshape(d0 * d1, -1)
      out = self.mlp(inp)
      return out.reshape(d0, d1, -1)
  \<close>
  Unpacking a shape that has not exactly three entries raises \<^verbatim>\<open>ValueError\<close>. A reshape
  to \<open>(0, -1)\<close> is refused by the library (the free dimension is ambiguous); otherwise
  the free dimension is \<open>d2\<close>. A module is in training mode unless it was switched to
  evaluation mode.
\<close>

record NnSeqBnMLP =
  mlp :: "(module \<times> params) list"
  training :: bool

definition from_rows :: "nat \<Rightarrow> nat \<Rightarrow> matrix \<Rightarrow> tensor" where
  "from_rows d0 d1 X = \<lparr>shape = [d0, d1, width X], data = concat X\<rparr>"

definition NnSeqBnMLP_forward :: "NnSeqBnMLP \<Rightarrow> tensor \<Rightarrow> error + tensor" where
  "NnSeqBnMLP_forward m seq =
     (case shape seq of
        [d0, d1, d2] \<Rightarrow>
          if d0 * d1 = 0 then Inl RuntimeError
          else (case Sequential_forward (training m) (mlp m) (chunks (d0 * d1) d2 (data seq)) of
                  Inl e \<Rightarrow> Inl e
                | Inr out \<Rightarrow> Inr (from_rows d0 d1 out))
      | _ \<Rightarrow> Inl ValueError)"

text \<open>The feature vector of a 3-D tensor at time step \<open>t\<close> and batch element \<open>b\<close>.\<close>

definition slice :: "tensor \<Rightarrow> nat \<Rightarrow> nat \<Rightarrow> real list" where
  "slice x t b = take (shape x ! 2) (drop ((t * (shape x ! 1) + b) * (shape x ! 2)) (data x))"

definition get3 :: "tensor \<Rightarrow> nat \<Rightarrow> nat \<Rightarrow> nat \<Rightarrow> real" where
  "get3 x i j k = data x ! ((i * (shape x ! 1) + j) * (shape x ! 2) + k)"

text \<open>
  Views of a 3-D tensor: its rows (one per time step and batch element), and the tensor
  with given entries. \<^verbatim>\<open>permute\<close> reorders the axes, \<^verbatim>\<open>cat\<close> with \<^verbatim>\<open>dim=2\<close> joins the
  feature vectors of two tensors that agree on the leading two axes.
\<close>

definition rows3 :: "tensor \<Rightarrow> matrix" where
  "rows3 x = chunks (shape x ! 0 * shape x ! 1) (shape x ! 2) (data x)"

definition tab3 :: "nat \<Rightarrow> nat \<Rightarrow> nat \<Rightarrow> (nat \<Rightarrow> nat \<Rightarrow> nat \<Rightarrow> real) \<Rightarrow> tensor" where
  "tab3 d0 d1 d2 f =
     \<lparr>shape = [d0, d1, d2],
      data = concat (map (\<lambda>r. map (f (r div d1) (r mod d1)) [0..<d2]) [0..<d0 * d1])\<rparr>"

definition permute_120 :: "tensor \<Rightarrow> error + tensor" where
  "permute_120 x =
     (case shape x of
        [d0, d1, d2] \<Rightarrow> Inr (tab3 d1 d2 d0 (\<lambda>j k i. get3 x i j k))
      | _ \<Rightarrow> Inl RuntimeError)"

definition permute_201 :: "tensor \<Rightarrow> error + tensor" where
  "permute_201 x =
     (case shape x of
        [d0, d1, d2] \<Rightarrow> Inr (tab3 d2 d0 d1 (\<lambda>k i j. get3 x i j k))
      | _ \<Rightarrow> Inl RuntimeError)"

definition cat_dim2 :: "tensor \<Rightarrow> tensor \<Rightarrow> error + tensor" where
  "cat_dim2 a b =
     (case (shape a, shape b) of
        ([t, n, w1], [t', n', w2]) \<Rightarrow>
          if t = t' \<and> n = n'
          then Inr \<lparr>shape = [t, n, w1 + w2], data = concat (map2 (@) (rows3 a) (rows3 b))\<rparr>
          else Inl RuntimeError
      | _ \<Rightarrow> Inl RuntimeError)"

subsection \<open>Recurrent encoders of the library\<close>

text \<open>
  \<^verbatim>\<open>nn.LSTM\<close> and \<^verbatim>\<open>nn.GRU\<close> with \<open>num_layers\<close> stacked layers, sequence-first input of
  shape \<open>(T, B, input_size)\<close>. At each time step the input passes through the layers in
  order, each layer updating its own state from its input and its previous state; the
  output of the step is the hidden vector of the last layer. The carried state holds,
  per layer and per batch element, the hidden vector (and for the LSTM the cell vector):
  the library's \<open>h_n\<close> (and \<open>c_n\<close>) of shape \<open>(num_layers, B, hidden_size)\<close>.
  An absent state is the zero state. Gate order is the library's: input, forget, cell,
  output for the LSTM; reset, update, new for the GRU.
\<close>

definition sigmoid :: "real \<Rightarrow> real" where
  "sigmoid x = 1 / (1 + exp (- x))"

record rnn_layer =
  w_ih :: matrix
  w_hh :: matrix
  b_ih :: "real list"
  b_hh :: "real list"

definition lstm_cell :: "rnn_layer \<Rightarrow> real list \<Rightarrow> real list \<times> real list \<Rightarrow> real list \<times> real list" where
  "lstm_cell p x hc =
     (let h = fst hc; c = snd hc; n = length h;
          gates = map2 (+) (linear_row (w_ih p) (b_ih p) x) (linear_row (w_hh p) (b_hh p) h);
          i = map sigmoid (take n gates);
          f = map sigmoid (take n (drop n gates));
          g = map tanh (take n (drop (2 * n) gates));
          ou = map sigmoid (take n (drop (3 * n) gates));
          c' = map2 (+) (map2 (*) f c) (map2 (*) i g)
      in (map2 (*) ou (map tanh c'), c'))"

definition gru_cell :: "rnn_layer \<Rightarrow> real list \<Rightarrow> real list \<Rightarrow> real list" where
  "gru_cell p x h =
     (let n = length h;
          gi = linear_row (w_ih p) (b_ih p) x;
          gh = linear_row (w_hh p) (b_hh p) h;
          r = map sigmoid (map2 (+) (take n gi) (take n gh));
          z = map sigmoid (map2 (+) (take n (drop n gi)) (take n (drop n gh)));
          nw = map tanh (map2 (+) (take n (drop (2 * n) gi)) (map2 (*) r (take n (drop (2 * n) gh))))
      in map2 (+) (map2 (\<lambda>zi ni. (1 - zi) * ni) z nw) (map2 (*) z h))"

text \<open>
  One time step through the stacked layers, for a batch: \<open>cell\<close> updates the state of one
  batch element in one layer, \<open>outp\<close> reads the hidden vector of a state.
\<close>

fun stack_step ::
  "('p \<Rightarrow> real list \<Rightarrow> 's \<Rightarrow> 's) \<Rightarrow> ('s \<Rightarrow> real list) \<Rightarrow> 'p list \<Rightarrow> 's list list \<Rightarrow> matrix
     \<Rightarrow> matrix \<times> 's list list" where
  "stack_step cell outp (p # ps) (st # sts) X =
     (let st' = map2 (cell p) X st;
          (Y, sts') = stack_step cell outp ps sts (map outp st')
      in (Y, st' # sts'))"
| "stack_step cell outp _ _ X = (X, [])"

text \<open>The time loop: the state after one step is the state before the next.\<close>

fun rnn_scan :: "('s \<Rightarrow> matrix \<Rightarrow> matrix \<times> 's) \<Rightarrow> 's \<Rightarrow> matrix list \<Rightarrow> matrix list \<times> 's" where
  "rnn_scan step s [] = ([], s)"
| "rnn_scan step s (X # Xs) =
     (let (Y, s') = step s X;
          (Ys, s'') = rnn_scan step s' Xs
      in (Y # Ys, s''))"

type_synonym lstm_state = "(real list \<times> real list) list list"
type_synonym gru_state = "real list list list"

definition state_ok :: "('s \<Rightarrow> bool) \<Rightarrow> nat \<Rightarrow> nat \<Rightarrow> 's list list \<Rightarrow> bool" where
  "state_ok vec_ok l n sts \<longleftrightarrow>
     length sts = l \<and> list_all (\<lambda>st. length st = n \<and> list_all vec_ok st) sts"

record LSTM =
  lstm_input_size :: nat
  lstm_hidden_size :: nat
  lstm_layers :: "rnn_layer list"

record GRU =
  gru_input_size :: nat
  gru_hidden_size :: nat
  gru_layers :: "rnn_layer list"

text \<open>
  Both encoders run the library's common forward pass: the input must have the
  encoder's input size, a given state must have the shape \<open>(num_layers, B, hidden_size)\<close>
  (\<open>vec_ok\<close> checks the vectors of one batch element), an absent state is the zero state,
  and the time loop runs over the \<open>T\<close> time steps of the input.
\<close>

definition RNNBase_forward ::
  "('p \<Rightarrow> real list \<Rightarrow> 's \<Rightarrow> 's) \<Rightarrow> ('s \<Rightarrow> real list) \<Rightarrow> 's \<Rightarrow> ('s \<Rightarrow> bool) \<Rightarrow> nat \<Rightarrow> nat
     \<Rightarrow> 'p list \<Rightarrow> tensor \<Rightarrow> 's list list option \<Rightarrow> error + tensor \<times> 's list list" where
  "RNNBase_forward cell outp zero vec_ok input_size hidden_size layers x hid =
     (case shape x of
        [t, n, i] \<Rightarrow>
          let s0 = (case hid of
                      None \<Rightarrow> replicate (length layers) (replicate n zero)
                    | Some s \<Rightarrow> s)
          in if i \<noteq> input_size then Inl RuntimeError
             else if \<not> state_ok vec_ok (length layers) n s0 then Inl RuntimeError
             else (let (Ys, s') = rnn_scan (stack_step cell outp layers) s0 (chunks t n (rows3 x))
                   in Inr (\<lparr>shape = [t, n, hidden_size], data = concat (concat Ys)\<rparr>, s'))
      | _ \<Rightarrow> Inl RuntimeError)"

definition LSTM_forward :: "LSTM \<Rightarrow> tensor \<Rightarrow> lstm_state option \<Rightarrow> error + tensor \<times> lstm_state" where
  "LSTM_forward l x hid =
     RNNBase_forward lstm_cell fst
       (replicate (lstm_hidden_size l) 0, replicate (lstm_hidden_size l) 0)
       (\<lambda>hc. length (fst hc) = lstm_hidden_size l \<and> length (snd hc) = lstm_hidden_size l)
       (lstm_input_size l) (lstm_hidden_size l) (lstm_layers l) x hid"

definition GRU_forward :: "GRU \<Rightarrow> tensor \<Rightarrow> gru_state option \<Rightarrow> error + tensor \<times> gru_state" where
  "GRU_forward l x hid =
     RNNBase_forward gru_cell (\<lambda>hv. hv) (replicate (gru_hidden_size l) 0)
       (\<lambda>hv. length hv = gru_hidden_size l)
       (gru_input_size l) (gru_hidden_size l) (gru_layers l) x hid"

subsection \<open>\<^verbatim>\<open>RnnRegNet\<close>\<close>

text \<open>
  The four blocks \<^verbatim>\<open>mlp_inp\<close>, \<^verbatim>\<open>mlp1\<close>, \<^verbatim>\<open>mlp2\<close>, \<^verbatim>\<open>mlp_out\<close> are attributes of all
  three networks; each network adds its two encoders.
  \<^verbatim>\<open>
  def forward(self, inp, hid=None):
      hid1, hid2 = (None, None) if hid is None else hid
      inp = self.mlp_inp(inp)
      rnn1, hid1 = self.rnn1(inp, hid1)
      tmp1 = self.mlp1(rnn1)
      rnn2, hid2 = self.rnn2(inp, hid2)
      tmp2 = self.mlp2(rnn2)
      tmp = th.concat((tmp1, tmp2), dim=2)
      out = self.mlp_out(tmp)
      return out, (hid1, hid2)
  \<close>
\<close>

record RegNet_blocks =
  mlp_inp :: NnSeqBnMLP
  mlp1 :: NnSeqBnMLP
  mlp2 :: NnSeqBnMLP
  mlp_out :: NnSeqBnMLP

record RnnRegNet = RegNet_blocks +
  rnn1 :: LSTM
  rnn2 :: GRU

type_synonym rnn_hid = "lstm_state option \<times> gru_state option"

definition RnnRegNet_forward ::
  "RnnRegNet \<Rightarrow> tensor \<Rightarrow> rnn_hid option \<Rightarrow> error + tensor \<times> (lstm_state \<times> gru_state)" where
  "RnnRegNet_forward net inp hid =
     (let (hid1, hid2) = (case hid of None \<Rightarrow> (None, None) | Some h \<Rightarrow> h) in
      case NnSeqBnMLP_forward (mlp_inp net) inp of Inl e \<Rightarrow> Inl e | Inr inp' \<Rightarrow>
      case LSTM_forward (rnn1 net) inp' hid1 of Inl e \<Rightarrow> Inl e | Inr (r1, hid1') \<Rightarrow>
      case NnSeqBnMLP_forward (mlp1 net) r1 of Inl e \<Rightarrow> Inl e | Inr tmp1 \<Rightarrow>
      case GRU_forward (rnn2 net) inp' hid2 of Inl e \<Rightarrow> Inl e | Inr (r2, hid2') \<Rightarrow>
      case NnSeqBnMLP_forward (mlp2 net) r2 of Inl e \<Rightarrow> Inl e | Inr tmp2 \<Rightarrow>
      case cat_dim2 tmp1 tmp2 of Inl e \<Rightarrow> Inl e | Inr tmp \<Rightarrow>
      case NnSeqBnMLP_forward (mlp_out net) tmp of Inl e \<Rightarrow> Inl e | Inr out \<Rightarrow>
      Inr (out, (hid1', hid2')))"

subsection \<open>\<^verbatim>\<open>DilatedCNN\<close> and \<^verbatim>\<open>DilatedCNNRegNet\<close>\<close>

text \<open>
  \<^verbatim>\<open>nn.Conv1d(in_channels, out_channels, kernel_size, dilation=dilation, padding='same')\<close>
  on an input of shape \<open>(B, C, L)\<close>, stride 1. With \<^verbatim>\<open>padding='same'\<close> the library pads
  \<open>dilation * (kernel_size - 1)\<close> zeros in total, half of them (rounded down) before the
  sequence and the rest after it, so that the output has length \<open>L\<close>; output position
  \<open>t\<close> of channel \<open>o\<close> is \<open>bias[o] + \<Sum>c \<Sum>j weight[o][c][j] * padded[c][t + j * dilation]\<close>.
\<close>

record Conv1d =
  in_channels :: nat
  out_channels :: nat
  kernel_size :: nat
  dilation :: nat
  conv_weight :: "real list list list"
  conv_bias :: "real list"

definition pad_left :: "Conv1d \<Rightarrow> nat" where
  "pad_left c = (dilation c * (kernel_size c - 1)) div 2"

definition pad_right :: "Conv1d \<Rightarrow> nat" where
  "pad_right c = dilation c * (kernel_size c - 1) - pad_left c"

definition padded :: "Conv1d \<Rightarrow> tensor \<Rightarrow> nat \<Rightarrow> nat \<Rightarrow> nat \<Rightarrow> real" where
  "padded c x b ci p =
     (if pad_left c \<le> p \<and> p - pad_left c < shape x ! 2 then get3 x b ci (p - pad_left c) else 0)"

definition Conv1d_forward :: "Conv1d \<Rightarrow> tensor \<Rightarrow> error + tensor" where
  "Conv1d_forward c x =
     (case shape x of
        [n, ch, l] \<Rightarrow>
          if ch \<noteq> in_channels c then Inl RuntimeError
          else Inr (tab3 n (out_channels c) l (\<lambda>b oc t.
                 conv_bias c ! oc
                 + sum_list (map (\<lambda>ci. sum_list (map (\<lambda>j.
                       conv_weight c ! oc ! ci ! j * padded c x b ci (t + j * dilation c))
                     [0..<kernel_size c])) [0..<ch])))
      | _ \<Rightarrow> Inl RuntimeError)"

text \<open>
  \<^verbatim>\<open>nn.BatchNorm1d\<close> on an input of shape \<open>(B, C, L)\<close> normalises each channel: in training
  mode with the mean and biased variance of the channel over all batch elements and
  positions (refusing a single value per channel), in evaluation mode with the running
  statistics.
\<close>

definition channel_values :: "tensor \<Rightarrow> nat \<Rightarrow> real list" where
  "channel_values x ci =
     concat (map (\<lambda>b. map (\<lambda>t. get3 x b ci t) [0..<shape x ! 2]) [0..<shape x ! 0])"

fun BatchNorm1d_forward3 :: "bool \<Rightarrow> module \<times> params \<Rightarrow> tensor \<Rightarrow> error + tensor" where
  "BatchNorm1d_forward3 tr (BatchNorm1d c, P_BatchNorm1d g b rm rv) x =
     (case shape x of
        [n, ch, l] \<Rightarrow>
          if tr \<and> n * l \<le> 1 then Inl ValueError
          else if ch \<noteq> c then Inl RuntimeError
          else if tr then
            Inr (tab3 n ch l (\<lambda>bi ci t.
                   normalize (mean (channel_values x ci)) (var (channel_values x ci))
                     (g ! ci) (b ! ci) (get3 x bi ci t)))
          else Inr (tab3 n ch l (\<lambda>bi ci t.
                 normalize (rm ! ci) (rv ! ci) (g ! ci) (b ! ci) (get3 x bi ci t)))
      | _ \<Rightarrow> Inl RuntimeError)"
| "BatchNorm1d_forward3 tr _ x = Inl RuntimeError"

definition relu :: "tensor \<Rightarrow> tensor" where
  "relu x = x\<lparr>data := map (max 0) (data x)\<rparr>"

text \<open>
  \<^verbatim>\<open>
  def forward(self, x):
      x = self.conv(x)
      x = self.bn(x)
      return F.relu(x)
  \<close>
\<close>

record DilatedCNN =
  conv :: Conv1d
  bn :: "module \<times> params"
  cnn_training :: bool

definition DilatedCNN_forward :: "DilatedCNN \<Rightarrow> tensor \<Rightarrow> error + tensor" where
  "DilatedCNN_forward layer x =
     (case Conv1d_forward (conv layer) x of Inl e \<Rightarrow> Inl e | Inr x1 \<Rightarrow>
      case BatchNorm1d_forward3 (cnn_training layer) (bn layer) x1 of Inl e \<Rightarrow> Inl e | Inr x2 \<Rightarrow>
      Inr (relu x2))"

text \<open>The loop \<^verbatim>\<open>for layer in self.cnn_branch: out = layer(out)\<close>.\<close>

fun cnn_branch_forward :: "DilatedCNN list \<Rightarrow> tensor \<Rightarrow> error + tensor" where
  "cnn_branch_forward [] x = Inr x"
| "cnn_branch_forward (layer # layers) x =
     (case DilatedCNN_forward layer x of Inl e \<Rightarrow> Inl e | Inr y \<Rightarrow> cnn_branch_forward layers y)"

text \<open>
  \<^verbatim>\<open>
  def forward(self, inp, hid=None):
      x = self.mlp_inp(inp)
      x = x.permute(1, 2, 0)
      out1 = x
      for layer in self.cnn_branch1:
          out1 = layer(out1)
      out1 = out1.permute(2, 0, 1)
      tmp1 = self.mlp1(out1)
      out2 = x
      for layer in self.cnn_branch2:
          out2 = layer(out2)
      out2 = out2.permute(2, 0, 1)
      tmp2 = self.mlp2(out2)
      tmp = th.cat((tmp1, tmp2), dim=2)
      out = self.mlp_out(tmp)
      return out, None
  \<close>
\<close>

record DilatedCNNRegNet = RegNet_blocks +
  cnn_branch1 :: "DilatedCNN list"
  cnn_branch2 :: "DilatedCNN list"

definition DilatedCNNRegNet_forward ::
  "DilatedCNNRegNet \<Rightarrow> tensor \<Rightarrow> 'h option \<Rightarrow> error + tensor \<times> 'h option" where
  "DilatedCNNRegNet_forward net inp hid =
     (case NnSeqBnMLP_forward (mlp_inp net) inp of Inl e \<Rightarrow> Inl e | Inr x0 \<Rightarrow>
      case permute_120 x0 of Inl e \<Rightarrow> Inl e | Inr x \<Rightarrow>
      case cnn_branch_forward (cnn_branch1 net) x of Inl e \<Rightarrow> Inl e | Inr o1 \<Rightarrow>
      case permute_201 o1 of Inl e \<Rightarrow> Inl e | Inr out1 \<Rightarrow>
      case NnSeqBnMLP_forward (mlp1 net) out1 of Inl e \<Rightarrow> Inl e | Inr tmp1 \<Rightarrow>
      case cnn_branch_forward (cnn_branch2 net) x of Inl e \<Rightarrow> Inl e | Inr o2 \<Rightarrow>
      case permute_201 o2 of Inl e \<Rightarrow> Inl e | Inr out2 \<Rightarrow>
      case NnSeqBnMLP_forward (mlp2 net) out2 of Inl e \<Rightarrow> Inl e | Inr tmp2 \<Rightarrow>
      case cat_dim2 tmp1 tmp2 of Inl e \<Rightarrow> Inl e | Inr tmp \<Rightarrow>
      case NnSeqBnMLP_forward (mlp_out net) tmp of Inl e \<Rightarrow> Inl e | Inr out \<Rightarrow>
      Inr (out, None))"

subsection \<open>\<^verbatim>\<open>TransformerEncoderBlock\<close> and \<^verbatim>\<open>TransformerRegNet\<close>\<close>

text \<open>
  A block wraps the library's \<^verbatim>\<open>nn.TransformerEncoderLayer(d_model, nhead, ...)\<close>, whose
  computation (self-attention, feed-forward, residuals, normalisation, and in training
  mode dropout with the masks it draws) is taken as given: \<open>encoder\<close> is the function the
  layer computes with its parameters in the mode at hand.
  \<^verbatim>\<open>
  def forward(self, x):
      return self.encoder(x)
  \<close>
\<close>

record TransformerEncoderBlock =
  d_model :: nat
  nhead :: nat
  encoder :: "tensor \<Rightarrow> error + tensor"

definition TransformerEncoderBlock_forward :: "TransformerEncoderBlock \<Rightarrow> tensor \<Rightarrow> error + tensor" where
  "TransformerEncoderBlock_forward blk x = encoder blk x"

text \<open>\<^verbatim>\<open>nn.Sequential\<close> over the blocks of a branch.\<close>

fun transformer_forward :: "TransformerEncoderBlock list \<Rightarrow> tensor \<Rightarrow> error + tensor" where
  "transformer_forward [] x = Inr x"
| "transformer_forward (blk # blks) x =
     (case TransformerEncoderBlock_forward blk x of
        Inl e \<Rightarrow> Inl e
      | Inr y \<Rightarrow> transformer_forward blks y)"

text \<open>
  \<^verbatim>\<open>
  def forward(self, inp, hid=None):
      x = self.mlp_inp(inp)
      tmp1 = self.transformer1(x)
      tmp1 = self.mlp1(tmp1)
      tmp2 = self.transformer2(x)
      tmp2 = self.mlp2(tmp2)
      tmp = th.cat((tmp1, tmp2), dim=2)
      out = self.mlp_out(tmp)
      return out, None
  \<close>
\<close>

record TransformerRegNet = RegNet_blocks +
  transformer1 :: "TransformerEncoderBlock list"
  transformer2 :: "TransformerEncoderBlock list"

definition TransformerRegNet_forward ::
  "TransformerRegNet \<Rightarrow> tensor \<Rightarrow> 'h option \<Rightarrow> error + tensor \<times> 'h option" where
  "TransformerRegNet_forward net inp hid =
     (case NnSeqBnMLP_forward (mlp_inp net) inp of Inl e \<Rightarrow> Inl e | Inr x \<Rightarrow>
      case transformer_forward (transformer1 net) x of Inl e \<Rightarrow> Inl e | Inr t1 \<Rightarrow>
      case NnSeqBnMLP_forward (mlp1 net) t1 of Inl e \<Rightarrow> Inl e | Inr tmp1 \<Rightarrow>
      case transformer_forward (transformer2 net) x of Inl e \<Rightarrow> Inl e | Inr t2 \<Rightarrow>
      case NnSeqBnMLP_forward (mlp2 net) t2 of Inl e \<Rightarrow> Inl e | Inr tmp2 \<Rightarrow>
      case cat_dim2 tmp1 tmp2 of Inl e \<Rightarrow> Inl e | Inr tmp \<Rightarrow>
      case NnSeqBnMLP_forward (mlp_out net) tmp of Inl e \<Rightarrow> Inl e | Inr out \<Rightarrow>
      Inr (out, None))"

subsection \<open>\<^verbatim>\<open>get_obj_value\<close>\<close>

text \<open>
  The static method has the same body in the three network classes:
  \<^verbatim>\<open>
  def get_obj_value(criterion, out: TEN, lab: TEN, wup_dim: int) -> TEN:
      obj = criterion(out, lab)[wup_dim:, :, :]
      return obj
  \<close>
  The slice \<^verbatim>\<open>[wup_dim:]\<close> of an axis of length \<open>n\<close> starts at \<open>min wup_dim n\<close> for a
  non-negative \<open>wup_dim\<close> and at \<open>max (n + wup_dim) 0\<close> for a negative one. Indexing a
  tensor of fewer than three axes with three slices raises \<^verbatim>\<open>IndexError\<close>.
\<close>

definition slice_start :: "nat \<Rightarrow> int \<Rightarrow> nat" where
  "slice_start n w = (if w < 0 then nat (max (int n + w) 0) else nat (min w (int n)))"

definition get_obj_value ::
  "(tensor \<Rightarrow> tensor \<Rightarrow> error + tensor) \<Rightarrow> tensor \<Rightarrow> tensor \<Rightarrow> int \<Rightarrow> error + tensor" where
  "get_obj_value criterion out lab wup_dim =
     (case criterion out lab of
        Inl e \<Rightarrow> Inl e
      | Inr obj \<Rightarrow>
          (case shape obj of
             d0 # d1 # d2 # ds \<Rightarrow>
               let s = slice_start d0 wup_dim
               in Inr \<lparr>shape = (d0 - s) # d1 # d2 # ds,
                       data = drop (s * numel (d1 # d2 # ds)) (data obj)\<rparr>
           | _ \<Rightarrow> Inl IndexError))"

subsection \<open>\<^verbatim>\<open>check_rnn_in_real_trading\<close>\<close>

text \<open>
  The harness feeds a sequence to an \<^verbatim>\<open>RnnRegNet\<close> one time step at a time and joins
  the outputs, for comparison with one call on the whole sequence:
  \<^verbatim>\<open>
  hidden_state = None
  output_seq = []
  for t in range(seq_length):
      input_t = input_seq[t, :, :].unsqueeze(0)
      output_t, hidden_state = rnn(input_t, hidden_state)
      output_seq.append(output_t)
  output_seq = th.cat(output_seq, dim=0)
  output_seq2, _ = rnn(input_seq)
  \<close>
\<close>

definition select_time :: "tensor \<Rightarrow> nat \<Rightarrow> tensor" where
  "select_time x t =
     \<lparr>shape = [1, shape x ! 1, shape x ! 2],
      data = take (shape x ! 1 * shape x ! 2) (drop (t * (shape x ! 1 * shape x ! 2)) (data x))\<rparr>"


definition cat_dim0 :: "tensor list \<Rightarrow> error + tensor" where
  "cat_dim0 xs =
     (case xs of
        [] \<Rightarrow> Inl RuntimeError
      | x # _ \<Rightarrow>
          if list_all (\<lambda>y. shape y \<noteq> [] \<and> tl (shape y) = tl (shape x)) xs
          then Inr \<lparr>shape = sum_list (map (\<lambda>y. hd (shape y)) xs) # tl (shape x),
                    data = concat (map data xs)\<rparr>
          else Inl RuntimeError)"


subsection \<open>The network constructors\<close>

text \<open>
  A constructor fixes which layers a network has and of which dimensions; the values of
  the parameters come from the library's random initialisers. A constructor is therefore
  modelled as the relation between its arguments and the instances it can return: the
  layers are the ones it creates, and every parameter has the shape its layer gives it.
\<close>

fun wf_layer :: "module \<times> params \<Rightarrow> bool" where
  "wf_layer (Linear i oup, P_Linear W b) \<longleftrightarrow>
     length W = oup \<and> length b = oup \<and> list_all (\<lambda>w. length w = i) W"
| "wf_layer (LayerNorm d, P_LayerNorm g b) \<longleftrightarrow> length g = d \<and> length b = d"
| "wf_layer (BatchNorm1d c, P_BatchNorm1d g b rm rv) \<longleftrightarrow>
     length g = c \<and> length b = c \<and> length rm = c \<and> length rv = c"
| "wf_layer (GELU, P_None) \<longleftrightarrow> True"
| "wf_layer (Tanh, P_None) \<longleftrightarrow> True"
| "wf_layer _ \<longleftrightarrow> False"

definition NnSeqBnMLP_built ::
  "nat list \<Rightarrow> bool \<Rightarrow> bool \<Rightarrow> module option \<Rightarrow> NnSeqBnMLP \<Rightarrow> bool" where
  "NnSeqBnMLP_built dims if_inp_norm if_layer_norm activation m \<longleftrightarrow>
     NnSeqBnMLP_init dims if_inp_norm if_layer_norm activation = Inr (map fst (mlp m))
     \<and> list_all wf_layer (mlp m)"

text \<open>
  The gate matrices of a recurrent layer with \<open>g\<close> gates: \<open>g * hidden\<close> rows, over the
  layer's input (the network input for the first layer, the hidden vector below for the
  others) and over the hidden vector.
\<close>

definition wf_rnn_layer :: "nat \<Rightarrow> nat \<Rightarrow> nat \<Rightarrow> rnn_layer \<Rightarrow> bool" where
  "wf_rnn_layer g i h p \<longleftrightarrow>
     length (w_ih p) = g * h \<and> list_all (\<lambda>w. length w = i) (w_ih p)
     \<and> length (w_hh p) = g * h \<and> list_all (\<lambda>w. length w = h) (w_hh p)
     \<and> length (b_ih p) = g * h \<and> length (b_hh p) = g * h"

fun wf_rnn_layers :: "nat \<Rightarrow> nat \<Rightarrow> nat \<Rightarrow> rnn_layer list \<Rightarrow> bool" where
  "wf_rnn_layers g i h [] \<longleftrightarrow> True"
| "wf_rnn_layers g i h (p # ps) \<longleftrightarrow> wf_rnn_layer g i h p \<and> wf_rnn_layers g h h ps"

definition LSTM_built :: "nat \<Rightarrow> nat \<Rightarrow> nat \<Rightarrow> LSTM \<Rightarrow> bool" where
  "LSTM_built input_size hidden_size num_layers l \<longleftrightarrow>
     lstm_input_size l = input_size \<and> lstm_hidden_size l = hidden_size
     \<and> length (lstm_layers l) = num_layers
     \<and> wf_rnn_layers 4 input_size hidden_size (lstm_layers l)"

definition GRU_built :: "nat \<Rightarrow> nat \<Rightarrow> nat \<Rightarrow> GRU \<Rightarrow> bool" where
  "GRU_built input_size hidden_size num_layers l \<longleftrightarrow>
     gru_input_size l = input_size \<and> gru_hidden_size l = hidden_size
     \<and> length (gru_layers l) = num_layers
     \<and> wf_rnn_layers 3 input_size hidden_size (gru_layers l)"

text \<open>
  \<^verbatim>\<open>
  self.rnn1 = nn.LSTM(mid_dim, mid_dim, num_layers=num_layers)
  self.mlp1 = NnSeqBnMLP(dims=(mid_dim, mid_dim, mid_dim), if_layer_norm=False, activation=nn.GELU())
  self.rnn2 = nn.GRU(mid_dim, mid_dim, num_layers=num_layers)
  self.mlp2 = NnSeqBnMLP(dims=(mid_dim, mid_dim, mid_dim), if_layer_norm=False, activation=nn.GELU())
  self.mlp_inp = NnSeqBnMLP(dims=(inp_dim, mid_dim, mid_dim), if_layer_norm=False, activation=nn.GELU())
  self.mlp_out = NnSeqBnMLP(dims=(mid_dim * 2, mid_dim * 2, out_dim), if_layer_norm=False, activation=nn.Tanh())
  \<close>
\<close>

definition RnnRegNet_init :: "nat \<Rightarrow> nat \<Rightarrow> nat \<Rightarrow> nat \<Rightarrow> RnnRegNet \<Rightarrow> bool" where
  "RnnRegNet_init inp_dim mid_dim out_dim num_layers net \<longleftrightarrow>
     LSTM_built mid_dim mid_dim num_layers (rnn1 net)
     \<and> NnSeqBnMLP_built [mid_dim, mid_dim, mid_dim] False False (Some GELU) (mlp1 net)
     \<and> GRU_built mid_dim mid_dim num_layers (rnn2 net)
     \<and> NnSeqBnMLP_built [mid_dim, mid_dim, mid_dim] False False (Some GELU) (mlp2 net)
     \<and> NnSeqBnMLP_built [inp_dim, mid_dim, mid_dim] False False (Some GELU) (mlp_inp net)
     \<and> NnSeqBnMLP_built [mid_dim * 2, mid_dim * 2, out_dim] False False (Some Tanh) (mlp_out net)"

text \<open>
  \<^verbatim>\<open>
  class DilatedCNN(nn.Module):
      def __init__(self, in_channels, out_channels, kernel_size=3, dilation=2):
          self.conv = nn.Conv1d(in_channels, out_channels, kernel_size, dilation=dilation, padding='same')
          self.bn = nn.BatchNorm1d(out_channels)
  \<close>
\<close>

definition DilatedCNN_init :: "nat \<Rightarrow> nat \<Rightarrow> nat \<Rightarrow> nat \<Rightarrow> DilatedCNN \<Rightarrow> bool" where
  "DilatedCNN_init inc outc ksize dil layer \<longleftrightarrow>
     in_channels (conv layer) = inc \<and> out_channels (conv layer) = outc
     \<and> kernel_size (conv layer) = ksize \<and> dilation (conv layer) = dil
     \<and> length (conv_weight (conv layer)) = outc
     \<and> list_all (\<lambda>w. length w = inc \<and> list_all (\<lambda>k. length k = ksize) w) (conv_weight (conv layer))
     \<and> length (conv_bias (conv layer)) = outc
     \<and> fst (bn layer) = BatchNorm1d outc \<and> wf_layer (bn layer)"

text \<open>
  \<^verbatim>\<open>
  self.mlp_inp = NnSeqBnMLP((inp_dim, mid_dim, mid_dim), activation=nn.GELU())
  self.cnn_branch1 = nn.ModuleList([
      DilatedCNN(mid_dim, mid_dim, kernel_size=kernel_size, dilation=dilation)
      for _ in range(num_layers)])
  self.mlp1 = NnSeqBnMLP((mid_dim, mid_dim, mid_dim), activation=nn.GELU())
  self.cnn_branch2 = ...  (the same)
  self.mlp2 = NnSeqBnMLP((mid_dim, mid_dim, mid_dim), activation=nn.GELU())
  self.mlp_out = NnSeqBnMLP((mid_dim * 2, mid_dim * 2, out_dim), activation=nn.Tanh())
  \<close>
\<close>

definition DilatedCNNRegNet_init ::
  "nat \<Rightarrow> nat \<Rightarrow> nat \<Rightarrow> nat \<Rightarrow> nat \<Rightarrow> nat \<Rightarrow> DilatedCNNRegNet \<Rightarrow> bool" where
  "DilatedCNNRegNet_init inp_dim mid_dim out_dim num_layers ksize dil net \<longleftrightarrow>
     NnSeqBnMLP_built [inp_dim, mid_dim, mid_dim] False True (Some GELU) (mlp_inp net)
     \<and> length (cnn_branch1 net) = num_layers
     \<and> list_all (DilatedCNN_init mid_dim mid_dim ksize dil) (cnn_branch1 net)
     \<and> NnSeqBnMLP_built [mid_dim, mid_dim, mid_dim] False True (Some GELU) (mlp1 net)
     \<and> length (cnn_branch2 net) = num_layers
     \<and> list_all (DilatedCNN_init mid_dim mid_dim ksize dil) (cnn_branch2 net)
     \<and> NnSeqBnMLP_built [mid_dim, mid_dim, mid_dim] False True (Some GELU) (mlp2 net)
     \<and> NnSeqBnMLP_built [mid_dim * 2, mid_dim * 2, out_dim] False True (Some Tanh) (mlp_out net)"

text \<open>
  \<^verbatim>\<open>
  self.mlp_inp = NnSeqBnMLP((inp_dim, mid_dim, mid_dim), activation=nn.GELU())
  self.transformer1 = nn.Sequential(*[
      TransformerEncoderBlock(mid_dim, nhead) for _ in range(num_layers)])
  self.mlp1 = NnSeqBnMLP((mid_dim, mid_dim, mid_dim), activation=nn.GELU())
  self.transformer2 = ...  (the same)
  self.mlp2 = NnSeqBnMLP((mid_dim, mid_dim, mid_dim), activation=nn.GELU())
  self.mlp_out = NnSeqBnMLP((mid_dim * 2, mid_dim * 2, out_dim), activation=nn.Tanh())
  \<close>
\<close>

definition TransformerRegNet_init ::
  "nat \<Rightarrow> nat \<Rightarrow> nat \<Rightarrow> nat \<Rightarrow> nat \<Rightarrow> TransformerRegNet \<Rightarrow> bool" where
  "TransformerRegNet_init inp_dim mid_dim out_dim num_layers nh net \<longleftrightarrow>
     NnSeqBnMLP_built [inp_dim, mid_dim, mid_dim] False True (Some GELU) (mlp_inp net)
     \<and> length (transformer1 net) = num_layers
     \<and> list_all (\<lambda>blk. d_model blk = mid_dim \<and> nhead blk = nh) (transformer1 net)
     \<and> NnSeqBnMLP_built [mid_dim, mid_dim, mid_dim] False True (Some GELU) (mlp1 net)
     \<and> length (transformer2 net) = num_layers
     \<and> list_all (\<lambda>blk. d_model blk = mid_dim \<and> nhead blk = nh) (transformer2 net)
     \<and> NnSeqBnMLP_built [mid_dim, mid_dim, mid_dim] False True (Some GELU) (mlp2 net)
     \<and> NnSeqBnMLP_built [mid_dim * 2, mid_dim * 2, out_dim] False True (Some Tanh) (mlp_out net)"

text \<open>
  The library documents that an encoder layer returns a tensor of the shape of its input.
\<close>

definition keeps_shape :: "TransformerEncoderBlock \<Rightarrow> bool" where
  "keeps_shape blk \<longleftrightarrow> (\<forall>x y. encoder blk x = Inr y \<longrightarrow> shape y = shape x)"

subsection \<open>The fusion pattern in the words of the specification\<close>

text \<open>
  Dual-branch fusion: two independent encoders run over the same input, their outputs
  are concatenated along the feature axis, and a final block projects the result. A
  branch is an encoder followed by its own normalisation+MLP block; an encoder may hand
  back a state next to its output.
\<close>

definition and_then :: "error + 'a \<Rightarrow> ('a \<Rightarrow> error + 'b) \<Rightarrow> error + 'b" where
  "and_then r f = (case r of Inl e \<Rightarrow> Inl e | Inr a \<Rightarrow> f a)"

definition branch ::
  "(tensor \<Rightarrow> error + tensor \<times> 's) \<Rightarrow> NnSeqBnMLP \<Rightarrow> tensor \<Rightarrow> error + tensor \<times> 's" where
  "branch enc blk x =
     and_then (enc x) (\<lambda>(r, s). and_then (NnSeqBnMLP_forward blk r) (\<lambda>tmp. Inr (tmp, s)))"

definition dual_branch_fusion ::
  "(tensor \<Rightarrow> error + tensor \<times> 's1) \<Rightarrow> (tensor \<Rightarrow> error + tensor \<times> 's2) \<Rightarrow> NnSeqBnMLP
     \<Rightarrow> tensor \<Rightarrow> error + tensor \<times> ('s1 \<times> 's2)" where
  "dual_branch_fusion branch1 branch2 final x =
     and_then (branch1 x) (\<lambda>(tmp1, s1).
     and_then (branch2 x) (\<lambda>(tmp2, s2).
     and_then (cat_dim2 tmp1 tmp2) (\<lambda>tmp.
     and_then (NnSeqBnMLP_forward final tmp) (\<lambda>out. Inr (out, (s1, s2))))))"

definition spec_RnnRegNet_forward ::
  "RnnRegNet \<Rightarrow> tensor \<Rightarrow> rnn_hid option \<Rightarrow> error + tensor \<times> (lstm_state \<times> gru_state)" where
  "spec_RnnRegNet_forward net inp hid =
     (let hid' = (case hid of None \<Rightarrow> (None, None) | Some h \<Rightarrow> h) in
      and_then (NnSeqBnMLP_forward (mlp_inp net) inp)
        (dual_branch_fusion
           (branch (\<lambda>x. LSTM_forward (rnn1 net) x (fst hid')) (mlp1 net))
           (branch (\<lambda>x. GRU_forward (rnn2 net) x (snd hid')) (mlp2 net))
           (mlp_out net)))"

text \<open>A sequential stack of encoder blocks: each block reads the output of the one before.\<close>

definition spec_stack :: "TransformerEncoderBlock list \<Rightarrow> tensor \<Rightarrow> error + tensor" where
  "spec_stack blks x = foldl (\<lambda>r blk. and_then r (encoder blk)) (Inr x) blks"

definition spec_TransformerRegNet_forward :: "TransformerRegNet \<Rightarrow> tensor \<Rightarrow> error + tensor" where
  "spec_TransformerRegNet_forward net inp =
     and_then
       (and_then (NnSeqBnMLP_forward (mlp_inp net) inp)
          (dual_branch_fusion
             (branch (\<lambda>x. and_then (spec_stack (transformer1 net) x) (\<lambda>y. Inr (y, ()))) (mlp1 net))
             (branch (\<lambda>x. and_then (spec_stack (transformer2 net) x) (\<lambda>y. Inr (y, ()))) (mlp2 net))
             (mlp_out net)))
       (\<lambda>(out, _). Inr out)"

subsection \<open>Row-wise blocks\<close>

text \<open>
  A matrix is rectangular when all its rows have one length. A block acts row by row
  unless it holds a batch normalisation layer and runs in training mode; its action on
  one row is \<open>NnSeqBnMLP_row\<close>.
\<close>

definition rect :: "nat \<Rightarrow> matrix \<Rightarrow> bool" where
  "rect w X \<longleftrightarrow> list_all (\<lambda>r. length r = w) X"

fun is_batch_norm :: "module \<Rightarrow> bool" where
  "is_batch_norm (BatchNorm1d c) = True"
| "is_batch_norm _ = False"

definition rowwise :: "NnSeqBnMLP \<Rightarrow> bool" where
  "rowwise m \<longleftrightarrow> \<not> training m \<or> list_all (\<lambda>l. \<not> is_batch_norm (fst l)) (mlp m)"

definition NnSeqBnMLP_row :: "NnSeqBnMLP \<Rightarrow> real list \<Rightarrow> error + real list" where
  "NnSeqBnMLP_row m x = Sequential_row (mlp m) x"



subsection \<open>Small instances\<close>

text \<open>
  Instances with \<open>inp_dim = mid_dim = out_dim = 1\<close> and one layer per branch, in
  evaluation mode: \<^verbatim>\<open>RnnRegNet(1, 1, 1, 1)\<close>, \<^verbatim>\<open>DilatedCNNRegNet(1, 1, 1, 1)\<close> with the
  default kernel size 3 and dilation 2, and \<^verbatim>\<open>TransformerRegNet(1, 1, 1, 1, 1)\<close>.
\<close>

definition ex_block :: NnSeqBnMLP where
  "ex_block = \<lparr>mlp = [(Linear 1 1, P_Linear [[1]] [0]), (GELU, P_None),
                      (Linear 1 1, P_Linear [[1]] [0]), (GELU, P_None)],
               training = False\<rparr>"

definition ex_out_block :: NnSeqBnMLP where
  "ex_out_block = \<lparr>mlp = [(Linear 2 2, P_Linear [[1, 0], [0, 1]] [0, 0]), (GELU, P_None),
                          (Linear 2 1, P_Linear [[1, 1]] [1 / 2]), (Tanh, P_None)],
                   training = False\<rparr>"

definition ex_block_ln :: NnSeqBnMLP where
  "ex_block_ln = \<lparr>mlp = [(Linear 1 1, P_Linear [[1]] [0]), (GELU, P_None),
                         (LayerNorm 1, P_LayerNorm [1] [0]),
                         (Linear 1 1, P_Linear [[1]] [0]), (GELU, P_None)],
                  training = False\<rparr>"

definition ex_out_block_ln :: NnSeqBnMLP where
  "ex_out_block_ln = \<lparr>mlp = [(Linear 2 2, P_Linear [[1, 0], [0, 1]] [0, 0]), (GELU, P_None),
                             (LayerNorm 2, P_LayerNorm [1, 1] [0, 0]),
                             (Linear 2 1, P_Linear [[1, 1]] [1 / 2]), (Tanh, P_None)],
                      training = False\<rparr>"

definition ex_lstm :: LSTM where
  "ex_lstm = \<lparr>lstm_input_size = 1, lstm_hidden_size = 1,
              lstm_layers = [\<lparr>w_ih = [[1], [1], [1], [1]], w_hh = [[1], [1], [1], [1]],
                               b_ih = [0, 0, 0, 0], b_hh = [0, 0, 0, 0]\<rparr>]\<rparr>"

definition ex_gru :: GRU where
  "ex_gru = \<lparr>gru_input_size = 1, gru_hidden_size = 1,
             gru_layers = [\<lparr>w_ih = [[1], [1], [1]], w_hh = [[1], [1], [1]],
                             b_ih = [0, 0, 0], b_hh = [0, 0, 0]\<rparr>]\<rparr>"

definition ex_rnn :: RnnRegNet where
  "ex_rnn = \<lparr>mlp_inp = ex_block, mlp1 = ex_block, mlp2 = ex_block, mlp_out = ex_out_block,
             rnn1 = ex_lstm, rnn2 = ex_gru\<rparr>"

definition ex_dcnn :: DilatedCNN where
  "ex_dcnn = \<lparr>conv = \<lparr>in_channels = 1, out_channels = 1, kernel_size = 3, dilation = 2,
                        conv_weight = [[[0, 0, 1]]], conv_bias = [0]\<rparr>,
              bn = (BatchNorm1d 1, P_BatchNorm1d [1] [0] [0] [1]),
              cnn_training = False\<rparr>"

definition ex_cnn :: DilatedCNNRegNet where
  "ex_cnn = \<lparr>mlp_inp = ex_block_ln, mlp1 = ex_block_ln, mlp2 = ex_block_ln,
             mlp_out = ex_out_block_ln, cnn_branch1 = [ex_dcnn], cnn_branch2 = [ex_dcnn]\<rparr>"

text \<open>
  With \<open>d_model = 1\<close> the final layer normalisation of an encoder layer, with its initial
  unit weight and zero bias, maps every entry to 0.
\<close>

definition ex_encoder :: "tensor \<Rightarrow> error + tensor" where
  "ex_encoder x =
     (case shape x of
        [t, n, d] \<Rightarrow> if d = 1 then Inr (x\<lparr>data := map (\<lambda>_. 0) (data x)\<rparr>) else Inl RuntimeError
      | _ \<Rightarrow> Inl RuntimeError)"

definition ex_tf :: TransformerRegNet where
  "ex_tf = \<lparr>mlp_inp = ex_block_ln, mlp1 = ex_block_ln, mlp2 = ex_block_ln,
            mlp_out = ex_out_block_ln,
            transformer1 = [\<lparr>d_model = 1, nhead = 1, encoder = ex_encoder\<rparr>],
            transformer2 = [\<lparr>d_model = 1, nhead = 1, encoder = ex_encoder\<rparr>]\<rparr>"

text \<open>The width of the rows after a sequence of layers, from the width before it.\<close>

fun out_width :: "module list \<Rightarrow> nat \<Rightarrow> nat" where
  "out_width [] w = w"
| "out_width (Linear i oup # ls) w = out_width ls oup"
| "out_width (l # ls) w = out_width ls w"

text \<open>
  An elementwise criterion, as \<^verbatim>\<open>nn.MSELoss(reduction='none')\<close> on tensors of one shape.
\<close>

definition mse :: "tensor \<Rightarrow> tensor \<Rightarrow> error + tensor" where
  "mse a b =
     (if shape a = shape b
      then Inr \<lparr>shape = shape a, data = map2 (\<lambda>x y. (x - y)\<^sup>2) (data a) (data b)\<rparr>
      else Inl RuntimeError)"

subsection \<open>Agreement of sequences up to a time step\<close>

text \<open>
  Two tensors of layout \<open>(T, B, C)\<close> agree up to time step \<open>n\<close> when they have one shape
  and equal feature vectors at every time step \<open>s \<le> n\<close>; \<open>agreeL\<close> is the same for the
  layout \<open>(B, C, L)\<close> of the convolutions. The look-ahead of a stack of convolution
  layers is the sum of their right paddings; a network is in evaluation mode when none of
  its modules is in training mode.
\<close>

definition agree_upto :: "nat \<Rightarrow> tensor \<Rightarrow> tensor \<Rightarrow> bool" where
  "agree_upto n x y \<longleftrightarrow>
     shape x = shape y
     \<and> (\<forall>s<shape x ! 0. \<forall>b<shape x ! 1. s \<le> n \<longrightarrow> slice x s b = slice y s b)"

definition agreeL :: "nat \<Rightarrow> tensor \<Rightarrow> tensor \<Rightarrow> bool" where
  "agreeL n x y \<longleftrightarrow>
     shape x = shape y
     \<and> (\<forall>b<shape x ! 0. \<forall>c<shape x ! 1. \<forall>s<shape x ! 2. s \<le> n \<longrightarrow> get3 x b c s = get3 y b c s)"

definition lookahead :: "DilatedCNN list \<Rightarrow> nat" where
  "lookahead layers = sum_list (map (\<lambda>layer. pad_right (conv layer)) layers)"

definition same_pad_right :: "nat \<Rightarrow> nat \<Rightarrow> nat" where
  "same_pad_right ksize dil = dil * (ksize - 1) - dil * (ksize - 1) div 2"

definition eval_mode :: "DilatedCNNRegNet \<Rightarrow> bool" where
  "eval_mode net \<longleftrightarrow>
     \<not> training (mlp_inp net) \<and> \<not> training (mlp1 net) \<and> \<not> training (mlp2 net)
     \<and> \<not> training (mlp_out net)
     \<and> list_all (\<lambda>layer. \<not> cnn_training layer) (cnn_branch1 net)
     \<and> list_all (\<lambda>layer. \<not> cnn_training layer) (cnn_branch2 net)"

subsection \<open>The error function as a power series\<close>

text \<open>
  The terms of the series of \<open>erf\<close>, and its coefficients as a power series in \<open>x\<close>.
\<close>

definition erf_term :: "real \<Rightarrow> nat \<Rightarrow> real" where
  "erf_term x n = (- 1) ^ n * x ^ (2 * n + 1) / (fact n * real (2 * n + 1))"

definition erf_coeff :: "nat \<Rightarrow> real" where
  "erf_coeff n = (if even n then 0 else (- 1) ^ ((n - 1) div 2) / (fact ((n - 1) div 2) * real n))"

subsection \<open>A network whose convolution looks ahead\<close>

text \<open>
  \<^verbatim>\<open>DilatedCNNRegNet(1, 2, 1, num_layers=1)\<close> with the default kernel size 3 and
  dilation 2, in evaluation mode. The convolution of each branch has one non-zero weight,
  at the last kernel position of its first input and output channel; the batch
  normalisations and layer normalisations have their initial parameters. The constants
  \<open>cx_g\<close>, \<open>cx_v\<close>, \<open>cx_p\<close>, \<open>cx_z\<close> name the values that travel through the network from an
  input entry 1: after the input block, after the convolution layer, after the branch
  block, and before the final \<open>tanh\<close>.
\<close>

definition cx_inp_block :: NnSeqBnMLP where
  "cx_inp_block = \<lparr>mlp = [(Linear 1 2, P_Linear [[1], [0]] [0, 0]), (GELU, P_None),
                          (LayerNorm 2, P_LayerNorm [1, 1] [0, 0]),
                          (Linear 2 2, P_Linear [[1, 0], [0, 0]] [0, 0]), (GELU, P_None)],
                   training = False\<rparr>"

definition cx_block :: NnSeqBnMLP where
  "cx_block = \<lparr>mlp = [(Linear 2 2, P_Linear [[1, 0], [0, 0]] [0, 0]), (GELU, P_None),
                      (LayerNorm 2, P_LayerNorm [1, 1] [0, 0]),
                      (Linear 2 2, P_Linear [[1, 0], [0, 0]] [0, 0]), (GELU, P_None)],
               training = False\<rparr>"

definition cx_out_block :: NnSeqBnMLP where
  "cx_out_block = \<lparr>mlp = [(Linear 4 4, P_Linear [[1, 0, 0, 0], [0, 1, 0, 0], [0, 0, 1, 0], [0, 0, 0, 1]]
                                     [0, 0, 0, 0]), (GELU, P_None),
                          (LayerNorm 4, P_LayerNorm [1, 1, 1, 1] [0, 0, 0, 0]),
                          (Linear 4 1, P_Linear [[1, 0, 0, 0]] [0]), (Tanh, P_None)],
                   training = False\<rparr>"

definition cx_dcnn :: DilatedCNN where
  "cx_dcnn = \<lparr>conv = \<lparr>in_channels = 2, out_channels = 2, kernel_size = 3, dilation = 2,
                        conv_weight = [[[0, 0, 1], [0, 0, 0]], [[0, 0, 0], [0, 0, 0]]],
                        conv_bias = [0, 0]\<rparr>,
              bn = (BatchNorm1d 2, P_BatchNorm1d [1, 1] [0, 0] [0, 0] [1, 1]),
              cnn_training = False\<rparr>"

definition cx_net :: DilatedCNNRegNet where
  "cx_net = \<lparr>mlp_inp = cx_inp_block, mlp1 = cx_block, mlp2 = cx_block, mlp_out = cx_out_block,
             cnn_branch1 = [cx_dcnn], cnn_branch2 = [cx_dcnn]\<rparr>"

definition ln1 :: "real list \<Rightarrow> real \<Rightarrow> real" where
  "ln1 xs x = normalize (mean xs) (var xs) 1 0 x"

definition cx_g :: real where
  "cx_g = gelu (ln1 [gelu 1, 0] (gelu 1))"

definition cx_v :: real where
  "cx_v = max 0 (normalize 0 1 1 0 cx_g)"

definition cx_p :: real where
  "cx_p = gelu (ln1 [gelu cx_v, 0] (gelu cx_v))"

definition cx_z :: real where
  "cx_z = ln1 [gelu cx_p, 0, gelu cx_p, 0] (gelu cx_p)"

subsection \<open>The carried state after a number of time steps\<close>




subsection \<open>The layers of the library as a parameter\<close>

text \<open>
  The forward passes above evaluate every layer exactly, over the reals. The library
  itself computes in 32-bit floating point, and how a kernel rounds is the library's
  affair: its notes on numerical accuracy say that a computation on a batch and the same
  computation on a slice of the batch need not agree bit for bit. To speak of both, the
  forward pass of the block and of \<^verbatim>\<open>RnnRegNet\<close> and the loop of the harness are given
  once more, over an arbitrary evaluation of the three kinds of library call they make:
  a layer of an \<^verbatim>\<open>nn.Sequential\<close>, the LSTM and the GRU. What the code of the module does
  itself (unpack the shape, reshape, pass the states on, concatenate) is as above.
  With \<open>exact_library\<close> these are the forward passes above.
\<close>

record library =
  lib_module :: "bool \<Rightarrow> module \<times> params \<Rightarrow> matrix \<Rightarrow> error + matrix"
  lib_lstm :: "LSTM \<Rightarrow> tensor \<Rightarrow> lstm_state option \<Rightarrow> error + tensor \<times> lstm_state"
  lib_gru :: "GRU \<Rightarrow> tensor \<Rightarrow> gru_state option \<Rightarrow> error + tensor \<times> gru_state"


fun Sequential_forward_on ::
  "library \<Rightarrow> bool \<Rightarrow> (module \<times> params) list \<Rightarrow> matrix \<Rightarrow> error + matrix" where
  "Sequential_forward_on lib tr [] X = Inr X"
| "Sequential_forward_on lib tr (l # ls) X =
     (case lib_module lib tr l X of Inl e \<Rightarrow> Inl e | Inr Y \<Rightarrow> Sequential_forward_on lib tr ls Y)"

definition NnSeqBnMLP_forward_on :: "library \<Rightarrow> NnSeqBnMLP \<Rightarrow> tensor \<Rightarrow> error + tensor" where
  "NnSeqBnMLP_forward_on lib m seq =
     (case shape seq of
        [d0, d1, d2] \<Rightarrow>
          if d0 * d1 = 0 then Inl RuntimeError
          else (case Sequential_forward_on lib (training m) (mlp m) (chunks (d0 * d1) d2 (data seq)) of
                  Inl e \<Rightarrow> Inl e
                | Inr out \<Rightarrow> Inr (from_rows d0 d1 out))
      | _ \<Rightarrow> Inl ValueError)"

definition RnnRegNet_forward_on ::
  "library \<Rightarrow> RnnRegNet \<Rightarrow> tensor \<Rightarrow> rnn_hid option
     \<Rightarrow> error + tensor \<times> (lstm_state \<times> gru_state)" where
  "RnnRegNet_forward_on lib net inp hid =
     (let (hid1, hid2) = (case hid of None \<Rightarrow> (None, None) | Some h \<Rightarrow> h) in
      case NnSeqBnMLP_forward_on lib (mlp_inp net) inp of Inl e \<Rightarrow> Inl e | Inr inp' \<Rightarrow>
      case lib_lstm lib (rnn1 net) inp' hid1 of Inl e \<Rightarrow> Inl e | Inr (r1, hid1') \<Rightarrow>
      case NnSeqBnMLP_forward_on lib (mlp1 net) r1 of Inl e \<Rightarrow> Inl e | Inr tmp1 \<Rightarrow>
      case lib_gru lib (rnn2 net) inp' hid2 of Inl e \<Rightarrow> Inl e | Inr (r2, hid2') \<Rightarrow>
      case NnSeqBnMLP_forward_on lib (mlp2 net) r2 of Inl e \<Rightarrow> Inl e | Inr tmp2 \<Rightarrow>
      case cat_dim2 tmp1 tmp2 of Inl e \<Rightarrow> Inl e | Inr tmp \<Rightarrow>
      case NnSeqBnMLP_forward_on lib (mlp_out net) tmp of Inl e \<Rightarrow> Inl e | Inr out \<Rightarrow>
      Inr (out, (hid1', hid2')))"

fun step_loop_on ::
  "library \<Rightarrow> RnnRegNet \<Rightarrow> tensor \<Rightarrow> nat list \<Rightarrow> rnn_hid option \<Rightarrow> tensor list
     \<Rightarrow> error + tensor list \<times> rnn_hid option" where
  "step_loop_on lib rnn input_seq [] hidden_state output_seq = Inr (output_seq, hidden_state)"
| "step_loop_on lib rnn input_seq (t # ts) hidden_state output_seq =
     (case RnnRegNet_forward_on lib rnn (select_time input_seq t) hidden_state of
        Inl e \<Rightarrow> Inl e
      | Inr (output_t, (h1, h2)) \<Rightarrow>
          step_loop_on lib rnn input_seq ts (Some (Some h1, Some h2)) (output_seq @ [output_t]))"

definition step_by_step_on :: "library \<Rightarrow> RnnRegNet \<Rightarrow> tensor \<Rightarrow> error + tensor" where
  "step_by_step_on lib rnn input_seq =
     (case step_loop_on lib rnn input_seq [0..<shape input_seq ! 0] None [] of
        Inl e \<Rightarrow> Inl e
      | Inr (output_seq, _) \<Rightarrow> cat_dim0 output_seq)"

subsection \<open>The layers in 32-bit floating point\<close>

text \<open>
  One evaluation of the layers in binary32 arithmetic. \<open>fl x\<close> is \<open>x\<close> rounded to the
  nearest number with a significand of 24 bits, a tie going to the even significand;
  \<open>quantum x\<close> is the distance between two such numbers next to \<open>x\<close>. The range of
  exponents is not bounded: overflow and underflow are left out. An addition and a
  multiplication return the rounded exact result, and so do the elementary functions.
\<close>

definition round_half_even :: "real \<Rightarrow> int" where
  "round_half_even y =
     (let f = \<lfloor>y\<rfloor>; r = y - of_int f
      in if r < 1 / 2 then f else if 1 / 2 < r then f + 1 else if even f then f else f + 1)"

definition quantum :: "real \<Rightarrow> real" where
  "quantum x = 2 powr of_int (\<lfloor>log 2 \<bar>x\<bar>\<rfloor> - 23)"

definition fl :: "real \<Rightarrow> real" where
  "fl x = (if x = 0 then 0 else of_int (round_half_even (x / quantum x)) * quantum x)"

definition fadd :: "real \<Rightarrow> real \<Rightarrow> real" where
  "fadd a b = fl (a + b)"

definition fmul :: "real \<Rightarrow> real \<Rightarrow> real" where
  "fmul a b = fl (a * b)"

text \<open>
  A linear layer adds up the products of an input row with a weight row, and the bias;
  in which order is the kernel's choice, and with rounding the order matters. Two orders:
  the products are added one after the other onto the bias (a loop
  \<^verbatim>\<open>out += w[k] * x[k]\<close> over an output that starts as the bias), or the bias is added to
  the finished sum of the products (a matrix product followed by an addition).
\<close>

definition accumulate :: "real \<Rightarrow> real list \<Rightarrow> real list \<Rightarrow> real" where
  "accumulate a w x = foldl (\<lambda>s (wi, xi). fadd s (fmul wi xi)) a (zip w x)"

definition linear_bias_first :: "matrix \<Rightarrow> real list \<Rightarrow> real list \<Rightarrow> real list" where
  "linear_bias_first W b x = map2 (\<lambda>w bi. accumulate bi w x) W b"

definition linear_bias_last :: "matrix \<Rightarrow> real list \<Rightarrow> real list \<Rightarrow> real list" where
  "linear_bias_last W b x = map2 (\<lambda>w bi. fadd (accumulate 0 w x) bi) W b"

text \<open>
  Which kernel serves a matrix product depends on its sizes and is the library's choice:
  \<open>bias_first n\<close> says whether a linear layer called on \<open>n\<close> rows uses the first order.
  The other layers return the rounded result of the exact layer.
\<close>

fun float32_module_forward ::
  "(nat \<Rightarrow> bool) \<Rightarrow> bool \<Rightarrow> module \<times> params \<Rightarrow> matrix \<Rightarrow> error + matrix" where
  "float32_module_forward bias_first tr (Linear i oup, P_Linear W b) X =
     (if width X \<noteq> i then Inl RuntimeError
      else if bias_first (length X) then Inr (map (linear_bias_first W b) X)
      else Inr (map (linear_bias_last W b) X))"
| "float32_module_forward bias_first tr l X =
     (case module_forward tr l X of Inl e \<Rightarrow> Inl e | Inr Y \<Rightarrow> Inr (map (map fl) Y))"

text \<open>
  The recurrent cells, every operation rounded; their matrix products use the first
  order whatever the size of the batch. The forward pass around the cells is the common
  one of the two encoders.
\<close>

definition float32_lstm_cell ::
  "rnn_layer \<Rightarrow> real list \<Rightarrow> real list \<times> real list \<Rightarrow> real list \<times> real list" where
  "float32_lstm_cell p x hc =
     (let h = fst hc; c = snd hc; n = length h;
          gates = map2 fadd (linear_bias_first (w_ih p) (b_ih p) x)
                            (linear_bias_first (w_hh p) (b_hh p) h);
          i = map (\<lambda>a. fl (sigmoid a)) (take n gates);
          f = map (\<lambda>a. fl (sigmoid a)) (take n (drop n gates));
          g = map (\<lambda>a. fl (tanh a)) (take n (drop (2 * n) gates));
          ou = map (\<lambda>a. fl (sigmoid a)) (take n (drop (3 * n) gates));
          c' = map2 fadd (map2 fmul f c) (map2 fmul i g)
      in (map2 fmul ou (map (\<lambda>a. fl (tanh a)) c'), c'))"

definition float32_gru_cell :: "rnn_layer \<Rightarrow> real list \<Rightarrow> real list \<Rightarrow> real list" where
  "float32_gru_cell p x h =
     (let n = length h;
          gi = linear_bias_first (w_ih p) (b_ih p) x;
          gh = linear_bias_first (w_hh p) (b_hh p) h;
          r = map (\<lambda>a. fl (sigmoid a)) (map2 fadd (take n gi) (take n gh));
          z = map (\<lambda>a. fl (sigmoid a)) (map2 fadd (take n (drop n gi)) (take n (drop n gh)));
          nw = map (\<lambda>a. fl (tanh a))
                 (map2 fadd (take n (drop (2 * n) gi)) (map2 fmul r (take n (drop (2 * n) gh))))
      in map2 fadd (map2 (\<lambda>zi ni. fmul (fl (1 - zi)) ni) z nw) (map2 fmul z h))"

definition float32_LSTM_forward ::
  "LSTM \<Rightarrow> tensor \<Rightarrow> lstm_state option \<Rightarrow> error + tensor \<times> lstm_state" where
  "float32_LSTM_forward l x hid =
     RNNBase_forward float32_lstm_cell fst
       (replicate (lstm_hidden_size l) 0, replicate (lstm_hidden_size l) 0)
       (\<lambda>hc. length (fst hc) = lstm_hidden_size l \<and> length (snd hc) = lstm_hidden_size l)
       (lstm_input_size l) (lstm_hidden_size l) (lstm_layers l) x hid"

definition float32_GRU_forward ::
  "GRU \<Rightarrow> tensor \<Rightarrow> gru_state option \<Rightarrow> error + tensor \<times> gru_state" where
  "float32_GRU_forward l x hid =
     RNNBase_forward float32_gru_cell (\<lambda>hv. hv) (replicate (gru_hidden_size l) 0)
       (\<lambda>hv. length hv = gru_hidden_size l)
       (gru_input_size l) (gru_hidden_size l) (gru_layers l) x hid"

definition float32_library :: "(nat \<Rightarrow> bool) \<Rightarrow> library" where
  "float32_library bias_first =
     \<lparr>lib_module = float32_module_forward bias_first, lib_lstm = float32_LSTM_forward,
      lib_gru = float32_GRU_forward\<rparr>"


text \<open>A library whose linear layer adds onto the bias whatever the number of rows.\<close>

definition always_first :: "nat \<Rightarrow> bool" where
  "always_first n \<longleftrightarrow> True"

subsection \<open>A network whose two runs round differently\<close>

text \<open>
  \<^verbatim>\<open>RnnRegNet(2, 1, 1, 1)\<close> in evaluation mode. Every parameter and every input below is a
  binary32 number. The first linear layer computes \<^verbatim>\<open>x[0] + x[1] / 2**24 - 1\<close>; on
  the row \<^verbatim>\<open>(1, 1)\<close> the exact value is \<^verbatim>\<open>1 / 2**24\<close>, which is also what adding onto
  the bias gives, while the sum of the products, \<^verbatim>\<open>1 + 1 / 2**24\<close>, is rounded to 1
  before the bias is added. The LSTM branch carries the value to the output; the GRU
  has zero weights. The constants are the values along the LSTM branch at the second
  time step: after the input block, the cell and the hidden vector of the LSTM, after
  the block of the branch, and at the output; \<open>fl_x\<close> to \<open>fl_q\<close> in the rounded run that
  adds onto the bias, \<open>re_x\<close> to \<open>re_q\<close> over the reals.
\<close>

definition fl_inp_block :: NnSeqBnMLP where
  "fl_inp_block = \<lparr>mlp = [(Linear 2 1, P_Linear [[1, 1 / 2 ^ 24]] [- 1]), (GELU, P_None),
                          (Linear 1 1, P_Linear [[1]] [0]), (GELU, P_None)],
                   training = False\<rparr>"

definition fl_out_block :: NnSeqBnMLP where
  "fl_out_block = \<lparr>mlp = [(Linear 2 2, P_Linear [[1, 0], [0, 0]] [0, 0]), (GELU, P_None),
                          (Linear 2 1, P_Linear [[1, 0]] [0]), (Tanh, P_None)],
                   training = False\<rparr>"

definition fl_lstm :: LSTM where
  "fl_lstm = \<lparr>lstm_input_size = 1, lstm_hidden_size = 1,
              lstm_layers = [\<lparr>w_ih = [[0], [0], [1], [0]], w_hh = [[0], [0], [0], [0]],
                               b_ih = [0, 0, 0, 0], b_hh = [0, 0, 0, 0]\<rparr>]\<rparr>"

definition fl_gru :: GRU where
  "fl_gru = \<lparr>gru_input_size = 1, gru_hidden_size = 1,
             gru_layers = [\<lparr>w_ih = [[0], [0], [0]], w_hh = [[0], [0], [0]],
                             b_ih = [0, 0, 0], b_hh = [0, 0, 0]\<rparr>]\<rparr>"

definition fl_rnn :: RnnRegNet where
  "fl_rnn = \<lparr>mlp_inp = fl_inp_block, mlp1 = ex_block, mlp2 = ex_block, mlp_out = fl_out_block,
             rnn1 = fl_lstm, rnn2 = fl_gru\<rparr>"

definition fl_x :: real where
  "fl_x = fl (gelu (fl (gelu (1 / 2 ^ 24))))"

definition fl_c :: real where
  "fl_c = fl (fl (tanh fl_x) / 2)"

definition fl_h :: real where
  "fl_h = fl (fl (tanh fl_c) / 2)"

definition fl_m :: real where
  "fl_m = fl (gelu (fl (gelu fl_h)))"

definition fl_q :: real where
  "fl_q = fl (tanh (fl (gelu fl_m)))"






subsection \<open>The constructor of the block\<close>

lemma init_loop_foldl:
  "foldl (init_loop_body dims lnorm) acc is
     = acc @ concat (map (spec_hidden_block dims lnorm) is)"
  by (induction "is" arbitrary: acc)
     (simp_all add: init_loop_body_def spec_hidden_block_def Let_def)

text \<open>
  Claim C3. For every dimension tuple with at least two entries the constructor succeeds
  and builds exactly the layer sequence of the specification, in order: the input
  batch normalisation iff \<open>if_inp_norm\<close>, the first linear layer, one block of
  nonlinearity, layer normalisation (iff \<open>if_layer_norm\<close>) and linear layer per
  \<open>i = 1 .. len(dims) - 2\<close>, and the output activation iff one is supplied.
\<close>

theorem NnSeqBnMLP_init_layers:
  assumes "2 \<le> length dims"
  shows "NnSeqBnMLP_init dims if_inp_norm if_layer_norm activation
           = Inr (spec_layers dims if_inp_norm if_layer_norm activation)"
proof -
  from assms have "dims \<noteq> []" and "1 < length dims"
    by auto
  then show ?thesis
    by (simp add: NnSeqBnMLP_init_def spec_layers_def py_index_def init_loop_foldl Let_def
             split: option.splits)
qed

theorem NnSeqBnMLP_init_layers_witness:
  "NnSeqBnMLP_init [3, 5, 4, 2] True True (Some Tanh)
     = Inr [BatchNorm1d 3, Linear 3 5, GELU, LayerNorm 5, Linear 5 4,
            GELU, LayerNorm 4, Linear 4 2, Tanh]"
  using NnSeqBnMLP_init_layers [of "[3, 5, 4, 2]" True True "Some Tanh"]
  by (simp add: spec_layers_def spec_hidden_block_def upt_rec)

subsection \<open>The fusion pattern of the networks\<close>

lemma spec_stack_eq: "spec_stack blks x = transformer_forward blks x"
proof -
  have err: "foldl (\<lambda>r blk. and_then r (encoder blk)) (Inl e) blks = Inl e" for e blks
    by (induction blks) (simp_all add: and_then_def)
  have step: "and_then (Inr x) f = f x" "and_then (Inl e) f = Inl e" for x e and f :: "tensor \<Rightarrow> error + tensor"
    by (simp_all add: and_then_def)
  show ?thesis
    unfolding spec_stack_def
  proof (induction blks arbitrary: x)
    case Nil
    then show ?case by simp
  next
    case (Cons blk blks)
    then show ?case
      by (cases "encoder blk x") (simp_all add: step err TransformerEncoderBlock_forward_def)
  qed
qed

lemma sum_case_and_then: "case_sum Inl f r = and_then r f"
  by (simp add: and_then_def)

lemma and_then_assoc: "and_then (and_then r f) g = and_then r (\<lambda>a. and_then (f a) g)"
  by (cases r) (simp_all add: and_then_def)

lemma and_then_Inr: "and_then (Inr a) f = f a"
  by (simp add: and_then_def)

text \<open>
  Claim C2. \<^verbatim>\<open>RnnRegNet.forward\<close> is the dual-branch fusion of the specification: after
  the input block, an LSTM followed by its own block and a GRU followed by its own block
  run on the same tensor, each from its half of \<open>hid\<close> (an absent \<open>hid\<close> is the pair of
  absent states); the branch outputs are concatenated along the feature axis and pass the
  output block; the result is the output sequence with the pair of the updated states.
\<close>

theorem RnnRegNet_forward_fusion:
  "RnnRegNet_forward net inp hid = spec_RnnRegNet_forward net inp hid"
  unfolding RnnRegNet_forward_def spec_RnnRegNet_forward_def dual_branch_fusion_def
    branch_def sum_case_and_then Let_def
  by (simp add: and_then_assoc and_then_Inr case_prod_unfold)

text \<open>
  Claim C8. A \<^verbatim>\<open>TransformerRegNet\<close> built with \<open>num_layers\<close> has two branches of
  \<open>num_layers\<close> encoder blocks each, and its \<^verbatim>\<open>forward\<close> is the same fusion pattern: the
  projected input passes each stack of blocks in sequence and then the branch's own
  block; the two results are concatenated along the feature axis and pass the output
  block, which gives the output sequence.
\<close>

theorem TransformerRegNet_forward_fusion:
  "TransformerRegNet_init inp_dim mid_dim out_dim num_layers nh net \<Longrightarrow>
   length (transformer1 net) = num_layers \<and> length (transformer2 net) = num_layers
   \<and> TransformerRegNet_forward net inp hid
       = and_then (spec_TransformerRegNet_forward net inp) (\<lambda>out. Inr (out, None))"
  unfolding TransformerRegNet_forward_def spec_TransformerRegNet_forward_def dual_branch_fusion_def
    branch_def sum_case_and_then Let_def spec_stack_eq
  by (simp add: TransformerRegNet_init_def and_then_assoc and_then_Inr case_prod_unfold)

text \<open>
  Claim C7. The convolutional and the transformer network carry no hidden state: for
  every input and every two values \<open>hid\<close>, \<open>hid'\<close> of the argument, the result with \<open>hid\<close>
  is the outcome with \<open>hid'\<close> (the same error, or the same output sequence) with \<open>None\<close>
  as its second component.
\<close>

theorem no_hidden_state:
  "DilatedCNNRegNet_forward cnet inp hid
     = (case DilatedCNNRegNet_forward cnet inp hid' of Inl e \<Rightarrow> Inl e | Inr (out, _) \<Rightarrow> Inr (out, None))
   \<and> TransformerRegNet_forward tnet inp hid
     = (case TransformerRegNet_forward tnet inp hid' of Inl e \<Rightarrow> Inl e | Inr (out, _) \<Rightarrow> Inr (out, None))"
  by (simp add: DilatedCNNRegNet_forward_def TransformerRegNet_forward_def split: sum.split)

text \<open>
  Claim C10. On an input whose number of axes is not 3, \<^verbatim>\<open>NnSeqBnMLP.forward\<close> raises
  (the shape does not unpack into three components), and so does the \<^verbatim>\<open>forward\<close> of
  every network, whose first step is the input block.
\<close>

theorem forward_rank:
  assumes "length (shape inp) \<noteq> 3"
  shows "NnSeqBnMLP_forward m inp = Inl ValueError
    \<and> RnnRegNet_forward rnet inp rhid = Inl ValueError
    \<and> DilatedCNNRegNet_forward cnet inp hid = Inl ValueError
    \<and> TransformerRegNet_forward tnet inp hid' = Inl ValueError"
proof -
  have "NnSeqBnMLP_forward m inp = Inl ValueError" for m
    using assms by (auto simp: NnSeqBnMLP_forward_def split: list.splits)
  then show ?thesis
    by (simp add: RnnRegNet_forward_def DilatedCNNRegNet_forward_def TransformerRegNet_forward_def split: prod.splits)
qed

subsection \<open>Blocks act row by row\<close>

lemma take_drop_concat:
  "list_all (\<lambda>r. length r = w) X \<Longrightarrow> i < length X \<Longrightarrow> take w (drop (i * w) (concat X)) = X ! i"
proof (induction X arbitrary: i)
  case Nil
  then show ?case by simp
next
  case (Cons r X)
  show ?case
  proof (cases i)
    case 0
    with Cons.prems show ?thesis by simp
  next
    case (Suc k)
    with Cons.prems have "drop (i * w) (concat (r # X)) = drop (k * w) (concat X)"
      by simp
    with Cons Suc show ?thesis by simp
  qed
qed

lemma length_chunks [simp]: "length (chunks n w xs) = n"
  by (simp add: chunks_def)

lemma nth_chunks: "i < n \<Longrightarrow> chunks n w xs ! i = take w (drop (i * w) xs)"
  by (simp add: chunks_def)

lemma rect_chunks: "length xs = n * w \<Longrightarrow> rect w (chunks n w xs)"
proof -
  assume len: "length xs = n * w"
  have "length (take w (drop (i * w) xs)) = w" if "i < n" for i
  proof -
    from that have "Suc i \<le> n" by simp
    then have "Suc i * w \<le> n * w" by (rule mult_le_mono1)
    with len show ?thesis by simp
  qed
  then show ?thesis
    by (simp add: rect_def chunks_def list_all_iff)
qed

lemma chunks_concat: "rect w X \<Longrightarrow> chunks (length X) w (concat X) = X"
  by (rule nth_equalityI) (simp_all add: nth_chunks take_drop_concat rect_def)

lemma rect_width: "rect w X \<Longrightarrow> X \<noteq> [] \<Longrightarrow> width X = w"
  by (cases X) (simp_all add: rect_def width_def)

lemma rect_nth: "rect w X \<Longrightarrow> i < length X \<Longrightarrow> length (X ! i) = w"
  by (simp add: rect_def list_all_length)

lemma rect_map: "(\<And>r. length r = w \<Longrightarrow> length (f r) = w') \<Longrightarrow> rect w X \<Longrightarrow> rect w' (map f X)"
  by (simp add: rect_def list_all_iff)

lemma length_linear_row: "length (linear_row W b x) = min (length W) (length b)"
  by (simp add: linear_row_def)

lemma length_layer_norm_row: "length (layer_norm_row g b x) = min (length x) (min (length g) (length b))"
  by (simp add: layer_norm_row_def)

lemma length_batch_norm_row:
  "length (batch_norm_row ms vs g b x)
     = min (length x) (min (length ms) (min (length vs) (min (length g) (length b))))"
  by (simp add: batch_norm_row_def)

lemma module_forward_rowwise:
  assumes "\<not> (tr \<and> is_batch_norm (fst l))" and "X \<noteq> []" and "rect w X"
    and "module_forward tr l X = Inr Y"
  shows "length Y = length X \<and> (\<exists>w'. rect w' Y) \<and> (\<forall>i<length X. module_row l (X ! i) = Inr (Y ! i))"
proof -
  have w: "width X = w" using assms(2,3) by (rule rect_width[rotated])
  have len: "length (X ! i) = w" if "i < length X" for i
    using assms(3) that by (rule rect_nth)
  show ?thesis
  proof (cases "(tr, l, X)" rule: module_forward.cases)
    case (1 tr' i oup W b X')
    with assms w len show ?thesis
      by (auto split: if_splits intro!: exI[of _ "min (length W) (length b)"] rect_map[where w=w] simp: length_linear_row)
  next
    case (2 tr' d g b X')
    with assms w len show ?thesis
      by (auto split: if_splits intro!: exI[of _ "min w (min (length g) (length b))"] rect_map[where w=w] simp: length_layer_norm_row)
  next
    case (3 tr' c g b rm rv X')
    with assms w len show ?thesis
      by (auto split: if_splits intro!: exI[of _ "min w (min (length rm) (min (length rv) (min (length g) (length b))))"] rect_map[where w=w] simp: length_batch_norm_row)
  next
    case (4 tr' X')
    with assms w len show ?thesis
      by (auto intro!: exI[of _ w] rect_map[where w=w])
  next
    case (5 tr' X')
    with assms w len show ?thesis
      by (auto intro!: exI[of _ w] rect_map[where w=w])
  qed (use assms in auto)
qed

lemma Sequential_forward_rowwise:
  assumes "\<not> tr \<or> list_all (\<lambda>l. \<not> is_batch_norm (fst l)) ls" and "X \<noteq> []" and "rect w X"
    and "Sequential_forward tr ls X = Inr Y"
  shows "length Y = length X \<and> (\<exists>w'. rect w' Y) \<and> (\<forall>i<length X. Sequential_row ls (X ! i) = Inr (Y ! i))"
  using assms
proof (induction ls arbitrary: X w)
  case Nil
  then show ?case by auto
next
  case (Cons l ls)
  from Cons.prems(4) obtain Z where Z: "module_forward tr l X = Inr Z"
    and Y: "Sequential_forward tr ls Z = Inr Y"
    by (auto split: sum.splits)
  from Cons.prems(1) have "\<not> (tr \<and> is_batch_norm (fst l))" by auto
  from module_forward_rowwise[OF this Cons.prems(2,3) Z]
  obtain w' where lz: "length Z = length X" and rz: "rect w' Z"
    and row: "\<forall>i<length X. module_row l (X ! i) = Inr (Z ! i)"
    by blast
  from lz Cons.prems(2) have "Z \<noteq> []" by auto
  moreover from Cons.prems(1) have "\<not> tr \<or> list_all (\<lambda>l. \<not> is_batch_norm (fst l)) ls" by auto
  ultimately have "length Y = length Z \<and> (\<exists>w'. rect w' Y) \<and> (\<forall>i<length Z. Sequential_row ls (Z ! i) = Inr (Y ! i))"
    using rz Y Cons.IH by blast
  with lz row show ?case by simp
qed




lemma NnSeqBnMLP_forward_slice:
  assumes "rowwise m" and "wf_tensor seq" and "NnSeqBnMLP_forward m seq = Inr out"
    and "t < shape seq ! 0" and "b < shape seq ! 1"
  shows "NnSeqBnMLP_row m (slice seq t b) = Inr (slice out t b)"
proof -
  from assms(3) obtain d0 d1 d2 where sh: "shape seq = [d0, d1, d2]"
    by (auto simp: NnSeqBnMLP_forward_def split: list.splits)
  define X where "X = chunks (d0 * d1) d2 (data seq)"
  from assms(3) sh obtain Y where nz: "d0 * d1 \<noteq> 0"
    and Y: "Sequential_forward (training m) (mlp m) X = Inr Y"
    and out: "out = from_rows d0 d1 Y"
    by (auto simp: NnSeqBnMLP_forward_def X_def split: if_splits sum.splits)
  from assms(2) sh have "length (data seq) = (d0 * d1) * d2"
    by (simp add: wf_tensor_def numel_def)
  then have rX: "rect d2 X"
    unfolding X_def by (rule rect_chunks)
  from nz have ne: "X \<noteq> []"
    by (auto simp: X_def chunks_def)
  from assms(1) have "\<not> training m \<or> list_all (\<lambda>l. \<not> is_batch_norm (fst l)) (mlp m)"
    by (simp add: rowwise_def)
  from Sequential_forward_rowwise[OF this ne rX Y]
  obtain w' where lY: "length Y = length X" and rY: "rect w' Y"
    and row: "\<forall>i<length X. Sequential_row (mlp m) (X ! i) = Inr (Y ! i)"
    by blast
  define i where "i = t * d1 + b"
  from assms(4,5) sh have "t < d0" "b < d1" by simp_all
  then have "i < d0 * d1"
    unfolding i_def
    by (metis add.commute mult.commute mult_Suc_right nat_add_left_cancel_less
          less_le_trans Suc_leI mult_le_mono2)
  then have iX: "i < length X" by (simp add: X_def)
  from lY ne have "Y \<noteq> []" by auto
  with rY have wY: "width Y = w'" by (simp add: rect_width)
  have "slice seq t b = X ! i"
    using iX by (simp add: slice_def sh i_def X_def nth_chunks)
  moreover have "slice out t b = Y ! i"
    using iX lY rY by (simp add: slice_def out from_rows_def wY i_def[symmetric] take_drop_concat rect_def)
  ultimately show ?thesis
    using row iX by (simp add: NnSeqBnMLP_row_def)
qed




subsection \<open>The small instances, evaluated\<close>

lemma gelu_0 [simp]: "gelu 0 = 0"
  by (simp add: gelu_def)

lemma sigmoid_0 [simp]: "sigmoid 0 = 1 / 2"
  by (simp add: sigmoid_def)

lemmas eval_defs = NnSeqBnMLP_forward_def chunks_def upt_rec width_def
  linear_row_def dot_def from_rows_def layer_norm_row_def normalize_def mean_def var_def
  rows3_def

lemma ex_block_2:
  "NnSeqBnMLP_forward ex_block \<lparr>shape = [2, 1, 1], data = [0, 0]\<rparr>
     = Inr \<lparr>shape = [2, 1, 1], data = [0, 0]\<rparr>"
  by (simp add: eval_defs ex_block_def)

lemma ex_block_ln_2:
  "NnSeqBnMLP_forward ex_block_ln \<lparr>shape = [2, 1, 1], data = [0, 0]\<rparr>
     = Inr \<lparr>shape = [2, 1, 1], data = [0, 0]\<rparr>"
  by (simp add: eval_defs ex_block_ln_def)

lemma ex_out_block_2:
  "NnSeqBnMLP_forward ex_out_block \<lparr>shape = [2, 1, 2], data = [0, 0, 0, 0]\<rparr>
     = Inr \<lparr>shape = [2, 1, 1], data = [tanh (1 / 2), tanh (1 / 2)]\<rparr>"
  by (simp add: eval_defs ex_out_block_def)

lemma ex_out_block_ln_2:
  "NnSeqBnMLP_forward ex_out_block_ln \<lparr>shape = [2, 1, 2], data = [0, 0, 0, 0]\<rparr>
     = Inr \<lparr>shape = [2, 1, 1], data = [tanh (1 / 2), tanh (1 / 2)]\<rparr>"
  by (simp add: eval_defs ex_out_block_ln_def)

lemma ex_lstm_2:
  "LSTM_forward ex_lstm \<lparr>shape = [2, 1, 1], data = [0, 0]\<rparr> None
     = Inr (\<lparr>shape = [2, 1, 1], data = [0, 0]\<rparr>, [[([0], [0])]])"
  by (simp add: LSTM_forward_def RNNBase_forward_def ex_lstm_def state_ok_def eval_defs
        lstm_cell_def Let_def)

lemma ex_gru_2:
  "GRU_forward ex_gru \<lparr>shape = [2, 1, 1], data = [0, 0]\<rparr> None
     = Inr (\<lparr>shape = [2, 1, 1], data = [0, 0]\<rparr>, [[[0]]])"
  by (simp add: GRU_forward_def RNNBase_forward_def ex_gru_def state_ok_def eval_defs
        gru_cell_def Let_def)

lemma cat_zero_2:
  "cat_dim2 \<lparr>shape = [2, 1, 1], data = [0, 0]\<rparr> \<lparr>shape = [2, 1, 1], data = [0, 0]\<rparr>
     = Inr \<lparr>shape = [2, 1, 2], data = [0, 0, 0, 0]\<rparr>"
  by (simp add: cat_dim2_def rows3_def chunks_def upt_rec)

lemma ex_rnn_sel:
  "mlp_inp ex_rnn = ex_block" "mlp1 ex_rnn = ex_block" "mlp2 ex_rnn = ex_block"
  "mlp_out ex_rnn = ex_out_block" "rnn1 ex_rnn = ex_lstm" "rnn2 ex_rnn = ex_gru"
  by (simp_all add: ex_rnn_def)

lemma ex_rnn_2:
  "RnnRegNet_forward ex_rnn \<lparr>shape = [2, 1, 1], data = [0, 0]\<rparr> None
     = Inr (\<lparr>shape = [2, 1, 1], data = [tanh (1 / 2), tanh (1 / 2)]\<rparr>, ([[([0], [0])]], [[[0]]]))"
  by (simp only: RnnRegNet_forward_def ex_rnn_sel Let_def option.case prod.case sum.case
        ex_block_2 ex_lstm_2 ex_gru_2 cat_zero_2 ex_out_block_2)


subsection \<open>Shapes\<close>

lemma and_then_eq_Inr: "and_then r f = Inr y \<longleftrightarrow> (\<exists>a. r = Inr a \<and> f a = Inr y)"
  by (cases r) (simp_all add: and_then_def)

lemma module_forward_width:
  assumes "wf_layer l" and "X \<noteq> []" and "module_forward tr l X = Inr Y"
  shows "Y \<noteq> [] \<and> length Y = length X \<and> width Y = out_width [fst l] (width X)"
proof (cases "(tr, l, X)" rule: module_forward.cases)
  case (1 tr' i oup W b X')
  with assms show ?thesis
    by (auto simp: width_def hd_map length_linear_row split: if_splits)
next
  case (2 tr' d g b X')
  with assms show ?thesis
    by (auto simp: width_def hd_map length_layer_norm_row split: if_splits)
next
  case (3 tr' c g b rm rv X')
  with assms show ?thesis
    by (auto simp: width_def hd_map length_batch_norm_row columns_def split: if_splits)
next
  case (4 tr' X')
  with assms show ?thesis
    by (auto simp: width_def hd_map)
next
  case (5 tr' X')
  with assms show ?thesis
    by (auto simp: width_def hd_map)
qed (use assms in auto)

lemma out_width_Cons: "out_width (l # ls) w = out_width ls (out_width [l] w)"
  by (cases l) simp_all

lemma Sequential_forward_width:
  assumes "list_all wf_layer ls" and "X \<noteq> []" and "Sequential_forward tr ls X = Inr Y"
  shows "Y \<noteq> [] \<and> length Y = length X \<and> width Y = out_width (map fst ls) (width X)"
  using assms
proof (induction ls arbitrary: X)
  case Nil
  then show ?case by simp
next
  case (Cons l ls)
  from Cons.prems(3) obtain Z where Z: "module_forward tr l X = Inr Z"
    and Y: "Sequential_forward tr ls Z = Inr Y"
    by (auto split: sum.splits)
  from Cons.prems(1) have wl: "wf_layer l" and wls: "list_all wf_layer ls" by simp_all
  from module_forward_width[OF wl Cons.prems(2) Z]
  have z: "Z \<noteq> []" "length Z = length X" "width Z = out_width [fst l] (width X)" by simp_all
  have "out_width (map fst (l # ls)) (width X) = out_width (map fst ls) (width Z)"
    using out_width_Cons[of "fst l" "map fst ls" "width X"] z(3) by simp
  with Cons.IH[OF wls z(1) Y] z show ?case
    by simp
qed

lemma NnSeqBnMLP_forward_shape:
  assumes "NnSeqBnMLP_forward m x = Inr y" and "shape x = [d0, d1, d2]"
  shows "\<exists>w. shape y = [d0, d1, w]"
  using assms
  by (auto simp: NnSeqBnMLP_forward_def from_rows_def split: if_splits sum.splits)

lemma NnSeqBnMLP_forward_shape_built:
  assumes "NnSeqBnMLP_forward m x = Inr y" and "shape x = [d0, d1, d2]"
    and "NnSeqBnMLP_built [a, b, c] False lnorm (Some act) m" and "act = GELU \<or> act = Tanh"
  shows "shape y = [d0, d1, c]"
proof -
  from assms(1,2) obtain Y where nz: "d0 * d1 \<noteq> 0"
    and Y: "Sequential_forward (training m) (mlp m) (chunks (d0 * d1) d2 (data x)) = Inr Y"
    and y: "y = from_rows d0 d1 Y"
    by (auto simp: NnSeqBnMLP_forward_def split: if_splits sum.splits)
  from nz have ne: "chunks (d0 * d1) d2 (data x) \<noteq> []"
    by (auto simp: chunks_def)
  from assms(3) have wf: "list_all wf_layer (mlp m)"
    and layers: "map fst (mlp m) = [Linear a b, GELU] @ (if lnorm then [LayerNorm b] else []) @ [Linear b c, act]"
    by (auto simp add: NnSeqBnMLP_built_def NnSeqBnMLP_init_def py_index_def init_loop_body_def
          upt_rec Let_def)
  from assms(4) have "out_width (map fst (mlp m)) w = c" for w
    unfolding layers by auto
  with Sequential_forward_width[OF wf ne Y] have "width Y = c" by simp
  with y show ?thesis by (simp add: from_rows_def)
qed

lemma LSTM_forward_shape:
  "LSTM_forward l x hid = Inr (y, s) \<Longrightarrow> shape x = [t, n, i] \<Longrightarrow> shape y = [t, n, lstm_hidden_size l]"
  by (auto simp: LSTM_forward_def RNNBase_forward_def Let_def split: if_splits prod.splits)


lemma cat_dim2_shape:
  "cat_dim2 a b = Inr c \<Longrightarrow> shape a = [t, n, w] \<Longrightarrow> \<exists>w'. shape c = [t, n, w']"
  by (auto simp: cat_dim2_def split: list.splits if_splits)

lemma permute_120_shape:
  "permute_120 x = Inr y \<Longrightarrow> shape x = [a, b, c] \<Longrightarrow> shape y = [b, c, a]"
  by (auto simp: permute_120_def tab3_def)

lemma permute_201_shape:
  "permute_201 x = Inr y \<Longrightarrow> shape x = [a, b, c] \<Longrightarrow> shape y = [c, a, b]"
  by (auto simp: permute_201_def tab3_def)

lemma Conv1d_forward_shape:
  "Conv1d_forward c x = Inr y \<Longrightarrow> shape x = [n, ch, l] \<Longrightarrow> shape y = [n, out_channels c, l]"
  by (auto simp: Conv1d_forward_def tab3_def split: if_splits)

lemma BatchNorm1d_forward3_shape:
  "BatchNorm1d_forward3 tr l x = Inr y \<Longrightarrow> shape y = shape x"
  by (cases "(tr, l, x)" rule: BatchNorm1d_forward3.cases)
     (auto simp: tab3_def split: if_splits list.splits)

lemma DilatedCNN_forward_shape:
  "DilatedCNN_forward layer x = Inr y \<Longrightarrow> shape x = [n, ch, l] \<Longrightarrow> \<exists>ch'. shape y = [n, ch', l]"
  by (auto simp: DilatedCNN_forward_def relu_def split: sum.splits
        dest!: Conv1d_forward_shape BatchNorm1d_forward3_shape)

lemma cnn_branch_forward_shape:
  "cnn_branch_forward layers x = Inr y \<Longrightarrow> shape x = [n, ch, l] \<Longrightarrow> \<exists>ch'. shape y = [n, ch', l]"
proof (induction layers arbitrary: x ch)
  case Nil
  then show ?case by simp
next
  case (Cons layer layers)
  from Cons.prems(1) obtain z where z: "DilatedCNN_forward layer x = Inr z"
    and y: "cnn_branch_forward layers z = Inr y"
    by (auto split: sum.splits)
  from DilatedCNN_forward_shape[OF z Cons.prems(2)] obtain ch' where "shape z = [n, ch', l]" ..
  with Cons.IH[OF y] show ?case by blast
qed

lemma transformer_forward_shape:
  "list_all keeps_shape blks \<Longrightarrow> transformer_forward blks x = Inr y \<Longrightarrow> shape y = shape x"
proof (induction blks arbitrary: x)
  case Nil
  then show ?case by simp
next
  case (Cons blk blks)
  from Cons.prems(2) obtain z where z: "encoder blk x = Inr z"
    and y: "transformer_forward blks z = Inr y"
    by (auto simp: TransformerEncoderBlock_forward_def split: sum.splits)
  from Cons.prems(1) z have "shape z = shape x"
    by (auto simp: keeps_shape_def)
  with Cons.IH[OF _ y] Cons.prems(1) show ?case by simp
qed

lemma RnnRegNet_forward_shape:
  assumes "RnnRegNet_init inp_dim mid_dim out_dim num_layers net"
    and "shape inp = [T, B, F]" and "RnnRegNet_forward net inp hid = Inr (out, hs)"
  shows "shape out = [T, B, out_dim]"
proof -
  from assms(3) obtain x r1 h1 tmp1 r2 h2 tmp2 tmp hid1 hid2 where
    x: "NnSeqBnMLP_forward (mlp_inp net) inp = Inr x"
    and r1: "LSTM_forward (rnn1 net) x hid1 = Inr (r1, h1)"
    and tmp1: "NnSeqBnMLP_forward (mlp1 net) r1 = Inr tmp1"
    and tmp: "cat_dim2 tmp1 tmp2 = Inr tmp"
    and out: "NnSeqBnMLP_forward (mlp_out net) tmp = Inr out"
    unfolding RnnRegNet_forward_def sum_case_and_then Let_def
    by (auto simp: and_then_eq_Inr split: prod.splits)
  from NnSeqBnMLP_forward_shape[OF x assms(2)] obtain w where "shape x = [T, B, w]" ..
  from LSTM_forward_shape[OF r1 this] have "shape r1 = [T, B, lstm_hidden_size (rnn1 net)]" .
  from NnSeqBnMLP_forward_shape[OF tmp1 this] obtain w1 where "shape tmp1 = [T, B, w1]" ..
  from cat_dim2_shape[OF tmp this] obtain w2 where "shape tmp = [T, B, w2]" ..
  moreover from assms(1)
  have "NnSeqBnMLP_built [mid_dim * 2, mid_dim * 2, out_dim] False False (Some Tanh) (mlp_out net)"
    by (simp add: RnnRegNet_init_def)
  ultimately show ?thesis
    using NnSeqBnMLP_forward_shape_built[OF out, of T B _ "mid_dim * 2" "mid_dim * 2" out_dim False Tanh]
    by simp
qed


lemma DilatedCNNRegNet_forward_shape:
  assumes "DilatedCNNRegNet_init inp_dim mid_dim out_dim num_layers ksize dil net"
    and "shape inp = [T, B, F]" and "DilatedCNNRegNet_forward net inp hid = Inr (out, hs)"
  shows "shape out = [T, B, out_dim]"
proof -
  from assms(3) obtain x0 x o1 out1 tmp1 tmp2 tmp where
    x0: "NnSeqBnMLP_forward (mlp_inp net) inp = Inr x0"
    and x: "permute_120 x0 = Inr x"
    and o1: "cnn_branch_forward (cnn_branch1 net) x = Inr o1"
    and out1: "permute_201 o1 = Inr out1"
    and tmp1: "NnSeqBnMLP_forward (mlp1 net) out1 = Inr tmp1"
    and tmp: "cat_dim2 tmp1 tmp2 = Inr tmp"
    and out: "NnSeqBnMLP_forward (mlp_out net) tmp = Inr out"
    unfolding DilatedCNNRegNet_forward_def sum_case_and_then
    by (auto simp: and_then_eq_Inr)
  from NnSeqBnMLP_forward_shape[OF x0 assms(2)] obtain w where "shape x0 = [T, B, w]" ..
  from permute_120_shape[OF x this] have "shape x = [B, w, T]" .
  from cnn_branch_forward_shape[OF o1 this] obtain ch where "shape o1 = [B, ch, T]" ..
  from permute_201_shape[OF out1 this] have "shape out1 = [T, B, ch]" .
  from NnSeqBnMLP_forward_shape[OF tmp1 this] obtain w1 where "shape tmp1 = [T, B, w1]" ..
  from cat_dim2_shape[OF tmp this] obtain w2 where "shape tmp = [T, B, w2]" ..
  from NnSeqBnMLP_forward_shape_built[OF out this, of "mid_dim * 2" "mid_dim * 2" out_dim True Tanh]
    assms(1) show ?thesis
    by (simp add: DilatedCNNRegNet_init_def)
qed

lemma TransformerRegNet_forward_shape:
  assumes "TransformerRegNet_init inp_dim mid_dim out_dim num_layers nh net"
    and "list_all keeps_shape (transformer1 net)"
    and "shape inp = [T, B, F]" and "TransformerRegNet_forward net inp hid = Inr (out, hs)"
  shows "shape out = [T, B, out_dim]"
proof -
  from assms(4) obtain x t1 tmp1 tmp2 tmp where
    x: "NnSeqBnMLP_forward (mlp_inp net) inp = Inr x"
    and t1: "transformer_forward (transformer1 net) x = Inr t1"
    and tmp1: "NnSeqBnMLP_forward (mlp1 net) t1 = Inr tmp1"
    and tmp: "cat_dim2 tmp1 tmp2 = Inr tmp"
    and out: "NnSeqBnMLP_forward (mlp_out net) tmp = Inr out"
    unfolding TransformerRegNet_forward_def sum_case_and_then
    by (auto simp: and_then_eq_Inr)
  from NnSeqBnMLP_forward_shape[OF x assms(3)] obtain w where "shape x = [T, B, w]" ..
  with transformer_forward_shape[OF assms(2) t1] have "shape t1 = [T, B, w]" by simp
  from NnSeqBnMLP_forward_shape[OF tmp1 this] obtain w1 where "shape tmp1 = [T, B, w1]" ..
  from cat_dim2_shape[OF tmp this] obtain w2 where "shape tmp = [T, B, w2]" ..
  from NnSeqBnMLP_forward_shape_built[OF out this, of "mid_dim * 2" "mid_dim * 2" out_dim True Tanh]
    assms(1) show ?thesis
    by (simp add: TransformerRegNet_init_def)
qed

text \<open>
  Claim C6. Every network keeps the time and the batch axis: on a 3-D input of shape
  \<open>(T, B, F)\<close> on which \<^verbatim>\<open>forward\<close> succeeds, a network built with output dimension
  \<open>out_dim\<close> returns an output sequence of shape \<open>(T, B, out_dim)\<close>. For the transformer
  network the encoder layers of the library are taken to return the shape they are given.
\<close>

theorem forward_shape:
  assumes "shape inp = [T, B, F]"
  shows "(RnnRegNet_init inp_dim mid_dim out_dim num_layers rnet
            \<and> RnnRegNet_forward rnet inp rhid = Inr (out, hs) \<longrightarrow> shape out = [T, B, out_dim])
     \<and> (DilatedCNNRegNet_init inp_dim' mid_dim' out_dim' num_layers' ksize dil cnet
            \<and> DilatedCNNRegNet_forward cnet inp chid = Inr (out', hs') \<longrightarrow> shape out' = [T, B, out_dim'])
     \<and> (TransformerRegNet_init inp_dim'' mid_dim'' out_dim'' num_layers'' nh tnet
            \<and> list_all keeps_shape (transformer1 tnet) \<and> list_all keeps_shape (transformer2 tnet)
            \<and> TransformerRegNet_forward tnet inp thid = Inr (out'', hs'') \<longrightarrow> shape out'' = [T, B, out_dim''])"
proof (intro conjI impI)
  assume "RnnRegNet_init inp_dim mid_dim out_dim num_layers rnet
            \<and> RnnRegNet_forward rnet inp rhid = Inr (out, hs)"
  with assms show "shape out = [T, B, out_dim]"
    using RnnRegNet_forward_shape by blast
next
  assume "DilatedCNNRegNet_init inp_dim' mid_dim' out_dim' num_layers' ksize dil cnet
            \<and> DilatedCNNRegNet_forward cnet inp chid = Inr (out', hs')"
  then have "DilatedCNNRegNet_init inp_dim' mid_dim' out_dim' num_layers' ksize dil cnet"
    and "DilatedCNNRegNet_forward cnet inp chid = Inr (out', hs')"
    by simp_all
  from DilatedCNNRegNet_forward_shape[OF this(1) assms this(2)]
  show "shape out' = [T, B, out_dim']" .
next
  assume "TransformerRegNet_init inp_dim'' mid_dim'' out_dim'' num_layers'' nh tnet
            \<and> list_all keeps_shape (transformer1 tnet) \<and> list_all keeps_shape (transformer2 tnet)
            \<and> TransformerRegNet_forward tnet inp thid = Inr (out'', hs'')"
  then have "TransformerRegNet_init inp_dim'' mid_dim'' out_dim'' num_layers'' nh tnet"
    and "list_all keeps_shape (transformer1 tnet)"
    and "TransformerRegNet_forward tnet inp thid = Inr (out'', hs'')"
    by simp_all
  from TransformerRegNet_forward_shape[OF this(1,2) assms this(3)]
  show "shape out'' = [T, B, out_dim'']" .
qed

lemma built_simps:
  "NnSeqBnMLP_built [1, 1, 1] False False (Some GELU) ex_block"
  "NnSeqBnMLP_built [1 * 2, 1 * 2, 1] False False (Some Tanh) ex_out_block"
  "NnSeqBnMLP_built [1, 1, 1] False True (Some GELU) ex_block_ln"
  "NnSeqBnMLP_built [1 * 2, 1 * 2, 1] False True (Some Tanh) ex_out_block_ln"
  by (simp_all add: NnSeqBnMLP_built_def NnSeqBnMLP_init_def py_index_def init_loop_body_def
        upt_rec Let_def ex_block_def ex_out_block_def ex_block_ln_def ex_out_block_ln_def)

lemma ex_rnn_init: "RnnRegNet_init 1 1 1 1 ex_rnn"
  unfolding RnnRegNet_init_def ex_rnn_sel
  by (intro conjI built_simps)
     (simp_all add: LSTM_built_def GRU_built_def ex_lstm_def ex_gru_def wf_rnn_layer_def)

lemma ex_cnn_sel:
  "mlp_inp ex_cnn = ex_block_ln" "mlp1 ex_cnn = ex_block_ln" "mlp2 ex_cnn = ex_block_ln"
  "mlp_out ex_cnn = ex_out_block_ln" "cnn_branch1 ex_cnn = [ex_dcnn]" "cnn_branch2 ex_cnn = [ex_dcnn]"
  by (simp_all add: ex_cnn_def)

lemma ex_cnn_init: "DilatedCNNRegNet_init 1 1 1 1 3 2 ex_cnn"
  unfolding DilatedCNNRegNet_init_def ex_cnn_sel
  by (intro conjI built_simps) (simp_all add: DilatedCNN_init_def ex_dcnn_def)

lemma ex_tf_sel:
  "mlp_inp ex_tf = ex_block_ln" "mlp1 ex_tf = ex_block_ln" "mlp2 ex_tf = ex_block_ln"
  "mlp_out ex_tf = ex_out_block_ln"
  "transformer1 ex_tf = [\<lparr>d_model = 1, nhead = 1, encoder = ex_encoder\<rparr>]"
  "transformer2 ex_tf = [\<lparr>d_model = 1, nhead = 1, encoder = ex_encoder\<rparr>]"
  by (simp_all add: ex_tf_def)

lemma ex_tf_init: "TransformerRegNet_init 1 1 1 1 1 ex_tf"
  unfolding TransformerRegNet_init_def ex_tf_sel
  by (intro conjI built_simps) simp_all

lemma ex_tf_keeps:
  "list_all keeps_shape (transformer1 ex_tf)" "list_all keeps_shape (transformer2 ex_tf)"
  by (auto simp: ex_tf_sel keeps_shape_def ex_encoder_def split: list.splits if_splits)

lemma ex_dcnn_zero:
  "DilatedCNN_forward ex_dcnn \<lparr>shape = [1, 1, 2], data = [0, 0]\<rparr>
     = Inr \<lparr>shape = [1, 1, 2], data = [0, 0]\<rparr>"
  by (simp add: DilatedCNN_forward_def ex_dcnn_def Conv1d_forward_def tab3_def upt_rec padded_def
        pad_left_def get3_def normalize_def relu_def)

lemma permute_120_zero:
  "permute_120 \<lparr>shape = [2, 1, 1], data = [0, 0]\<rparr> = Inr \<lparr>shape = [1, 1, 2], data = [0, 0]\<rparr>"
  by (simp add: permute_120_def tab3_def upt_rec get3_def)

lemma permute_201_zero:
  "permute_201 \<lparr>shape = [1, 1, 2], data = [0, 0]\<rparr> = Inr \<lparr>shape = [2, 1, 1], data = [0, 0]\<rparr>"
  by (simp add: permute_201_def tab3_def upt_rec get3_def)

lemma ex_cnn_2:
  "DilatedCNNRegNet_forward ex_cnn \<lparr>shape = [2, 1, 1], data = [0, 0]\<rparr> None
     = Inr (\<lparr>shape = [2, 1, 1], data = [tanh (1 / 2), tanh (1 / 2)]\<rparr>, None)"
  by (simp only: DilatedCNNRegNet_forward_def ex_cnn_sel sum.case cnn_branch_forward.simps
        ex_block_ln_2 permute_120_zero ex_dcnn_zero permute_201_zero cat_zero_2 ex_out_block_ln_2)

lemma ex_encoder_zero:
  "ex_encoder \<lparr>shape = [2, 1, 1], data = [0, 0]\<rparr> = Inr \<lparr>shape = [2, 1, 1], data = [0, 0]\<rparr>"
  by (simp add: ex_encoder_def)

lemma ex_tf_2:
  "TransformerRegNet_forward ex_tf \<lparr>shape = [2, 1, 1], data = [0, 0]\<rparr> None
     = Inr (\<lparr>shape = [2, 1, 1], data = [tanh (1 / 2), tanh (1 / 2)]\<rparr>, None)"
proof -
  have "transformer_forward [\<lparr>d_model = 1, nhead = 1, encoder = ex_encoder\<rparr>]
          \<lparr>shape = [2, 1, 1], data = [0, 0]\<rparr> = Inr \<lparr>shape = [2, 1, 1], data = [0, 0]\<rparr>"
    by (simp only: transformer_forward.simps TransformerEncoderBlock_forward_def
          TransformerEncoderBlock.select_convs ex_encoder_zero sum.case)
  then show ?thesis
    by (simp only: TransformerRegNet_forward_def ex_tf_sel sum.case
          ex_block_ln_2 cat_zero_2 ex_out_block_ln_2)
qed

theorem forward_shape_witness:
  "shape \<lparr>shape = [2, 1, 1], data = [0, 0]\<rparr> = [2, 1, 1]
   \<and> RnnRegNet_init 1 1 1 1 ex_rnn
   \<and> RnnRegNet_forward ex_rnn \<lparr>shape = [2, 1, 1], data = [0, 0]\<rparr> None
       = Inr (\<lparr>shape = [2, 1, 1], data = [tanh (1 / 2), tanh (1 / 2)]\<rparr>, ([[([0], [0])]], [[[0]]]))
   \<and> DilatedCNNRegNet_init 1 1 1 1 3 2 ex_cnn
   \<and> DilatedCNNRegNet_forward ex_cnn \<lparr>shape = [2, 1, 1], data = [0, 0]\<rparr> (None :: unit option)
       = Inr (\<lparr>shape = [2, 1, 1], data = [tanh (1 / 2), tanh (1 / 2)]\<rparr>, None)
   \<and> TransformerRegNet_init 1 1 1 1 1 ex_tf
   \<and> list_all keeps_shape (transformer1 ex_tf) \<and> list_all keeps_shape (transformer2 ex_tf)
   \<and> TransformerRegNet_forward ex_tf \<lparr>shape = [2, 1, 1], data = [0, 0]\<rparr> (None :: unit option)
       = Inr (\<lparr>shape = [2, 1, 1], data = [tanh (1 / 2), tanh (1 / 2)]\<rparr>, None)
   \<and> shape \<lparr>shape = [2, 1, 1], data = [tanh (1 / 2), tanh (1 / 2)]\<rparr> = [2, 1, 1]"
proof -
  have s: "shape \<lparr>shape = [2, 1, 1], data = [0, 0]\<rparr> = [2, 1, 1]"
    by simp
  from forward_shape [OF s, of 1 1 1 1 ex_rnn None _ _ 1 1 1 1 3 2 ex_cnn "None :: unit option" _ _
      1 1 1 1 1 ex_tf "None :: unit option"]
    s ex_rnn_init ex_rnn_2 ex_cnn_init ex_cnn_2 [where ?'a = unit] ex_tf_init ex_tf_keeps
    ex_tf_2 [where ?'a = unit]
  show ?thesis
    by (intro conjI) simp_all
qed


theorem TransformerRegNet_forward_fusion_witness:
  "TransformerRegNet_init 1 1 1 1 1 ex_tf
   \<and> length (transformer1 ex_tf) = 1 \<and> length (transformer2 ex_tf) = 1
   \<and> TransformerRegNet_forward ex_tf \<lparr>shape = [2, 1, 1], data = [0, 0]\<rparr> (None :: unit option)
       = and_then (spec_TransformerRegNet_forward ex_tf \<lparr>shape = [2, 1, 1], data = [0, 0]\<rparr>)
           (\<lambda>out. Inr (out, None))"
  using TransformerRegNet_forward_fusion [OF ex_tf_init,
      of "\<lparr>shape = [2, 1, 1], data = [0, 0]\<rparr>" "None :: unit option"] ex_tf_init
  by simp

theorem forward_rank_witness:
  "length (shape \<lparr>shape = [2, 3], data = [0, 0, 0, 0, 0, 0]\<rparr>) \<noteq> 3
   \<and> NnSeqBnMLP_forward ex_block \<lparr>shape = [2, 3], data = [0, 0, 0, 0, 0, 0]\<rparr> = Inl ValueError
   \<and> RnnRegNet_forward ex_rnn \<lparr>shape = [2, 3], data = [0, 0, 0, 0, 0, 0]\<rparr> None = Inl ValueError
   \<and> DilatedCNNRegNet_forward ex_cnn \<lparr>shape = [2, 3], data = [0, 0, 0, 0, 0, 0]\<rparr> (None :: unit option)
       = Inl ValueError
   \<and> TransformerRegNet_forward ex_tf \<lparr>shape = [2, 3], data = [0, 0, 0, 0, 0, 0]\<rparr> (None :: unit option)
       = Inl ValueError"
proof -
  have r: "length (shape \<lparr>shape = [2, 3], data = [0, 0, 0, 0, 0, 0]\<rparr>) \<noteq> 3"
    by simp
  from forward_rank [OF r, of ex_block ex_rnn None ex_cnn "None :: unit option" ex_tf "None :: unit option"] r
  show ?thesis
    by simp
qed

subsection \<open>The warm-up slice\<close>

text \<open>
  Claim C9. When the criterion applied to the output and the label yields a tensor of
  shape \<open>(T, B, F)\<close> (as an elementwise criterion does on tensors of that shape) and
  \<open>wup_dim\<close> is a length, that is, not negative, \<^verbatim>\<open>get_obj_value\<close> returns the criterion
  values without the first \<open>wup_dim\<close> time steps: a tensor of shape
  \<open>(max (T - wup_dim) 0, B, F)\<close> whose entry at \<open>(t, b, f)\<close> is the criterion value at
  \<open>(t + wup_dim, b, f)\<close>, and which is empty when \<open>wup_dim \<ge> T\<close>. The method has the same
  body in the three network classes.
\<close>

theorem get_obj_value_warmup:
  assumes "criterion out lab = Inr obj" and "shape obj = [T, B, F]" and "wf_tensor obj"
    and "0 \<le> wup_dim"
  shows "\<exists>r. get_obj_value criterion out lab wup_dim = Inr r
           \<and> shape r = [nat (max (int T - wup_dim) 0), B, F]
           \<and> wf_tensor r
           \<and> (\<forall>t b f. t < nat (max (int T - wup_dim) 0) \<longrightarrow> b < B \<longrightarrow> f < F \<longrightarrow>
                 get3 r t b f = get3 obj (t + nat wup_dim) b f)
           \<and> (int T \<le> wup_dim \<longrightarrow> data r = [])"
proof -
  define w where "w = nat wup_dim"
  define s where "s = min w T"
  define r where "r = \<lparr>shape = [T - s, B, F], data = drop (s * (B * F)) (data obj)\<rparr>"
  from assms(4) have st: "slice_start T wup_dim = s"
    by (auto simp: slice_start_def s_def w_def min_def)
  have res: "get_obj_value criterion out lab wup_dim = Inr r"
    by (simp add: get_obj_value_def assms(1,2) st r_def numel_def Let_def)
  from assms(4) have sh: "nat (max (int T - wup_dim) 0) = T - s"
    by (auto simp: s_def w_def min_def max_def)
  from assms(2,3) have len: "length (data obj) = T * (B * F)"
    by (simp add: wf_tensor_def numel_def)
  have wf: "wf_tensor r"
    by (simp add: wf_tensor_def numel_def r_def len diff_mult_distrib)
  have entries: "get3 r t b f = get3 obj (t + nat wup_dim) b f"
    if "t < T - s" "b < B" "f < F" for t b f
  proof -
    from that(1) have sw: "s = w" unfolding s_def by (cases "w \<le> T") auto
    have "s * (B * F) \<le> length (data obj)"
      by (simp add: len s_def)
    then have "drop (s * (B * F)) (data obj) ! ((t * B + b) * F + f)
                 = data obj ! (s * (B * F) + ((t * B + b) * F + f))"
      by simp
    also have "s * (B * F) + ((t * B + b) * F + f) = ((t + w) * B + b) * F + f"
      by (simp add: sw algebra_simps)
    finally show ?thesis
      by (simp add: get3_def r_def assms(2) w_def)
  qed
  have empty: "data r = []" if "int T \<le> wup_dim"
  proof -
    from that assms(4) have "s = T" by (auto simp: s_def w_def min_def)
    then show ?thesis by (simp add: r_def len)
  qed
  from res sh wf entries empty show ?thesis
    by (intro exI[of _ r]) (auto simp: r_def)
qed

theorem get_obj_value_warmup_witness:
  "mse \<lparr>shape = [2, 1, 1], data = [1, 3]\<rparr> \<lparr>shape = [2, 1, 1], data = [0, 1]\<rparr>
     = Inr \<lparr>shape = [2, 1, 1], data = [1, 4]\<rparr>
   \<and> wf_tensor \<lparr>shape = [2, 1, 1], data = [1, 4]\<rparr> \<and> (0 :: int) \<le> 1
   \<and> get_obj_value mse \<lparr>shape = [2, 1, 1], data = [1, 3]\<rparr> \<lparr>shape = [2, 1, 1], data = [0, 1]\<rparr> 1
       = Inr \<lparr>shape = [1, 1, 1], data = [4]\<rparr>
   \<and> get3 \<lparr>shape = [1, 1, 1], data = [4]\<rparr> 0 0 0 = get3 \<lparr>shape = [2, 1, 1], data = [1, 4]\<rparr> (0 + nat 1) 0 0"
proof -
  have c: "mse \<lparr>shape = [2, 1, 1], data = [1, 3]\<rparr> \<lparr>shape = [2, 1, 1], data = [0, 1]\<rparr>
     = Inr \<lparr>shape = [2, 1, 1], data = [1, 4]\<rparr>"
    by (simp add: mse_def)
  have s: "shape \<lparr>shape = [2, 1, 1], data = [1, 4 :: real]\<rparr> = [2, 1, 1]"
    by simp
  have w: "wf_tensor \<lparr>shape = [2, 1, 1], data = [1, 4]\<rparr>"
    by (simp add: wf_tensor_def numel_def)
  have p: "(0 :: int) \<le> 1"
    by simp
  have g: "get_obj_value mse \<lparr>shape = [2, 1, 1], data = [1, 3]\<rparr> \<lparr>shape = [2, 1, 1], data = [0, 1]\<rparr> 1
       = Inr \<lparr>shape = [1, 1, 1], data = [4]\<rparr>"
    by (simp only: get_obj_value_def c sum.case) (simp add: slice_start_def numel_def)
  from get_obj_value_warmup [of mse "\<lparr>shape = [2, 1, 1], data = [1, 3]\<rparr>"
      "\<lparr>shape = [2, 1, 1], data = [0, 1]\<rparr>" "\<lparr>shape = [2, 1, 1], data = [1, 4]\<rparr>" 2 1 1 1,
      OF c s w p] g
  have "get3 \<lparr>shape = [1, 1, 1], data = [4]\<rparr> 0 0 0
          = get3 \<lparr>shape = [2, 1, 1], data = [1, 4]\<rparr> (0 + nat 1) 0 0"
    by simp
  with c w p g show ?thesis
    by (intro conjI)
qed

subsection \<open>Entries and slices of tensors\<close>

lemma idx2_less: "i < d0 \<Longrightarrow> j < d1 \<Longrightarrow> i * d1 + j < d0 * (d1 :: nat)"
proof -
  assume "i < d0" "j < d1"
  then have "i * d1 + j < i * d1 + d1" by simp
  also have "\<dots> = Suc i * d1" by simp
  also from \<open>i < d0\<close> have "\<dots> \<le> d0 * d1" by (intro mult_le_mono1) simp
  finally show ?thesis .
qed

lemma idx2_div: "j < d1 \<Longrightarrow> (i * d1 + j) div d1 = (i :: nat)"
  by simp

lemma idx2_mod: "j < d1 \<Longrightarrow> (i * d1 + j) mod d1 = (j :: nat)"
  by simp

lemma length_concat_rect: "rect w X \<Longrightarrow> length (concat X) = length X * w"
  by (induction X) (simp_all add: rect_def)

lemma slice_rows:
  "shape x = [d0, d1, d2] \<Longrightarrow> s < d0 \<Longrightarrow> b < d1 \<Longrightarrow> slice x s b = rows3 x ! (s * d1 + b)"
  by (simp add: slice_def rows3_def nth_chunks idx2_less)

lemma length_slice:
  "wf_tensor x \<Longrightarrow> shape x = [d0, d1, d2] \<Longrightarrow> s < d0 \<Longrightarrow> b < d1 \<Longrightarrow> length (slice x s b) = d2"
proof -
  assume a: "wf_tensor x" "shape x = [d0, d1, d2]" "s < d0" "b < d1"
  then have "length (data x) = (d0 * d1) * d2"
    by (simp add: wf_tensor_def numel_def)
  then have "rect d2 (rows3 x)"
    using a(2) by (simp add: rows3_def rect_chunks)
  then show ?thesis
    using a by (simp add: slice_rows rect_nth rows3_def idx2_less)
qed

lemma get3_slice:
  assumes "wf_tensor x" and "shape x = [d0, d1, d2]" and "s < d0" and "b < d1" and "f < d2"
  shows "slice x s b ! f = get3 x s b f"
proof -
  from assms have "length (data x) = (d0 * d1) * d2"
    by (simp add: wf_tensor_def numel_def)
  moreover from assms have "(s * d1 + b) * d2 + f < (d0 * d1) * d2"
    by (intro idx2_less) (simp_all add: idx2_less)
  ultimately have "(s * d1 + b) * d2 \<le> length (data x)"
    by linarith
  with assms show ?thesis
    by (simp add: slice_def get3_def)
qed

lemma slice_eqI:
  assumes "wf_tensor x" and "wf_tensor y" and "shape x = [d0, d1, d2]" and "shape y = [d0, d1, d2]"
    and "s < d0" and "b < d1" and "\<And>f. f < d2 \<Longrightarrow> get3 x s b f = get3 y s b f"
  shows "slice x s b = slice y s b"
proof (rule nth_equalityI)
  show "length (slice x s b) = length (slice y s b)"
    using assms by (simp add: length_slice)
next
  fix f assume "f < length (slice x s b)"
  with assms have "f < d2" by (simp add: length_slice)
  with assms show "slice x s b ! f = slice y s b ! f"
    by (simp add: get3_slice)
qed

lemma shape_tab3 [simp]: "shape (tab3 d0 d1 d2 f) = [d0, d1, d2]"
  by (simp add: tab3_def)

lemma data_tab3:
  "data (tab3 d0 d1 d2 f) = concat (map (\<lambda>r. map (f (r div d1) (r mod d1)) [0..<d2]) [0..<d0 * d1])"
  by (simp add: tab3_def)

lemma wf_tab3 [simp]: "wf_tensor (tab3 d0 d1 d2 f)"
proof -
  have "rect d2 (map (\<lambda>r. map (f (r div d1) (r mod d1)) [0..<d2]) [0..<d0 * d1])"
    by (simp add: rect_def list_all_iff)
  from length_concat_rect[OF this] show ?thesis
    by (simp add: wf_tensor_def numel_def data_tab3)
qed

lemma slice_tab3:
  assumes "s < d0" and "b < d1"
  shows "slice (tab3 d0 d1 d2 f) s b = map (f s b) [0..<d2]"
proof -
  let ?X = "map (\<lambda>r. map (f (r div d1) (r mod d1)) [0..<d2]) [0..<d0 * d1]"
  have "list_all (\<lambda>r. length r = d2) ?X"
    by (simp add: list_all_iff)
  moreover from assms have i: "s * d1 + b < length ?X"
    by (simp add: idx2_less)
  ultimately have "take d2 (drop ((s * d1 + b) * d2) (concat ?X)) = ?X ! (s * d1 + b)"
    by (rule take_drop_concat)
  also from i assms have "\<dots> = map (f s b) [0..<d2]"
    by simp
  finally show ?thesis
    by (simp add: slice_def data_tab3)
qed

lemma get3_tab3:
  assumes "i < d0" and "j < d1" and "k < d2"
  shows "get3 (tab3 d0 d1 d2 f) i j k = f i j k"
proof -
  have "get3 (tab3 d0 d1 d2 f) i j k = slice (tab3 d0 d1 d2 f) i j ! k"
    using assms by (simp add: get3_slice[where ?d0.0=d0 and ?d1.0=d1 and ?d2.0=d2])
  with assms show ?thesis
    by (simp add: slice_tab3)
qed

subsection \<open>How far a convolution branch looks ahead\<close>

lemma NnSeqBnMLP_forward_wf:
  assumes "rowwise m" and "wf_tensor x" and "NnSeqBnMLP_forward m x = Inr y"
  shows "wf_tensor y"
proof -
  from assms(3) obtain d0 d1 d2 where sh: "shape x = [d0, d1, d2]"
    by (auto simp: NnSeqBnMLP_forward_def split: list.splits)
  define X where "X = chunks (d0 * d1) d2 (data x)"
  from assms(3) sh obtain Y where nz: "d0 * d1 \<noteq> 0"
    and Y: "Sequential_forward (training m) (mlp m) X = Inr Y"
    and y: "y = from_rows d0 d1 Y"
    by (auto simp: NnSeqBnMLP_forward_def X_def split: if_splits sum.splits)
  from assms(2) sh have "length (data x) = (d0 * d1) * d2"
    by (simp add: wf_tensor_def numel_def)
  then have rX: "rect d2 X"
    unfolding X_def by (rule rect_chunks)
  from nz have ne: "X \<noteq> []"
    by (auto simp: X_def chunks_def)
  from assms(1) have "\<not> training m \<or> list_all (\<lambda>l. \<not> is_batch_norm (fst l)) (mlp m)"
    by (simp add: rowwise_def)
  from Sequential_forward_rowwise[OF this ne rX Y]
  obtain w' where lY: "length Y = length X" and rY: "rect w' Y"
    by blast
  from lY ne have "Y \<noteq> []" by auto
  with rY have "width Y = w'" by (simp add: rect_width)
  with length_concat_rect[OF rY] lY show ?thesis
    by (simp add: y from_rows_def wf_tensor_def numel_def X_def)
qed

lemma NnSeqBnMLP_forward_agree:
  assumes "rowwise m" and "wf_tensor x" and "wf_tensor x'"
    and "NnSeqBnMLP_forward m x = Inr y" and "NnSeqBnMLP_forward m x' = Inr y'"
    and "shape x = [d0, d1, d2]" and "shape x' = [d0, d1, d2]"
    and "s < d0" and "b < d1" and "slice x s b = slice x' s b"
  shows "slice y s b = slice y' s b"
proof -
  from NnSeqBnMLP_forward_slice[OF assms(1,2,4), of s b] assms
  have "NnSeqBnMLP_row m (slice x s b) = Inr (slice y s b)" by simp
  moreover from NnSeqBnMLP_forward_slice[OF assms(1,3,5), of s b] assms
  have "NnSeqBnMLP_row m (slice x' s b) = Inr (slice y' s b)" by simp
  ultimately show ?thesis
    using assms(10) by simp
qed

lemma built_rowwise:
  assumes "NnSeqBnMLP_built [a, b, c] False lnorm (Some act) m" and "act = GELU \<or> act = Tanh"
  shows "rowwise m"
proof -
  from assms(1) have "map fst (mlp m) = [Linear a b, GELU] @ (if lnorm then [LayerNorm b] else []) @ [Linear b c, act]"
    by (auto simp add: NnSeqBnMLP_built_def NnSeqBnMLP_init_def py_index_def init_loop_body_def
          upt_rec Let_def)
  with assms(2) have "list_all (\<lambda>k. \<not> is_batch_norm k) (map fst (mlp m))"
    by auto
  then show ?thesis
    by (simp add: rowwise_def list_all_iff)
qed

lemma sum_list_cong: "(\<And>x. x \<in> set xs \<Longrightarrow> f x = g x) \<Longrightarrow> sum_list (map f xs) = sum_list (map g xs)"
  by (induction xs) auto

lemma Conv1d_forward_agree:
  assumes "Conv1d_forward c x = Inr y" and "Conv1d_forward c x' = Inr y'"
    and "agreeL (n + pad_right c) x x'"
  shows "agreeL n y y'"
proof -
  from assms(1) obtain B C L where sh: "shape x = [B, C, L]"
    by (auto simp: Conv1d_forward_def split: list.splits)
  with assms(3) have sh': "shape x' = [B, C, L]"
    by (simp add: agreeL_def)
  let ?F = "\<lambda>x b oc t. conv_bias c ! oc
                 + sum_list (map (\<lambda>ci. sum_list (map (\<lambda>j.
                       conv_weight c ! oc ! ci ! j * padded c x b ci (t + j * dilation c))
                     [0..<kernel_size c])) [0..<C])"
  from assms(1) sh have y: "y = tab3 B (out_channels c) L (?F x)"
    by (auto simp: Conv1d_forward_def split: if_splits)
  from assms(2) sh' have y': "y' = tab3 B (out_channels c) L (?F x')"
    by (auto simp: Conv1d_forward_def split: if_splits)
  have pad: "padded c x b ci (t + j * dilation c) = padded c x' b ci (t + j * dilation c)"
    if "b < B" "ci < C" "t \<le> n" "j < kernel_size c" for b ci t j
  proof (cases "pad_left c \<le> t + j * dilation c \<and> t + j * dilation c - pad_left c < L")
    case True
    from that(4) have "j \<le> kernel_size c - 1" by simp
    then have "dilation c * j \<le> dilation c * (kernel_size c - 1)"
      by (rule mult_le_mono2)
    then have "j * dilation c \<le> dilation c * (kernel_size c - 1)"
      by (simp add: mult.commute)
    moreover have "pad_left c \<le> dilation c * (kernel_size c - 1)"
      by (simp add: pad_left_def)
    ultimately have "t + j * dilation c - pad_left c \<le> n + pad_right c"
      unfolding pad_right_def using that(3) True by linarith
    with assms(3) sh that True
    have "get3 x b ci (t + j * dilation c - pad_left c) = get3 x' b ci (t + j * dilation c - pad_left c)"
      by (simp add: agreeL_def)
    with True sh sh' show ?thesis
      by (simp add: padded_def)
  next
    case False
    with sh sh' show ?thesis
      by (auto simp: padded_def)
  qed
  have "?F x b oc t = ?F x' b oc t" if "b < B" "t \<le> n" for b oc t
    using that by (auto intro!: sum_list_cong simp: pad)
  then show ?thesis
    by (simp add: agreeL_def y y' get3_tab3)
qed

lemma BatchNorm1d_forward3_agree:
  assumes "BatchNorm1d_forward3 False l x = Inr y" and "BatchNorm1d_forward3 False l x' = Inr y'"
    and "agreeL n x x'"
  shows "agreeL n y y'"
proof (cases "(False, l, x)" rule: BatchNorm1d_forward3.cases)
  case (1 tr c g b rm rv x0)
  from assms(1) 1 obtain B C L where sh: "shape x = [B, C, L]"
    by (auto split: list.splits)
  with assms(3) have sh': "shape x' = [B, C, L]"
    by (simp add: agreeL_def)
  from assms(1) 1 sh have y: "y = tab3 B C L (\<lambda>bi ci t.
        normalize (rm ! ci) (rv ! ci) (g ! ci) (b ! ci) (get3 x bi ci t))"
    by (auto split: if_splits)
  from assms(2) 1 sh' have y': "y' = tab3 B C L (\<lambda>bi ci t.
        normalize (rm ! ci) (rv ! ci) (g ! ci) (b ! ci) (get3 x' bi ci t))"
    by (auto split: if_splits)
  have "get3 y bi ci t = get3 y' bi ci t" if "bi < B" "ci < C" "t < L" "t \<le> n" for bi ci t
  proof -
    from assms(3) sh that have "get3 x bi ci t = get3 x' bi ci t"
      by (simp add: agreeL_def)
    with that show ?thesis
      by (simp add: y y' get3_tab3)
  qed
  moreover have "shape y = [B, C, L]" "shape y' = [B, C, L]"
    by (simp_all add: y y')
  ultimately show ?thesis
    by (simp add: agreeL_def)
qed (use assms in auto)

lemma wf_BatchNorm1d_forward3: "BatchNorm1d_forward3 tr l x = Inr y \<Longrightarrow> wf_tensor y"
  by (cases "(tr, l, x)" rule: BatchNorm1d_forward3.cases)
     (auto split: if_splits list.splits)

lemma wf_Conv1d_forward: "Conv1d_forward c x = Inr y \<Longrightarrow> wf_tensor y"
  by (auto simp: Conv1d_forward_def split: if_splits list.splits)

lemma wf_relu: "wf_tensor x \<Longrightarrow> wf_tensor (relu x)"
  by (simp add: relu_def wf_tensor_def)

lemma get3_relu:
  assumes "wf_tensor x" and "shape x = [d0, d1, d2]" and "i < d0" and "j < d1" and "k < d2"
  shows "get3 (relu x) i j k = max 0 (get3 x i j k)"
proof -
  from assms have "(i * d1 + j) * d2 + k < (d0 * d1) * d2"
    by (intro idx2_less) (simp_all add: idx2_less)
  with assms(1,2) show ?thesis
    by (simp add: get3_def relu_def wf_tensor_def numel_def)
qed

lemma relu_agree:
  assumes "wf_tensor x" and "wf_tensor x'" and "length (shape x) = 3" and "agreeL n x x'"
  shows "agreeL n (relu x) (relu x')"
proof -
  from assms(3) obtain d0 d1 d2 where sh: "shape x = [d0, d1, d2]"
    by (auto simp: numeral_3_eq_3 length_Suc_conv)
  with assms(4) have sh': "shape x' = [d0, d1, d2]"
    by (simp add: agreeL_def)
  have "shape (relu x) = [d0, d1, d2]" "shape (relu x') = [d0, d1, d2]"
    using sh sh' by (simp_all add: relu_def)
  with assms sh sh' show ?thesis
    by (simp add: agreeL_def get3_relu)
qed

lemma DilatedCNN_forward_agree:
  assumes "\<not> cnn_training layer"
    and "DilatedCNN_forward layer x = Inr y" and "DilatedCNN_forward layer x' = Inr y'"
    and "agreeL (n + pad_right (conv layer)) x x'"
  shows "agreeL n y y'"
proof -
  from assms(1,2) obtain x1 x2 where x1: "Conv1d_forward (conv layer) x = Inr x1"
    and x2: "BatchNorm1d_forward3 False (bn layer) x1 = Inr x2" and y: "y = relu x2"
    by (auto simp: DilatedCNN_forward_def split: sum.splits)
  from assms(1,3) obtain x1' x2' where x1': "Conv1d_forward (conv layer) x' = Inr x1'"
    and x2': "BatchNorm1d_forward3 False (bn layer) x1' = Inr x2'" and y': "y' = relu x2'"
    by (auto simp: DilatedCNN_forward_def split: sum.splits)
  from Conv1d_forward_agree[OF x1 x1' assms(4)] have "agreeL n x1 x1'" .
  from BatchNorm1d_forward3_agree[OF x2 x2' this] have a: "agreeL n x2 x2'" .
  from x1 have "length (shape x1) = 3"
    by (auto simp: Conv1d_forward_def split: if_splits list.splits)
  with BatchNorm1d_forward3_shape[OF x2] have "length (shape x2) = 3" by simp
  with a wf_BatchNorm1d_forward3[OF x2] wf_BatchNorm1d_forward3[OF x2'] show ?thesis
    unfolding y y' by (intro relu_agree)
qed

lemma wf_DilatedCNN_forward:
  assumes "DilatedCNN_forward layer x = Inr y"
  shows "wf_tensor y"
proof -
  from assms obtain x1 x2 where
    x2: "BatchNorm1d_forward3 (cnn_training layer) (bn layer) x1 = Inr x2" and y: "y = relu x2"
    by (auto simp: DilatedCNN_forward_def split: sum.splits)
  from wf_BatchNorm1d_forward3[OF x2] show ?thesis
    unfolding y by (rule wf_relu)
qed

lemma cnn_branch_forward_agree:
  assumes "list_all (\<lambda>layer. \<not> cnn_training layer) layers"
    and "cnn_branch_forward layers x = Inr y" and "cnn_branch_forward layers x' = Inr y'"
    and "agreeL (n + lookahead layers) x x'"
  shows "agreeL n y y'"
  using assms
proof (induction layers arbitrary: x x')
  case Nil
  then show ?case by (simp add: lookahead_def)
next
  case (Cons layer layers)
  from Cons.prems(2) obtain z where z: "DilatedCNN_forward layer x = Inr z"
    and y: "cnn_branch_forward layers z = Inr y"
    by (auto split: sum.splits)
  from Cons.prems(3) obtain z' where z': "DilatedCNN_forward layer x' = Inr z'"
    and y': "cnn_branch_forward layers z' = Inr y'"
    by (auto split: sum.splits)
  from Cons.prems(1) have e: "\<not> cnn_training layer" and es: "list_all (\<lambda>layer. \<not> cnn_training layer) layers"
    by simp_all
  from Cons.prems(4) have "agreeL ((n + lookahead layers) + pad_right (conv layer)) x x'"
    by (simp add: lookahead_def add.commute add.left_commute)
  from DilatedCNN_forward_agree[OF e z z' this] have "agreeL (n + lookahead layers) z z'" .
  from Cons.IH[OF es y y' this] show ?case .
qed

lemma wf_cnn_branch_forward:
  "wf_tensor x \<Longrightarrow> cnn_branch_forward layers x = Inr y \<Longrightarrow> wf_tensor y"
proof (induction layers arbitrary: x)
  case Nil
  then show ?case by simp
next
  case (Cons layer layers)
  from Cons.prems(2) obtain z where z: "DilatedCNN_forward layer x = Inr z"
    and y: "cnn_branch_forward layers z = Inr y"
    by (auto split: sum.splits)
  from Cons.IH[OF wf_DilatedCNN_forward[OF z] y] show ?case .
qed

lemma permute_120_agree:
  assumes "wf_tensor x" and "wf_tensor x'" and "permute_120 x = Inr y" and "permute_120 x' = Inr y'"
    and "agree_upto n x x'"
  shows "agreeL n y y'"
proof -
  from assms(3) obtain d0 d1 d2 where sh: "shape x = [d0, d1, d2]"
    by (auto simp: permute_120_def split: list.splits)
  with assms(5) have sh': "shape x' = [d0, d1, d2]"
    by (simp add: agree_upto_def)
  from assms(3) sh have y: "y = tab3 d1 d2 d0 (\<lambda>j k i. get3 x i j k)"
    by (simp add: permute_120_def)
  from assms(4) sh' have y': "y' = tab3 d1 d2 d0 (\<lambda>j k i. get3 x' i j k)"
    by (simp add: permute_120_def)
  have "get3 x i j k = get3 x' i j k" if "i < d0" "j < d1" "k < d2" "i \<le> n" for i j k
  proof -
    from assms(5) sh that have "slice x i j = slice x' i j"
      by (simp add: agree_upto_def)
    then have "slice x i j ! k = slice x' i j ! k" by simp
    with that show ?thesis
      by (simp add: get3_slice[OF assms(1) sh] get3_slice[OF assms(2) sh'])
  qed
  then show ?thesis
    by (simp add: agreeL_def y y' get3_tab3)
qed

lemma permute_201_agree:
  assumes "permute_201 x = Inr y" and "permute_201 x' = Inr y'" and "agreeL n x x'"
  shows "agree_upto n y y'"
proof -
  from assms(1) obtain d0 d1 d2 where sh: "shape x = [d0, d1, d2]"
    by (auto simp: permute_201_def split: list.splits)
  with assms(3) have sh': "shape x' = [d0, d1, d2]"
    by (simp add: agreeL_def)
  from assms(1) sh have y: "y = tab3 d2 d0 d1 (\<lambda>k i j. get3 x i j k)"
    by (simp add: permute_201_def)
  from assms(2) sh' have y': "y' = tab3 d2 d0 d1 (\<lambda>k i j. get3 x' i j k)"
    by (simp add: permute_201_def)
  from assms(3) sh show ?thesis
    by (simp add: agree_upto_def y y' slice_tab3 agreeL_def)
qed

lemma wf_permute_201: "permute_201 x = Inr y \<Longrightarrow> wf_tensor y"
  by (auto simp: permute_201_def split: list.splits)

lemma wf_permute_120: "permute_120 x = Inr y \<Longrightarrow> wf_tensor y"
  by (auto simp: permute_120_def split: list.splits)

lemma cat_dim2_rows:
  assumes "wf_tensor a" and "wf_tensor b" and "cat_dim2 a b = Inr c" and "shape a = [t, n, w1]"
  obtains w2 where "shape b = [t, n, w2]" and "shape c = [t, n, w1 + w2]"
    and "data c = concat (map2 (@) (rows3 a) (rows3 b))"
    and "rect (w1 + w2) (map2 (@) (rows3 a) (rows3 b))"
    and "length (map2 (@) (rows3 a) (rows3 b)) = t * n"
proof -
  from assms(3,4) obtain w2 where shb: "shape b = [t, n, w2]"
    and shc: "shape c = [t, n, w1 + w2]"
    and dc: "data c = concat (map2 (@) (rows3 a) (rows3 b))"
    by (auto simp: cat_dim2_def split: list.splits if_splits)
  from assms(1,4) have "length (data a) = (t * n) * w1"
    by (simp add: wf_tensor_def numel_def)
  then have ra: "rect w1 (rows3 a)"
    using assms(4) by (simp add: rows3_def rect_chunks)
  from assms(2) shb have "length (data b) = (t * n) * w2"
    by (simp add: wf_tensor_def numel_def)
  then have rb: "rect w2 (rows3 b)"
    using shb by (simp add: rows3_def rect_chunks)
  have la: "length (rows3 a) = t * n" and lb: "length (rows3 b) = t * n"
    using assms(4) shb by (simp_all add: rows3_def)
  from ra rb have "rect (w1 + w2) (map2 (@) (rows3 a) (rows3 b))"
    by (auto simp: rect_def list_all_iff dest!: set_zip_leftD set_zip_rightD
          elim!: in_set_zipE)
  with shb shc dc la lb that show ?thesis
    by simp
qed

lemma wf_cat_dim2:
  assumes "wf_tensor a" and "wf_tensor b" and "cat_dim2 a b = Inr c"
  shows "wf_tensor c"
proof -
  from assms(3) obtain t n w1 where sha: "shape a = [t, n, w1]"
    by (auto simp: cat_dim2_def split: list.splits)
  from cat_dim2_rows[OF assms sha] obtain w2 where
    "shape c = [t, n, w1 + w2]" "data c = concat (map2 (@) (rows3 a) (rows3 b))"
    "rect (w1 + w2) (map2 (@) (rows3 a) (rows3 b))" "length (map2 (@) (rows3 a) (rows3 b)) = t * n"
    by blast
  with length_concat_rect[of "w1 + w2" "map2 (@) (rows3 a) (rows3 b)"] show ?thesis
    by (simp add: wf_tensor_def numel_def)
qed

lemma slice_cat_dim2:
  assumes "wf_tensor a" and "wf_tensor b" and "cat_dim2 a b = Inr c" and "shape a = [t, n, w1]"
    and "s < t" and "j < n"
  shows "slice c s j = slice a s j @ slice b s j"
proof -
  from cat_dim2_rows[OF assms(1-4)] obtain w2 where shb: "shape b = [t, n, w2]"
    and shc: "shape c = [t, n, w1 + w2]" and dc: "data c = concat (map2 (@) (rows3 a) (rows3 b))"
    and r: "rect (w1 + w2) (map2 (@) (rows3 a) (rows3 b))"
    and l: "length (map2 (@) (rows3 a) (rows3 b)) = t * n"
    by blast
  from assms(5,6) have i: "s * n + j < t * n"
    by (rule idx2_less)
  with r l have "slice c s j = map2 (@) (rows3 a) (rows3 b) ! (s * n + j)"
    by (simp add: slice_def shc dc take_drop_concat rect_def)
  also from i l have "\<dots> = rows3 a ! (s * n + j) @ rows3 b ! (s * n + j)"
    by simp
  finally show ?thesis
    using assms(4-6) shb by (simp add: slice_rows)
qed

lemma cat_dim2_agree:
  assumes "wf_tensor a" and "wf_tensor b" and "wf_tensor a'" and "wf_tensor b'"
    and "cat_dim2 a b = Inr c" and "cat_dim2 a' b' = Inr c'"
    and "agree_upto k a a'" and "agree_upto k b b'"
  shows "agree_upto k c c'"
proof -
  from assms(5) obtain t n w1 where sha: "shape a = [t, n, w1]"
    by (auto simp: cat_dim2_def split: list.splits)
  with assms(7) have sha': "shape a' = [t, n, w1]"
    by (simp add: agree_upto_def)
  from cat_dim2_rows[OF assms(1,2,5) sha] obtain w2 where shb: "shape b = [t, n, w2]"
    and shc: "shape c = [t, n, w1 + w2]"
    by blast
  from cat_dim2_rows[OF assms(3,4,6) sha'] obtain w2' where shb': "shape b' = [t, n, w2']"
    and shc': "shape c' = [t, n, w1 + w2']"
    by blast
  from assms(8) shb shb' have "w2' = w2"
    by (simp add: agree_upto_def)
  have "slice c s j = slice c' s j" if "s < t" "j < n" "s \<le> k" for s j
  proof -
    from assms(7) sha that have "slice a s j = slice a' s j"
      by (simp add: agree_upto_def)
    moreover from assms(8) shb that have "slice b s j = slice b' s j"
      by (simp add: agree_upto_def)
    ultimately show ?thesis
      using that(1,2) by (simp add: slice_cat_dim2[OF assms(1,2,5) sha] slice_cat_dim2[OF assms(3,4,6) sha'])
  qed
  with shc shc' \<open>w2' = w2\<close> show ?thesis
    by (simp add: agree_upto_def)
qed

lemma NnSeqBnMLP_forward_agree_upto:
  assumes "rowwise m" and "wf_tensor x" and "wf_tensor x'"
    and "NnSeqBnMLP_forward m x = Inr y" and "NnSeqBnMLP_forward m x' = Inr y'"
    and "shape y = shape y'" and "agree_upto n x x'"
  shows "agree_upto n y y'"
proof -
  from assms(4) obtain d0 d1 d2 where sh: "shape x = [d0, d1, d2]"
    by (auto simp: NnSeqBnMLP_forward_def split: list.splits)
  with assms(7) have sh': "shape x' = [d0, d1, d2]"
    by (simp add: agree_upto_def)
  from NnSeqBnMLP_forward_shape[OF assms(4) sh] obtain w where shy: "shape y = [d0, d1, w]" ..
  have "slice y s b = slice y' s b" if "s < d0" "b < d1" "s \<le> n" for s b
  proof -
    from assms(7) sh that have "slice x s b = slice x' s b"
      by (simp add: agree_upto_def)
    from NnSeqBnMLP_forward_agree[OF assms(1-5) sh sh' that(1,2) this] show ?thesis .
  qed
  with shy assms(6) show ?thesis
    by (simp add: agree_upto_def)
qed

lemma lookahead_built:
  "list_all (DilatedCNN_init inc outc ksize dil) layers
     \<Longrightarrow> lookahead layers = length layers * same_pad_right ksize dil"
  by (induction layers)
     (simp_all add: lookahead_def DilatedCNN_init_def pad_right_def pad_left_def same_pad_right_def)

lemma branch_agree_upto:
  assumes ev: "list_all (\<lambda>layer. \<not> cnn_training layer) layers"
    and x: "permute_120 x0 = Inr x" and x': "permute_120 x0' = Inr x'"
    and o1: "cnn_branch_forward layers x = Inr o1" and o1': "cnn_branch_forward layers x' = Inr o1'"
    and out1: "permute_201 o1 = Inr out1" and out1': "permute_201 o1' = Inr out1'"
    and wf: "wf_tensor x0" "wf_tensor x0'"
    and ag: "agree_upto (t + lookahead layers) x0 x0'"
  shows "agree_upto t out1 out1'"
proof -
  from permute_120_agree[OF wf x x' ag] have "agreeL (t + lookahead layers) x x'" .
  from cnn_branch_forward_agree[OF ev o1 o1' this] have "agreeL t o1 o1'" .
  from permute_201_agree[OF out1 out1' this] show ?thesis .
qed

text \<open>
  Claim C1, as amended. The convolutions of a branch are dilated and padded with
  \<^verbatim>\<open>padding='same'\<close>: the \<open>dilation * (kernel_size - 1)\<close> zeros are split between the two
  ends of the sequence, so a layer reads up to \<open>same_pad_right kernel_size dilation\<close> time
  steps ahead. For a network as its constructor builds it, in evaluation mode, and two
  well-formed inputs that agree at every time step up to and including
  \<open>t + num_layers * same_pad_right kernel_size dilation\<close>, the two forward outputs agree at
  every time step up to and including \<open>t\<close>.
\<close>

theorem DilatedCNNRegNet_forward_lookahead:
  assumes built: "DilatedCNNRegNet_init inp_dim mid_dim out_dim num_layers ksize dil net"
    and ev: "eval_mode net"
    and wf: "wf_tensor inp" "wf_tensor inp'"
    and fw: "DilatedCNNRegNet_forward net inp hid = Inr (out, h)"
    and fw': "DilatedCNNRegNet_forward net inp' hid' = Inr (out', h')"
    and ag: "agree_upto (t + num_layers * same_pad_right ksize dil) inp inp'"
  shows "agree_upto t out out'"
proof -
  from fw obtain x0 x o1 out1 tmp1 o2 out2 tmp2 tmp where
    x0: "NnSeqBnMLP_forward (mlp_inp net) inp = Inr x0"
    and x: "permute_120 x0 = Inr x"
    and o1: "cnn_branch_forward (cnn_branch1 net) x = Inr o1"
    and out1: "permute_201 o1 = Inr out1"
    and tmp1: "NnSeqBnMLP_forward (mlp1 net) out1 = Inr tmp1"
    and o2: "cnn_branch_forward (cnn_branch2 net) x = Inr o2"
    and out2: "permute_201 o2 = Inr out2"
    and tmp2: "NnSeqBnMLP_forward (mlp2 net) out2 = Inr tmp2"
    and tmp: "cat_dim2 tmp1 tmp2 = Inr tmp"
    and out: "NnSeqBnMLP_forward (mlp_out net) tmp = Inr out"
    unfolding DilatedCNNRegNet_forward_def sum_case_and_then
    by (auto simp: and_then_eq_Inr)
  from fw' obtain x0' x' o1' out1' tmp1' o2' out2' tmp2' tmp' where
    x0': "NnSeqBnMLP_forward (mlp_inp net) inp' = Inr x0'"
    and x': "permute_120 x0' = Inr x'"
    and o1': "cnn_branch_forward (cnn_branch1 net) x' = Inr o1'"
    and out1': "permute_201 o1' = Inr out1'"
    and tmp1': "NnSeqBnMLP_forward (mlp1 net) out1' = Inr tmp1'"
    and o2': "cnn_branch_forward (cnn_branch2 net) x' = Inr o2'"
    and out2': "permute_201 o2' = Inr out2'"
    and tmp2': "NnSeqBnMLP_forward (mlp2 net) out2' = Inr tmp2'"
    and tmp': "cat_dim2 tmp1' tmp2' = Inr tmp'"
    and out': "NnSeqBnMLP_forward (mlp_out net) tmp' = Inr out'"
    unfolding DilatedCNNRegNet_forward_def sum_case_and_then
    by (auto simp: and_then_eq_Inr)
  from built have b_inp: "NnSeqBnMLP_built [inp_dim, mid_dim, mid_dim] False True (Some GELU) (mlp_inp net)"
    and b1: "NnSeqBnMLP_built [mid_dim, mid_dim, mid_dim] False True (Some GELU) (mlp1 net)"
    and b2: "NnSeqBnMLP_built [mid_dim, mid_dim, mid_dim] False True (Some GELU) (mlp2 net)"
    and b_out: "NnSeqBnMLP_built [mid_dim * 2, mid_dim * 2, out_dim] False True (Some Tanh) (mlp_out net)"
    and l1: "length (cnn_branch1 net) = num_layers"
    and c1: "list_all (DilatedCNN_init mid_dim mid_dim ksize dil) (cnn_branch1 net)"
    and l2: "length (cnn_branch2 net) = num_layers"
    and c2: "list_all (DilatedCNN_init mid_dim mid_dim ksize dil) (cnn_branch2 net)"
    by (simp_all add: DilatedCNNRegNet_init_def)
  from ev have e1: "list_all (\<lambda>layer. \<not> cnn_training layer) (cnn_branch1 net)"
    and e2: "list_all (\<lambda>layer. \<not> cnn_training layer) (cnn_branch2 net)"
    by (simp_all add: eval_mode_def)
  have r_inp: "rowwise (mlp_inp net)" and r1: "rowwise (mlp1 net)" and r2: "rowwise (mlp2 net)"
    and r_out: "rowwise (mlp_out net)"
    using b_inp b1 b2 b_out by (auto intro: built_rowwise)
  let ?n = "t + num_layers * same_pad_right ksize dil"
  from x0 obtain T B F where sh: "shape inp = [T, B, F]"
    by (auto simp: NnSeqBnMLP_forward_def split: list.splits)
  with ag have sh': "shape inp' = [T, B, F]"
    by (simp add: agree_upto_def)
  \<comment> \<open>the input block\<close>
  have "shape x0 = [T, B, mid_dim]" "shape x0' = [T, B, mid_dim]"
    using NnSeqBnMLP_forward_shape_built[OF x0 sh b_inp] NnSeqBnMLP_forward_shape_built[OF x0' sh' b_inp]
    by simp_all
  then have "shape x0 = shape x0'" by simp
  from NnSeqBnMLP_forward_agree_upto[OF r_inp wf x0 x0' this ag]
  have ag0: "agree_upto ?n x0 x0'" .
  have wf0: "wf_tensor x0" "wf_tensor x0'"
    using NnSeqBnMLP_forward_wf[OF r_inp wf(1) x0] NnSeqBnMLP_forward_wf[OF r_inp wf(2) x0'] .
  \<comment> \<open>the two convolution branches\<close>
  from ag0 l1 lookahead_built[OF c1] have "agree_upto (t + lookahead (cnn_branch1 net)) x0 x0'"
    by simp
  from branch_agree_upto[OF e1 x x' o1 o1' out1 out1' wf0 this]
  have a1: "agree_upto t out1 out1'" .
  from ag0 l2 lookahead_built[OF c2] have "agree_upto (t + lookahead (cnn_branch2 net)) x0 x0'"
    by simp
  from branch_agree_upto[OF e2 x x' o2 o2' out2 out2' wf0 this]
  have a2: "agree_upto t out2 out2'" .
  have wfo: "wf_tensor out1" "wf_tensor out1'" "wf_tensor out2" "wf_tensor out2'"
    using out1 out1' out2 out2' by (auto intro: wf_permute_201)
  \<comment> \<open>the branch blocks\<close>
  from tmp1 obtain T1 B1 F1 where s1: "shape out1 = [T1, B1, F1]"
    by (auto simp: NnSeqBnMLP_forward_def split: list.splits)
  with a1 have s1': "shape out1' = [T1, B1, F1]"
    by (simp add: agree_upto_def)
  have "shape tmp1 = shape tmp1'"
    using NnSeqBnMLP_forward_shape_built[OF tmp1 s1 b1] NnSeqBnMLP_forward_shape_built[OF tmp1' s1' b1]
    by simp
  from NnSeqBnMLP_forward_agree_upto[OF r1 wfo(1,2) tmp1 tmp1' this a1]
  have at1: "agree_upto t tmp1 tmp1'" .
  from tmp2 obtain T2 B2 F2 where s2: "shape out2 = [T2, B2, F2]"
    by (auto simp: NnSeqBnMLP_forward_def split: list.splits)
  with a2 have s2': "shape out2' = [T2, B2, F2]"
    by (simp add: agree_upto_def)
  have "shape tmp2 = shape tmp2'"
    using NnSeqBnMLP_forward_shape_built[OF tmp2 s2 b2] NnSeqBnMLP_forward_shape_built[OF tmp2' s2' b2]
    by simp
  from NnSeqBnMLP_forward_agree_upto[OF r2 wfo(3,4) tmp2 tmp2' this a2]
  have at2: "agree_upto t tmp2 tmp2'" .
  have wft: "wf_tensor tmp1" "wf_tensor tmp1'" "wf_tensor tmp2" "wf_tensor tmp2'"
    using NnSeqBnMLP_forward_wf[OF r1 wfo(1) tmp1] NnSeqBnMLP_forward_wf[OF r1 wfo(2) tmp1']
      NnSeqBnMLP_forward_wf[OF r2 wfo(3) tmp2] NnSeqBnMLP_forward_wf[OF r2 wfo(4) tmp2'] .
  \<comment> \<open>fusion and the output block\<close>
  from cat_dim2_agree[OF wft(1,3,2,4) tmp tmp' at1 at2] have at: "agree_upto t tmp tmp'" .
  have wfc: "wf_tensor tmp" "wf_tensor tmp'"
    using wf_cat_dim2[OF wft(1,3) tmp] wf_cat_dim2[OF wft(2,4) tmp'] .
  from out obtain T3 B3 F3 where s3: "shape tmp = [T3, B3, F3]"
    by (auto simp: NnSeqBnMLP_forward_def split: list.splits)
  with at have s3': "shape tmp' = [T3, B3, F3]"
    by (simp add: agree_upto_def)
  have "shape out = shape out'"
    using NnSeqBnMLP_forward_shape_built[OF out s3 b_out] NnSeqBnMLP_forward_shape_built[OF out' s3' b_out]
    by simp
  from NnSeqBnMLP_forward_agree_upto[OF r_out wfc out out' this at] show ?thesis .
qed

subsection \<open>The error function is positive on positive arguments\<close>

lemma summable_erf_term: "summable (erf_term x)"
proof (rule summable_comparison_test')
  show "summable (\<lambda>n. \<bar>x\<bar> * ((x\<^sup>2) ^ n /\<^sub>R fact n))"
    by (intro summable_mult summable_exp_generic)
next
  fix n :: nat
  have "norm (erf_term x n) = \<bar>x\<bar> ^ (2 * n + 1) / (fact n * real (2 * n + 1))"
    by (simp add: erf_term_def power_abs abs_mult)
  also have "\<dots> \<le> \<bar>x\<bar> ^ (2 * n + 1) / fact n"
    by (intro divide_left_mono) (simp_all add: mult_le_cancel_left1)
  also have "\<bar>x\<bar> ^ (2 * n + 1) = \<bar>x\<bar> * (\<bar>x\<bar>\<^sup>2) ^ n"
    by (simp add: power_mult)
  also have "\<bar>x\<bar> * (\<bar>x\<bar>\<^sup>2) ^ n / fact n = \<bar>x\<bar> * ((x\<^sup>2) ^ n /\<^sub>R fact n)"
    by (simp add: divide_inverse mult_ac)
  finally show "norm (erf_term x n) \<le> \<bar>x\<bar> * ((x\<^sup>2) ^ n /\<^sub>R fact n)" .
qed

lemma erf_coeff_sums: "(\<lambda>n. erf_coeff n * x ^ n) sums (\<Sum>n. erf_term x n)"
proof -
  have "(\<lambda>n. if even n then 0 else erf_term x ((n - 1) div 2)) sums (\<Sum>n. erf_term x n)"
    by (intro sums_if' summable_sums summable_erf_term)
  moreover have "(if even n then 0 else erf_term x ((n - 1) div 2)) = erf_coeff n * x ^ n" for n
  proof (cases "even n")
    case True
    then show ?thesis by (simp add: erf_coeff_def)
  next
    case False
    then obtain k where "n = 2 * k + 1"
      by (elim oddE)
    then have "2 * ((n - 1) div 2) + 1 = n"
      by simp
    with False show ?thesis
      by (simp add: erf_coeff_def erf_term_def)
  qed
  ultimately show ?thesis by simp
qed

lemma erf_series: "erf x = 2 / sqrt pi * (\<Sum>n. erf_coeff n * x ^ n)"
  using sums_unique[OF erf_coeff_sums[of x]] by (simp add: erf_def erf_term_def)

lemma diffs_erf_coeff:
  "diffs erf_coeff n = (if even n then (- 1) ^ (n div 2) / fact (n div 2) else 0)"
  by (simp add: diffs_def erf_coeff_def)

lemma diffs_erf_sums: "(\<lambda>n. diffs erf_coeff n * x ^ n) sums exp (- (x\<^sup>2))"
proof -
  have "(\<lambda>n. (- (x\<^sup>2)) ^ n /\<^sub>R fact n) sums exp (- (x\<^sup>2))"
    by (rule exp_converges)
  with sums_if[of "\<lambda>_. 0" 0 "\<lambda>n. (- (x\<^sup>2)) ^ n /\<^sub>R fact n" "exp (- (x\<^sup>2))"]
  have "(\<lambda>n. if even n then (- (x\<^sup>2)) ^ (n div 2) /\<^sub>R fact (n div 2) else 0) sums exp (- (x\<^sup>2))"
    by simp
  moreover have "(if even n then (- (x\<^sup>2)) ^ (n div 2) /\<^sub>R fact (n div 2) else 0)
                   = diffs erf_coeff n * x ^ n" for n
  proof (cases "even n")
    case True
    then obtain k where "n = 2 * k" by (elim evenE)
    then show ?thesis
      by (simp add: diffs_erf_coeff power_minus' power_mult divide_inverse mult_ac
            power_mult_distrib [symmetric] flip: power_mult)
  next
    case False
    then show ?thesis by (simp add: diffs_erf_coeff)
  qed
  ultimately show ?thesis by simp
qed

lemma DERIV_erf: "DERIV erf x :> 2 / sqrt pi * exp (- (x\<^sup>2))"
proof -
  have "\<And>y. summable (\<lambda>n. erf_coeff n * y ^ n)"
    using erf_coeff_sums by (rule sums_summable)
  then have "DERIV (\<lambda>x. \<Sum>n. erf_coeff n * x ^ n) x :> (\<Sum>n. diffs erf_coeff n * x ^ n)"
    by (rule termdiffs_strong_converges_everywhere)
  also have "(\<Sum>n. diffs erf_coeff n * x ^ n) = exp (- (x\<^sup>2))"
    using sums_unique[OF diffs_erf_sums[of x]] by simp
  finally have "DERIV (\<lambda>x. 2 / sqrt pi * (\<Sum>n. erf_coeff n * x ^ n)) x :> 2 / sqrt pi * exp (- (x\<^sup>2))"
    by (rule DERIV_cmult)
  then show ?thesis
    by (simp add: erf_series [abs_def])
qed

lemma erf_0 [simp]: "erf 0 = 0"
  by (simp add: erf_def)

lemma erf_pos: "0 < x \<Longrightarrow> 0 < erf x"
proof -
  assume "0 < x"
  then have "erf 0 < erf x"
  proof (rule DERIV_pos_imp_increasing)
    fix y :: real
    show "\<exists>d. DERIV erf y :> d \<and> 0 < d"
      using DERIV_erf[of y] by (intro exI[of _ "2 / sqrt pi * exp (- (y\<^sup>2))"]) simp
  qed
  then show ?thesis by simp
qed

lemma gelu_pos: "0 < x \<Longrightarrow> 0 < gelu x"
proof -
  assume x: "0 < x"
  then have "0 < erf (x / sqrt 2)"
    by (intro erf_pos) simp
  with x show ?thesis
    by (simp add: gelu_def)
qed

subsection \<open>The look-ahead, on an instance\<close>

lemma normalize_0 [simp]: "normalize 0 v g 0 0 = 0"
  by (simp add: normalize_def)

lemma mean_zeros [simp]: "mean [0, 0] = 0" "mean [0, 0, 0, 0] = 0"
  by (simp_all add: mean_def)

lemmas blk_defs = NnSeqBnMLP_forward_def chunks_def upt_rec width_def
  linear_row_def dot_def from_rows_def layer_norm_row_def

lemma S1: "NnSeqBnMLP_forward cx_inp_block \<lparr>shape = [3, 1, 1], data = [0, 0, 1]\<rparr>
     = Inr \<lparr>shape = [3, 1, 2], data = [0, 0, 0, 0, cx_g, 0]\<rparr>"
  by (simp add: blk_defs cx_inp_block_def cx_g_def ln1_def)

lemma Z1: "NnSeqBnMLP_forward cx_inp_block \<lparr>shape = [3, 1, 1], data = [0, 0, 0]\<rparr>
     = Inr \<lparr>shape = [3, 1, 2], data = [0, 0, 0, 0, 0, 0]\<rparr>"
  by (simp add: blk_defs cx_inp_block_def)

lemma S2: "permute_120 \<lparr>shape = [3, 1, 2], data = [0, 0, 0, 0, g, 0]\<rparr>
     = Inr \<lparr>shape = [1, 2, 3], data = [0, 0, g, 0, 0, 0]\<rparr>"
  by (simp add: permute_120_def tab3_def upt_rec get3_def)

lemma S3: "DilatedCNN_forward cx_dcnn \<lparr>shape = [1, 2, 3], data = [0, 0, g, 0, 0, 0]\<rparr>
     = Inr \<lparr>shape = [1, 2, 3], data = [max 0 (normalize 0 1 1 0 g), 0, 0, 0, 0, 0]\<rparr>"
  by (simp add: DilatedCNN_forward_def cx_dcnn_def Conv1d_forward_def tab3_def upt_rec padded_def
        pad_left_def get3_def relu_def)

lemma S4: "permute_201 \<lparr>shape = [1, 2, 3], data = [v, 0, 0, 0, 0, 0]\<rparr>
     = Inr \<lparr>shape = [3, 1, 2], data = [v, 0, 0, 0, 0, 0]\<rparr>"
  by (simp add: permute_201_def tab3_def upt_rec get3_def)

lemma S5: "NnSeqBnMLP_forward cx_block \<lparr>shape = [3, 1, 2], data = [v, 0, 0, 0, 0, 0]\<rparr>
     = Inr \<lparr>shape = [3, 1, 2], data = [gelu (ln1 [gelu v, 0] (gelu v)), 0, 0, 0, 0, 0]\<rparr>"
  by (simp add: blk_defs cx_block_def ln1_def)

lemma S6: "cat_dim2 \<lparr>shape = [3, 1, 2], data = [p, 0, 0, 0, 0, 0]\<rparr> \<lparr>shape = [3, 1, 2], data = [p, 0, 0, 0, 0, 0]\<rparr>
     = Inr \<lparr>shape = [3, 1, 4], data = [p, 0, p, 0, 0, 0, 0, 0, 0, 0, 0, 0]\<rparr>"
  by (simp add: cat_dim2_def rows3_def chunks_def upt_rec)

lemma S7: "NnSeqBnMLP_forward cx_out_block \<lparr>shape = [3, 1, 4], data = [p, 0, p, 0, 0, 0, 0, 0, 0, 0, 0, 0]\<rparr>
     = Inr \<lparr>shape = [3, 1, 1], data = [tanh (ln1 [gelu p, 0, gelu p, 0] (gelu p)), 0, 0]\<rparr>"
  by (simp add: blk_defs cx_out_block_def ln1_def)

lemma cx_net_sel:
  "mlp_inp cx_net = cx_inp_block" "mlp1 cx_net = cx_block" "mlp2 cx_net = cx_block"
  "mlp_out cx_net = cx_out_block" "cnn_branch1 cx_net = [cx_dcnn]" "cnn_branch2 cx_net = [cx_dcnn]"
  by (simp_all add: cx_net_def)

lemma cx_forward_zero:
  "DilatedCNNRegNet_forward cx_net \<lparr>shape = [3, 1, 1], data = [0, 0, 0]\<rparr> None
     = Inr (\<lparr>shape = [3, 1, 1], data = [0, 0, 0]\<rparr>, None)"
proof -
  have s3: "DilatedCNN_forward cx_dcnn \<lparr>shape = [1, 2, 3], data = [0, 0, 0, 0, 0, 0]\<rparr>
              = Inr \<lparr>shape = [1, 2, 3], data = [0, 0, 0, 0, 0, 0]\<rparr>"
    using S3[of 0] by simp
  have s5: "NnSeqBnMLP_forward cx_block \<lparr>shape = [3, 1, 2], data = [0, 0, 0, 0, 0, 0]\<rparr>
              = Inr \<lparr>shape = [3, 1, 2], data = [0, 0, 0, 0, 0, 0]\<rparr>"
    using S5[of 0] by (simp add: ln1_def)
  have s7: "NnSeqBnMLP_forward cx_out_block \<lparr>shape = [3, 1, 4], data = [0, 0, 0, 0, 0, 0, 0, 0, 0, 0, 0, 0]\<rparr>
              = Inr \<lparr>shape = [3, 1, 1], data = [0, 0, 0]\<rparr>"
    using S7[of 0] by (simp add: ln1_def)
  show ?thesis
    by (simp only: DilatedCNNRegNet_forward_def cx_net_sel sum.case cnn_branch_forward.simps
          Z1 S2[of 0] s3 S4[of 0] s5 S6[of 0] s7)
qed

lemma cx_forward_other:
  "DilatedCNNRegNet_forward cx_net \<lparr>shape = [3, 1, 1], data = [0, 0, 1]\<rparr> None
     = Inr (\<lparr>shape = [3, 1, 1], data = [tanh cx_z, 0, 0]\<rparr>, None)"
proof -
  have s3: "DilatedCNN_forward cx_dcnn \<lparr>shape = [1, 2, 3], data = [0, 0, cx_g, 0, 0, 0]\<rparr>
              = Inr \<lparr>shape = [1, 2, 3], data = [cx_v, 0, 0, 0, 0, 0]\<rparr>"
    by (simp only: S3 cx_v_def)
  have s5: "NnSeqBnMLP_forward cx_block \<lparr>shape = [3, 1, 2], data = [cx_v, 0, 0, 0, 0, 0]\<rparr>
              = Inr \<lparr>shape = [3, 1, 2], data = [cx_p, 0, 0, 0, 0, 0]\<rparr>"
    by (simp only: S5 cx_p_def)
  have s7: "NnSeqBnMLP_forward cx_out_block \<lparr>shape = [3, 1, 4], data = [cx_p, 0, cx_p, 0, 0, 0, 0, 0, 0, 0, 0, 0]\<rparr>
              = Inr \<lparr>shape = [3, 1, 1], data = [tanh cx_z, 0, 0]\<rparr>"
    by (simp only: S7 cx_z_def)
  show ?thesis
    by (simp only: DilatedCNNRegNet_forward_def cx_net_sel sum.case cnn_branch_forward.simps
          S1 S2[of cx_g] s3 S4[of cx_v] s5 S6[of cx_p] s7)
qed

lemma var_nonneg: "0 \<le> var xs"
proof -
  have "0 \<le> sum_list (map (\<lambda>x. (x - mean xs)\<^sup>2) xs)"
    by (rule sum_list_nonneg) auto
  then show ?thesis
    by (simp add: var_def mean_def [of "map _ _"])
qed

lemma ln1_pos: "mean xs < x \<Longrightarrow> 0 < ln1 xs x"
proof -
  assume "mean xs < x"
  moreover have "0 < sqrt (var xs + eps)"
    using var_nonneg[of xs] by (simp add: eps_def add_nonneg_pos)
  ultimately show ?thesis
    by (simp add: ln1_def normalize_def)
qed

lemma cx_z_pos: "0 < cx_z"
proof -
  have pair: "0 < ln1 [a, 0] a" if "0 < a" for a
    using that by (intro ln1_pos) (simp add: mean_def)
  have "0 < gelu 1"
    by (rule gelu_pos) simp
  then have "0 < cx_g"
    unfolding cx_g_def by (intro gelu_pos pair) simp
  then have "0 < normalize 0 1 1 0 cx_g"
    by (simp add: normalize_def eps_def)
  then have "0 < cx_v"
    by (simp add: cx_v_def)
  then have "0 < cx_p"
    unfolding cx_p_def by (intro gelu_pos pair) simp
  then have "0 < gelu cx_p"
    by (rule gelu_pos)
  then show ?thesis
    unfolding cx_z_def by (intro ln1_pos) (simp add: mean_def)
qed

lemma cx_net_init: "DilatedCNNRegNet_init 1 2 1 1 3 2 cx_net"
proof -
  have "NnSeqBnMLP_built [1, 2, 2] False True (Some GELU) cx_inp_block"
    "NnSeqBnMLP_built [2, 2, 2] False True (Some GELU) cx_block"
    "NnSeqBnMLP_built [2 * 2, 2 * 2, 1] False True (Some Tanh) cx_out_block"
    by (simp_all add: NnSeqBnMLP_built_def NnSeqBnMLP_init_def py_index_def init_loop_body_def
        upt_rec Let_def cx_inp_block_def cx_block_def cx_out_block_def)
  then show ?thesis
    unfolding DilatedCNNRegNet_init_def cx_net_sel
    by (intro conjI) (simp_all add: DilatedCNN_init_def cx_dcnn_def)
qed

lemma cx_net_eval: "eval_mode cx_net"
  unfolding eval_mode_def cx_net_sel
  by (simp add: cx_inp_block_def cx_block_def cx_out_block_def cx_dcnn_def)

text \<open>
  The claim as stated fails: the two inputs below agree at the time steps 0 and 1 and
  differ at time step 2 only, and the outputs differ at time step 0.
\<close>

theorem DilatedCNNRegNet_forward_lookahead_counterexample:
  "DilatedCNNRegNet_init 1 2 1 1 3 2 cx_net \<and> eval_mode cx_net
   \<and> slice \<lparr>shape = [3, 1, 1], data = [0, 0, 0]\<rparr> 0 0 = slice \<lparr>shape = [3, 1, 1], data = [0, 0, 1]\<rparr> 0 0
   \<and> slice \<lparr>shape = [3, 1, 1], data = [0, 0, 0]\<rparr> 1 0 = slice \<lparr>shape = [3, 1, 1], data = [0, 0, 1]\<rparr> 1 0
   \<and> DilatedCNNRegNet_forward cx_net \<lparr>shape = [3, 1, 1], data = [0, 0, 0]\<rparr> (None :: unit option)
       = Inr (\<lparr>shape = [3, 1, 1], data = [0, 0, 0]\<rparr>, None)
   \<and> DilatedCNNRegNet_forward cx_net \<lparr>shape = [3, 1, 1], data = [0, 0, 1]\<rparr> (None :: unit option)
       = Inr (\<lparr>shape = [3, 1, 1], data = [tanh cx_z, 0, 0]\<rparr>, None)
   \<and> slice \<lparr>shape = [3, 1, 1], data = [0, 0, 0]\<rparr> 0 0
       \<noteq> slice \<lparr>shape = [3, 1, 1], data = [tanh cx_z, 0, 0]\<rparr> 0 0"
proof -
  have same: "slice \<lparr>shape = [3, 1, 1], data = [0, 0, 0]\<rparr> 0 0 = slice \<lparr>shape = [3, 1, 1], data = [0, 0, 1]\<rparr> 0 0"
    "slice \<lparr>shape = [3, 1, 1], data = [0, 0, 0]\<rparr> 1 0 = slice \<lparr>shape = [3, 1, 1], data = [0, 0, 1]\<rparr> 1 0"
    by (simp_all add: slice_def)
  have differ: "slice \<lparr>shape = [3, 1, 1], data = [0, 0, 0]\<rparr> 0 0
       \<noteq> slice \<lparr>shape = [3, 1, 1], data = [tanh cx_z, 0, 0]\<rparr> 0 0"
    using cx_z_pos by (simp add: slice_def)
  from cx_net_init cx_net_eval same cx_forward_zero cx_forward_other differ show ?thesis
    by (intro conjI)
qed

lemma W1: "NnSeqBnMLP_forward cx_inp_block \<lparr>shape = [4, 1, 1], data = [0, 0, 0, 1]\<rparr>
     = Inr \<lparr>shape = [4, 1, 2], data = [0, 0, 0, 0, 0, 0, cx_g, 0]\<rparr>"
  by (simp add: blk_defs cx_inp_block_def cx_g_def ln1_def)

lemma V1: "NnSeqBnMLP_forward cx_inp_block \<lparr>shape = [4, 1, 1], data = [0, 0, 0, 0]\<rparr>
     = Inr \<lparr>shape = [4, 1, 2], data = [0, 0, 0, 0, 0, 0, 0, 0]\<rparr>"
  by (simp add: blk_defs cx_inp_block_def)

lemma W2: "permute_120 \<lparr>shape = [4, 1, 2], data = [0, 0, 0, 0, 0, 0, g, 0]\<rparr>
     = Inr \<lparr>shape = [1, 2, 4], data = [0, 0, 0, g, 0, 0, 0, 0]\<rparr>"
  by (simp add: permute_120_def tab3_def upt_rec get3_def)

lemma W3: "DilatedCNN_forward cx_dcnn \<lparr>shape = [1, 2, 4], data = [0, 0, 0, g, 0, 0, 0, 0]\<rparr>
     = Inr \<lparr>shape = [1, 2, 4], data = [0, max 0 (normalize 0 1 1 0 g), 0, 0, 0, 0, 0, 0]\<rparr>"
  by (simp add: DilatedCNN_forward_def cx_dcnn_def Conv1d_forward_def tab3_def upt_rec padded_def
        pad_left_def get3_def relu_def)

lemma W4: "permute_201 \<lparr>shape = [1, 2, 4], data = [0, v, 0, 0, 0, 0, 0, 0]\<rparr>
     = Inr \<lparr>shape = [4, 1, 2], data = [0, 0, v, 0, 0, 0, 0, 0]\<rparr>"
  by (simp add: permute_201_def tab3_def upt_rec get3_def)

lemma W5: "NnSeqBnMLP_forward cx_block \<lparr>shape = [4, 1, 2], data = [0, 0, v, 0, 0, 0, 0, 0]\<rparr>
     = Inr \<lparr>shape = [4, 1, 2], data = [0, 0, gelu (ln1 [gelu v, 0] (gelu v)), 0, 0, 0, 0, 0]\<rparr>"
  by (simp add: blk_defs cx_block_def ln1_def)

lemma W6: "cat_dim2 \<lparr>shape = [4, 1, 2], data = [0, 0, p, 0, 0, 0, 0, 0]\<rparr>
       \<lparr>shape = [4, 1, 2], data = [0, 0, p, 0, 0, 0, 0, 0]\<rparr>
     = Inr \<lparr>shape = [4, 1, 4], data = [0, 0, 0, 0, p, 0, p, 0, 0, 0, 0, 0, 0, 0, 0, 0]\<rparr>"
  by (simp add: cat_dim2_def rows3_def chunks_def upt_rec)

lemma W7: "NnSeqBnMLP_forward cx_out_block
       \<lparr>shape = [4, 1, 4], data = [0, 0, 0, 0, p, 0, p, 0, 0, 0, 0, 0, 0, 0, 0, 0]\<rparr>
     = Inr \<lparr>shape = [4, 1, 1], data = [0, tanh (ln1 [gelu p, 0, gelu p, 0] (gelu p)), 0, 0]\<rparr>"
  by (simp add: blk_defs cx_out_block_def ln1_def)

lemma cx_forward4_zero:
  "DilatedCNNRegNet_forward cx_net \<lparr>shape = [4, 1, 1], data = [0, 0, 0, 0]\<rparr> None
     = Inr (\<lparr>shape = [4, 1, 1], data = [0, 0, 0, 0]\<rparr>, None)"
proof -
  have s3: "DilatedCNN_forward cx_dcnn \<lparr>shape = [1, 2, 4], data = [0, 0, 0, 0, 0, 0, 0, 0]\<rparr>
              = Inr \<lparr>shape = [1, 2, 4], data = [0, 0, 0, 0, 0, 0, 0, 0]\<rparr>"
    using W3[of 0] by simp
  have s5: "NnSeqBnMLP_forward cx_block \<lparr>shape = [4, 1, 2], data = [0, 0, 0, 0, 0, 0, 0, 0]\<rparr>
              = Inr \<lparr>shape = [4, 1, 2], data = [0, 0, 0, 0, 0, 0, 0, 0]\<rparr>"
    using W5[of 0] by (simp add: ln1_def)
  have s7: "NnSeqBnMLP_forward cx_out_block
              \<lparr>shape = [4, 1, 4], data = [0, 0, 0, 0, 0, 0, 0, 0, 0, 0, 0, 0, 0, 0, 0, 0]\<rparr>
              = Inr \<lparr>shape = [4, 1, 1], data = [0, 0, 0, 0]\<rparr>"
    using W7[of 0] by (simp add: ln1_def)
  show ?thesis
    by (simp only: DilatedCNNRegNet_forward_def cx_net_sel sum.case cnn_branch_forward.simps
          V1 W2[of 0] s3 W4[of 0] s5 W6[of 0] s7)
qed

lemma cx_forward4_other:
  "DilatedCNNRegNet_forward cx_net \<lparr>shape = [4, 1, 1], data = [0, 0, 0, 1]\<rparr> None
     = Inr (\<lparr>shape = [4, 1, 1], data = [0, tanh cx_z, 0, 0]\<rparr>, None)"
proof -
  have s3: "DilatedCNN_forward cx_dcnn \<lparr>shape = [1, 2, 4], data = [0, 0, 0, cx_g, 0, 0, 0, 0]\<rparr>
              = Inr \<lparr>shape = [1, 2, 4], data = [0, cx_v, 0, 0, 0, 0, 0, 0]\<rparr>"
    by (simp only: W3 cx_v_def)
  have s5: "NnSeqBnMLP_forward cx_block \<lparr>shape = [4, 1, 2], data = [0, 0, cx_v, 0, 0, 0, 0, 0]\<rparr>
              = Inr \<lparr>shape = [4, 1, 2], data = [0, 0, cx_p, 0, 0, 0, 0, 0]\<rparr>"
    by (simp only: W5 cx_p_def)
  have s7: "NnSeqBnMLP_forward cx_out_block
              \<lparr>shape = [4, 1, 4], data = [0, 0, 0, 0, cx_p, 0, cx_p, 0, 0, 0, 0, 0, 0, 0, 0, 0]\<rparr>
              = Inr \<lparr>shape = [4, 1, 1], data = [0, tanh cx_z, 0, 0]\<rparr>"
    by (simp only: W7 cx_z_def)
  show ?thesis
    by (simp only: DilatedCNNRegNet_forward_def cx_net_sel sum.case cnn_branch_forward.simps
          W1 W2[of cx_g] s3 W4[of cx_v] s5 W6[of cx_p] s7)
qed

theorem DilatedCNNRegNet_forward_lookahead_witness:
  "DilatedCNNRegNet_init 1 2 1 1 3 2 cx_net \<and> eval_mode cx_net
   \<and> wf_tensor \<lparr>shape = [4, 1, 1], data = [0, 0, 0, 0]\<rparr>
   \<and> wf_tensor \<lparr>shape = [4, 1, 1], data = [0, 0, 0, 1]\<rparr>
   \<and> DilatedCNNRegNet_forward cx_net \<lparr>shape = [4, 1, 1], data = [0, 0, 0, 0]\<rparr> (None :: unit option)
       = Inr (\<lparr>shape = [4, 1, 1], data = [0, 0, 0, 0]\<rparr>, None)
   \<and> DilatedCNNRegNet_forward cx_net \<lparr>shape = [4, 1, 1], data = [0, 0, 0, 1]\<rparr> (None :: unit option)
       = Inr (\<lparr>shape = [4, 1, 1], data = [0, tanh cx_z, 0, 0]\<rparr>, None)
   \<and> agree_upto (0 + 1 * same_pad_right 3 2)
         \<lparr>shape = [4, 1, 1], data = [0, 0, 0, 0]\<rparr> \<lparr>shape = [4, 1, 1], data = [0, 0, 0, 1]\<rparr>
   \<and> agree_upto 0 \<lparr>shape = [4, 1, 1], data = [0, 0, 0, 0]\<rparr>
         \<lparr>shape = [4, 1, 1], data = [0, tanh cx_z, 0, 0]\<rparr>"
proof -
  have wf: "wf_tensor \<lparr>shape = [4, 1, 1], data = [0, 0, 0, 0]\<rparr>"
    "wf_tensor \<lparr>shape = [4, 1, 1], data = [0, 0, 0, 1]\<rparr>"
    by (simp_all add: wf_tensor_def numel_def)
  have "slice \<lparr>shape = [4, 1, 1], data = [0, 0, 0, 0]\<rparr> s 0
          = slice \<lparr>shape = [4, 1, 1], data = [0, 0, 0, 1]\<rparr> s 0" if "s \<le> 2" for s
  proof -
    from that consider "s = 0" | "s = 1" | "s = 2"
      by arith
    then show ?thesis
      by cases (simp_all add: slice_def)
  qed
  then have ag: "agree_upto (0 + 1 * same_pad_right 3 2)
         \<lparr>shape = [4, 1, 1], data = [0, 0, 0, 0]\<rparr> \<lparr>shape = [4, 1, 1], data = [0, 0, 0, 1]\<rparr>"
    by (simp add: agree_upto_def same_pad_right_def)
  from DilatedCNNRegNet_forward_lookahead [OF cx_net_init cx_net_eval wf
      cx_forward4_zero [where ?'a = unit] cx_forward4_other [where ?'a = unit] ag]
    cx_net_init cx_net_eval wf cx_forward4_zero [where ?'a = unit] cx_forward4_other [where ?'a = unit] ag
  show ?thesis
    by (intro conjI)
qed

subsection \<open>One time step of a sequence\<close>









lemma Suc_mult_le: "t < T \<Longrightarrow> t * B + B \<le> T * (B :: nat)"
proof -
  assume "t < T"
  then have "Suc t \<le> T" by simp
  then have "Suc t * B \<le> T * B" by (rule mult_le_mono1)
  then show ?thesis by (simp add: add.commute)
qed



lemma wf_select_time:
  assumes "wf_tensor x" and "shape x = [T, B, F]" and "t < T"
  shows "wf_tensor (select_time x t)"
proof -
  from assms(1,2) have "length (data x) = T * (B * F)"
    by (simp add: wf_tensor_def numel_def)
  moreover from Suc_mult_le[OF assms(3), of "B * F"] have "t * (B * F) + B * F \<le> T * (B * F)" .
  ultimately show ?thesis
    using assms(2) by (simp add: wf_tensor_def numel_def select_time_def)
qed

lemma shape_select_time [simp]: "shape (select_time x t) = [1, shape x ! 1, shape x ! 2]"
  by (simp add: select_time_def)



subsection \<open>Step by step against batched\<close>



















subsection \<open>The harness over the exact library\<close>








subsection \<open>Rounding to binary32\<close>

text \<open>
  \<open>fl\<close> keeps the numbers it can return, changes its argument by at most one part in
  \<open>2\<^sup>2\<^sup>4\<close>, and keeps the sign.
\<close>

lemma fl_0 [simp]: "fl 0 = 0"
  by (simp add: fl_def)

lemma quantum_pos: "0 < quantum x"
  by (simp add: quantum_def)

lemma quantum_minus: "quantum (- x) = quantum x"
  by (simp add: quantum_def)

lemma quantum_le:
  assumes "x \<noteq> 0"
  shows "2 ^ 23 * quantum x \<le> \<bar>x\<bar>"
proof -
  have "2 powr of_int \<lfloor>log 2 \<bar>x\<bar>\<rfloor> \<le> 2 powr log 2 \<bar>x\<bar>"
    by (intro powr_mono) simp_all
  also have "\<dots> = \<bar>x\<bar>"
    using assms by simp
  finally have "2 powr of_int \<lfloor>log 2 \<bar>x\<bar>\<rfloor> \<le> \<bar>x\<bar>" .
  moreover have "2 powr of_int \<lfloor>log 2 \<bar>x\<bar>\<rfloor> = 2 ^ 23 * quantum x"
    by (simp add: quantum_def powr_diff)
  ultimately show ?thesis
    by simp
qed

lemma quantum_gt:
  assumes "x \<noteq> 0"
  shows "\<bar>x\<bar> < 2 ^ 24 * quantum x"
proof -
  have "log 2 \<bar>x\<bar> < of_int (\<lfloor>log 2 \<bar>x\<bar>\<rfloor> + 1)"
    by linarith
  then have "2 powr log 2 \<bar>x\<bar> < 2 powr of_int (\<lfloor>log 2 \<bar>x\<bar>\<rfloor> + 1)"
    by (intro powr_less_mono) simp_all
  then have "\<bar>x\<bar> < 2 powr of_int (\<lfloor>log 2 \<bar>x\<bar>\<rfloor> + 1)"
    using assms by simp
  moreover have "2 powr of_int (\<lfloor>log 2 \<bar>x\<bar>\<rfloor> + 1) = 2 ^ 24 * quantum x"
    by (simp add: quantum_def powr_diff powr_add)
  ultimately show ?thesis
    by simp
qed

lemma quantum_eq:
  assumes "2 powr of_int k \<le> \<bar>x\<bar>" "\<bar>x\<bar> < 2 powr of_int (k + 1)"
  shows "quantum x = 2 powr of_int (k - 23)"
proof -
  have "(0::real) < 2 powr of_int k"
    by simp
  with assms(1) have pos: "0 < \<bar>x\<bar>"
    by linarith
  have "of_int k \<le> log 2 \<bar>x\<bar>"
    using assms(1) pos by (simp add: le_log_iff)
  moreover have "log 2 \<bar>x\<bar> < of_int (k + 1)"
    using assms(2) pos by (simp add: log_less_iff)
  ultimately have "\<lfloor>log 2 \<bar>x\<bar>\<rfloor> = k"
    by (simp add: floor_eq_iff)
  then show ?thesis
    by (simp add: quantum_def)
qed

lemma fl_eq:
  assumes "2 powr of_int k \<le> \<bar>x\<bar>" "\<bar>x\<bar> < 2 powr of_int (k + 1)"
  shows "fl x = of_int (round_half_even (x / 2 powr of_int (k - 23))) * 2 powr of_int (k - 23)"
proof -
  have "(0::real) < 2 powr of_int k"
    by simp
  with assms(1) have "x \<noteq> 0"
    by auto
  then show ?thesis
    by (simp add: fl_def quantum_eq[OF assms])
qed

lemma fl_1 [simp]: "fl 1 = 1"
  using fl_eq[of 0 1] by (simp add: round_half_even_def powr_minus divide_simps)

lemma fl_half [simp]: "fl (1 / 2) = 1 / 2"
  using fl_eq[of "-1" "1 / 2"] by (simp add: round_half_even_def powr_minus divide_simps)

lemma fl_tie [simp]: "fl (16777217 / 16777216) = 1"
  using fl_eq[of 0 "16777217 / 16777216"]
  by (simp add: round_half_even_def powr_minus divide_simps)

lemma fl_small [simp]: "fl (1 / 16777216) = 1 / 16777216"
  using fl_eq[of "-24" "1 / 16777216"]
  by (simp add: round_half_even_def powr_minus divide_simps)


lemma round_half_even_of_int: "round_half_even (of_int n) = n"
  by (simp add: round_half_even_def)

lemma round_half_even_ge:
  assumes "of_int n \<le> y"
  shows "n \<le> round_half_even y"
proof -
  from assms have "n \<le> \<lfloor>y\<rfloor>"
    by (simp add: le_floor_iff)
  then show ?thesis
    unfolding round_half_even_def Let_def by auto
qed

lemma round_half_even_le:
  assumes "y \<le> of_int n"
  shows "round_half_even y \<le> n"
proof (cases "y = of_int n")
  case True
  then show ?thesis
    by (simp add: round_half_even_of_int)
next
  case False
  with assms have "y < of_int n"
    by simp
  then have "\<lfloor>y\<rfloor> < n"
    by (simp add: floor_less_iff)
  then show ?thesis
    unfolding round_half_even_def Let_def by auto
qed

lemma round_half_even_minus: "round_half_even (- y) = - round_half_even y"
proof (cases "y = of_int \<lfloor>y\<rfloor>")
  case True
  then obtain n where "y = of_int n" ..
  then have "- y = of_int (- n)"
    by simp
  then show ?thesis
    unfolding \<open>y = of_int n\<close> by (simp only: round_half_even_of_int)
next
  case False
  then have fm: "\<lfloor>- y\<rfloor> = - \<lfloor>y\<rfloor> - 1"
    by (simp add: floor_minus ceiling_altdef)
  from False have "of_int \<lfloor>y\<rfloor> < y"
    using of_int_floor_le[of y] by linarith
  then show ?thesis
    unfolding round_half_even_def Let_def fm by (auto simp: algebra_simps)
qed

lemma fl_quantum: "x \<noteq> 0 \<Longrightarrow> fl x = of_int (round_half_even (x / quantum x)) * quantum x"
  by (simp add: fl_def)

lemma fl_minus: "fl (- x) = - fl x"
  by (cases "x = 0") (simp_all add: fl_quantum quantum_minus round_half_even_minus)



lemma fl_fl_pos:
  assumes "0 < x"
  shows "fl (fl x) = fl x"
proof -
  define e where "e = \<lfloor>log 2 \<bar>x\<bar>\<rfloor> - 23"
  define n where "n = round_half_even (x / quantum x)"
  have q: "quantum x = 2 powr of_int e"
    by (simp add: quantum_def e_def)
  from assms have nz: "x \<noteq> 0"
    by simp
  have y: "fl x = of_int n * 2 powr of_int e"
    by (simp add: fl_quantum[OF nz] n_def q)
  have "of_int (2 ^ 23) \<le> x / quantum x"
    using quantum_le[OF nz] assms quantum_pos[of x] by (simp add: pos_le_divide_eq)
  then have lo: "2 ^ 23 \<le> n"
    unfolding n_def by (rule round_half_even_ge)
  have "x / quantum x \<le> of_int (2 ^ 24)"
    using quantum_gt[OF nz] assms quantum_pos[of x] by (simp add: pos_divide_le_eq)
  then have hi: "n \<le> 2 ^ 24"
    unfolding n_def by (rule round_half_even_le)
  show ?thesis
  proof (cases "n = 2 ^ 24")
    case True
    have "fl x = 2 powr of_int (e + 24)"
      by (simp add: y True powr_add)
    moreover have "fl (2 powr of_int (e + 24)) = 2 powr of_int (e + 24)"
      using fl_eq[of "e + 24" "2 powr of_int (e + 24)"]
      by (simp add: powr_add powr_diff round_half_even_def)
    ultimately show ?thesis
      by simp
  next
    case False
    with hi have "n < 2 ^ 24"
      by simp
    then have "real_of_int n < 2 ^ 24"
      by (metis of_int_less_iff of_int_numeral of_int_power)
    moreover from lo have "2 ^ 23 \<le> real_of_int n"
      by (metis of_int_le_iff of_int_numeral of_int_power)
    ultimately have "2 powr of_int (e + 23) \<le> \<bar>fl x\<bar>" "\<bar>fl x\<bar> < 2 powr of_int (e + 23 + 1)"
      by (simp_all add: y powr_add abs_mult)
    from fl_eq[OF this] show ?thesis
      by (simp add: y round_half_even_of_int)
  qed
qed

lemma fl_fl [simp]: "fl (fl x) = fl x"
proof -
  consider "x = 0" | "0 < x" | "0 < - x"
    by linarith
  then show ?thesis
  proof cases
    case 1
    then show ?thesis by simp
  next
    case 2
    then show ?thesis by (rule fl_fl_pos)
  next
    case 3
    from fl_fl_pos[OF this] show ?thesis
      by (simp add: fl_minus)
  qed
qed

subsection \<open>The two runs in binary32\<close>

lemma fl_lib_sel:
  "lib_module (float32_library k) = float32_module_forward k"
  "lib_lstm (float32_library k) = float32_LSTM_forward"
  "lib_gru (float32_library k) = float32_GRU_forward"
  by (simp_all add: float32_library_def)

lemma fl_rnn_sel:
  "mlp_inp fl_rnn = fl_inp_block" "mlp1 fl_rnn = ex_block" "mlp2 fl_rnn = ex_block"
  "mlp_out fl_rnn = fl_out_block" "rnn1 fl_rnn = fl_lstm" "rnn2 fl_rnn = fl_gru"
  by (simp_all add: fl_rnn_def)


lemmas fl_rnn_defs = float32_LSTM_forward_def float32_GRU_forward_def
  RNNBase_forward_def state_ok_def chunks_def upt_rec rows3_def
  linear_bias_first_def accumulate_def fadd_def fmul_def
  float32_lstm_cell_def float32_gru_cell_def Let_def









lemma fl_lstm_0:
  "float32_LSTM_forward fl_lstm \<lparr>shape = [1, 1, 1], data = [0]\<rparr> None
     = Inr (\<lparr>shape = [1, 1, 1], data = [0]\<rparr>, [[([0], [0])]])"
  by (simp add: fl_rnn_defs fl_lstm_def)

lemma fl_lstm_1:
  "float32_LSTM_forward fl_lstm \<lparr>shape = [1, 1, 1], data = [fl_x]\<rparr> (Some [[([0], [0])]])
     = Inr (\<lparr>shape = [1, 1, 1], data = [fl_h]\<rparr>, [[([fl_h], [fl_c])]])"
  by (simp add: fl_rnn_defs fl_lstm_def fl_h_def fl_c_def fl_x_def)

lemma fl_gru_0:
  "float32_GRU_forward fl_gru \<lparr>shape = [1, 1, 1], data = [0]\<rparr> None
     = Inr (\<lparr>shape = [1, 1, 1], data = [0]\<rparr>, [[[0]]])"
  by (simp add: fl_rnn_defs fl_gru_def)

lemma fl_gru_1:
  "float32_GRU_forward fl_gru \<lparr>shape = [1, 1, 1], data = [x]\<rparr> (Some [[[0]]])
     = Inr (\<lparr>shape = [1, 1, 1], data = [0]\<rparr>, [[[0]]])"
  by (simp add: fl_rnn_defs fl_gru_def)



lemma fl_cat_1:
  "cat_dim2 \<lparr>shape = [1, 1, 1], data = [m]\<rparr> \<lparr>shape = [1, 1, 1], data = [0]\<rparr>
     = Inr \<lparr>shape = [1, 1, 2], data = [m, 0]\<rparr>"
  by (simp add: cat_dim2_def rows3_def chunks_def upt_rec)





lemma fl_select:
  "select_time \<lparr>shape = [2, 1, 2], data = [1, 0, 1, 1]\<rparr> 0 = \<lparr>shape = [1, 1, 2], data = [1, 0]\<rparr>"
  "select_time \<lparr>shape = [2, 1, 2], data = [1, 0, 1, 1]\<rparr> 1 = \<lparr>shape = [1, 1, 2], data = [1, 1]\<rparr>"
  by (simp_all add: select_time_def)





















lemma re_cat:
  "cat_dim2 \<lparr>shape = [2, 1, 1], data = [0, m]\<rparr> \<lparr>shape = [2, 1, 1], data = [0, 0]\<rparr>
     = Inr \<lparr>shape = [2, 1, 2], data = [0, 0, m, 0]\<rparr>"
  by (simp add: cat_dim2_def rows3_def chunks_def upt_rec)




text \<open>
  With one order for the calls of every size the two runs agree on this sequence: what
  separates them above is the choice of the kernel by the number of rows.
\<close>

lemmas fl_defs' = NnSeqBnMLP_forward_on_def fl_lib_sel always_first_def chunks_def upt_rec width_def
  linear_bias_first_def linear_bias_last_def accumulate_def fadd_def fmul_def from_rows_def

lemma same_inp_block_2:
  "NnSeqBnMLP_forward_on (float32_library always_first) fl_inp_block \<lparr>shape = [2, 1, 2], data = [1, 0, 1, 1]\<rparr>
     = Inr \<lparr>shape = [2, 1, 1], data = [0, fl_x]\<rparr>"
  by (simp add: fl_defs' fl_inp_block_def fl_x_def)

lemma same_lstm_2:
  "float32_LSTM_forward fl_lstm \<lparr>shape = [2, 1, 1], data = [0, fl_x]\<rparr> None
     = Inr (\<lparr>shape = [2, 1, 1], data = [0, fl_h]\<rparr>, [[([fl_h], [fl_c])]])"
  by (simp add: fl_rnn_defs fl_lstm_def fl_h_def fl_c_def fl_x_def)

lemma same_block_2:
  "NnSeqBnMLP_forward_on (float32_library always_first) ex_block \<lparr>shape = [2, 1, 1], data = [0, fl_h]\<rparr>
     = Inr \<lparr>shape = [2, 1, 1], data = [0, fl_m]\<rparr>"
  by (simp add: fl_defs' ex_block_def fl_m_def fl_h_def)

lemma same_block_0:
  "NnSeqBnMLP_forward_on (float32_library always_first) ex_block \<lparr>shape = [2, 1, 1], data = [0, 0]\<rparr>
     = Inr \<lparr>shape = [2, 1, 1], data = [0, 0]\<rparr>"
  by (simp add: fl_defs' ex_block_def)

lemma same_gru_2:
  "float32_GRU_forward fl_gru \<lparr>shape = [2, 1, 1], data = [0, x]\<rparr> None
     = Inr (\<lparr>shape = [2, 1, 1], data = [0, 0]\<rparr>, [[[0]]])"
  by (simp add: fl_rnn_defs fl_gru_def)

lemma same_out_block_2:
  "NnSeqBnMLP_forward_on (float32_library always_first) fl_out_block
       \<lparr>shape = [2, 1, 2], data = [0, 0, fl_m, 0]\<rparr>
     = Inr \<lparr>shape = [2, 1, 1], data = [0, fl_q]\<rparr>"
  by (simp add: fl_defs' fl_out_block_def fl_q_def fl_m_def)

lemma same_batched:
  "RnnRegNet_forward_on (float32_library always_first) fl_rnn \<lparr>shape = [2, 1, 2], data = [1, 0, 1, 1]\<rparr> None
     = Inr (\<lparr>shape = [2, 1, 1], data = [0, fl_q]\<rparr>, ([[([fl_h], [fl_c])]], [[[0]]]))"
  by (simp only: RnnRegNet_forward_on_def fl_rnn_sel fl_lib_sel Let_def option.case prod.case
        sum.case same_inp_block_2 same_lstm_2 same_block_2 same_gru_2 same_block_0 re_cat
        same_out_block_2)

lemma same_inp_block_0:
  "NnSeqBnMLP_forward_on (float32_library always_first) fl_inp_block \<lparr>shape = [1, 1, 2], data = [1, 0]\<rparr>
     = Inr \<lparr>shape = [1, 1, 1], data = [0]\<rparr>"
  by (simp add: fl_defs' fl_inp_block_def)

lemma same_inp_block_1:
  "NnSeqBnMLP_forward_on (float32_library always_first) fl_inp_block \<lparr>shape = [1, 1, 2], data = [1, 1]\<rparr>
     = Inr \<lparr>shape = [1, 1, 1], data = [fl_x]\<rparr>"
  by (simp add: fl_defs' fl_inp_block_def fl_x_def)

lemma same_block_row_0:
  "NnSeqBnMLP_forward_on (float32_library always_first) ex_block \<lparr>shape = [1, 1, 1], data = [0]\<rparr>
     = Inr \<lparr>shape = [1, 1, 1], data = [0]\<rparr>"
  by (simp add: fl_defs' ex_block_def)

lemma same_block_row_1:
  "NnSeqBnMLP_forward_on (float32_library always_first) ex_block \<lparr>shape = [1, 1, 1], data = [fl_h]\<rparr>
     = Inr \<lparr>shape = [1, 1, 1], data = [fl_m]\<rparr>"
  by (simp add: fl_defs' ex_block_def fl_m_def fl_h_def)

lemma same_out_block_0:
  "NnSeqBnMLP_forward_on (float32_library always_first) fl_out_block \<lparr>shape = [1, 1, 2], data = [0, 0]\<rparr>
     = Inr \<lparr>shape = [1, 1, 1], data = [0]\<rparr>"
  by (simp add: fl_defs' fl_out_block_def)

lemma same_out_block_1:
  "NnSeqBnMLP_forward_on (float32_library always_first) fl_out_block \<lparr>shape = [1, 1, 2], data = [fl_m, 0]\<rparr>
     = Inr \<lparr>shape = [1, 1, 1], data = [fl_q]\<rparr>"
  by (simp add: fl_defs' fl_out_block_def fl_q_def fl_m_def)

lemma same_step_0:
  "RnnRegNet_forward_on (float32_library always_first) fl_rnn \<lparr>shape = [1, 1, 2], data = [1, 0]\<rparr> None
     = Inr (\<lparr>shape = [1, 1, 1], data = [0]\<rparr>, ([[([0], [0])]], [[[0]]]))"
  by (simp only: RnnRegNet_forward_on_def fl_rnn_sel fl_lib_sel Let_def option.case prod.case
        sum.case same_inp_block_0 fl_lstm_0 same_block_row_0 fl_gru_0 fl_cat_1 same_out_block_0)

lemma same_step_1:
  "RnnRegNet_forward_on (float32_library always_first) fl_rnn \<lparr>shape = [1, 1, 2], data = [1, 1]\<rparr>
       (Some (Some [[([0], [0])]], Some [[[0]]]))
     = Inr (\<lparr>shape = [1, 1, 1], data = [fl_q]\<rparr>, ([[([fl_h], [fl_c])]], [[[0]]]))"
  by (simp only: RnnRegNet_forward_on_def fl_rnn_sel fl_lib_sel Let_def option.case prod.case
        sum.case same_inp_block_1 fl_lstm_1 same_block_row_1 fl_gru_1 same_block_row_0 fl_cat_1
        same_out_block_1)

lemma same_steps:
  "step_by_step_on (float32_library always_first) fl_rnn \<lparr>shape = [2, 1, 2], data = [1, 0, 1, 1]\<rparr>
     = Inr \<lparr>shape = [2, 1, 1], data = [0, fl_q]\<rparr>"
proof -
  have "step_loop_on (float32_library always_first) fl_rnn \<lparr>shape = [2, 1, 2], data = [1, 0, 1, 1]\<rparr> [0, 1] None []
     = Inr ([\<lparr>shape = [1, 1, 1], data = [0]\<rparr>, \<lparr>shape = [1, 1, 1], data = [fl_q]\<rparr>],
            Some (Some [[([fl_h], [fl_c])]], Some [[[0]]]))"
    by (simp only: step_loop_on.simps fl_select same_step_0 same_step_1 sum.case prod.case append.simps)
  moreover have "[0..<shape \<lparr>shape = [2, 1, 2], data = [1, 0, 1, 1]\<rparr> ! 0] = [0, 1]"
    by (simp add: upt_rec)
  ultimately show ?thesis
    by (simp add: step_by_step_on_def cat_dim0_def)
qed


end
